theory Spec2Isabelle
  imports Complex_Main "HOL-Library.Word"
begin

unbundle bit_operations_syntax

section \<open>Constants and enumerations\<close>

text \<open>
  The render-state layer of \<^verbatim>\<open>Source/Urho3D/Graphics/Diligent/DiligentGraphics.cpp\<close>.
  C++ \<^verbatim>\<open>unsigned\<close> is \<^typ>\<open>32 word\<close>, \<^verbatim>\<open>unsigned long long\<close> is \<^typ>\<open>64 word\<close>,
  a pointer is an object identity \<^typ>\<open>nat option\<close> with \<^term>\<open>None\<close> for \<^verbatim>\<open>nullptr\<close>, and a
  fixed-size C array indexed by an \<^verbatim>\<open>unsigned\<close> is a function from \<^typ>\<open>32 word\<close>.
  C++ \<^verbatim>\<open>int\<close> rectangle coordinates are \<^typ>\<open>int\<close>: the only arithmetic on them that
  could leave the 32-bit range is \<^verbatim>\<open>left_ + 1\<close> at \<^verbatim>\<open>INT_MAX\<close>, which is undefined in the source.
  A \<^verbatim>\<open>float\<close> is read as the real number it denotes. A member \<^verbatim>\<open>name_\<close> of the
  source is the field \<open>name\<close> (Isabelle keeps names that end in an underscore for itself),
  with a prefix where two classes share a member name.

  \<^verbatim>\<open>GraphicsDefs.h\<close> is not among the sources at hand; the limits below are its
  desktop values, and the enumerators are listed in the order in which the translation
  tables of \<^verbatim>\<open>DiligentGraphics.cpp\<close> (\<^verbatim>\<open>diligentCmpFunc\<close>, \<^verbatim>\<open>diligentStencilOp\<close>,
  \<^verbatim>\<open>diligentCullMode\<close>, \<^verbatim>\<open>diligentFillMode\<close>, \<^verbatim>\<open>diligentSrcBlend\<close>) index them.
\<close>

definition M_MAX_UNSIGNED :: "32 word" where
  "M_MAX_UNSIGNED = 0xffffffff"

definition MAX_RENDERTARGETS :: "32 word" where
  "MAX_RENDERTARGETS = 4"

definition MAX_VERTEX_STREAMS :: "32 word" where
  "MAX_VERTEX_STREAMS = 4"

definition MAX_TEXTURE_UNITS :: "32 word" where
  "MAX_TEXTURE_UNITS = 16"

definition MAX_SHADER_PARAMETER_GROUPS :: "32 word" where
  "MAX_SHADER_PARAMETER_GROUPS = 7"

definition MAX_CUBEMAP_FACES :: "32 word" where
  "MAX_CUBEMAP_FACES = 6"

text \<open>The index values of a loop \<^verbatim>\<open>for (unsigned i = 0; i < n; ++i)\<close>.\<close>

definition indices :: "32 word \<Rightarrow> 32 word list" where
  "indices n = map of_nat [0..<unat n]"

datatype PrimitiveType =
  TRIANGLE_LIST | LINE_LIST | POINT_LIST | TRIANGLE_STRIP | LINE_STRIP | TRIANGLE_FAN

datatype BlendMode =
  BLEND_REPLACE | BLEND_ADD | BLEND_MULTIPLY | BLEND_ALPHA | BLEND_ADDALPHA
  | BLEND_PREMULALPHA | BLEND_INVDESTALPHA | BLEND_SUBTRACT | BLEND_SUBTRACTALPHA

datatype CompareMode =
  CMP_ALWAYS | CMP_EQUAL | CMP_NOTEQUAL | CMP_LESS | CMP_LESSEQUAL | CMP_GREATER
  | CMP_GREATEREQUAL

datatype CullMode = CULL_NONE | CULL_CCW | CULL_CW

datatype FillMode = FILL_SOLID | FILL_WIREFRAME | FILL_POINT

datatype StencilOp = OP_KEEP | OP_ZERO | OP_REF | OP_INCR | OP_DECR

datatype TextureUsage =
  TEXTURE_STATIC | TEXTURE_DYNAMIC | TEXTURE_RENDERTARGET | TEXTURE_DEPTHSTENCIL

datatype TextureFilterMode =
  FILTER_NEAREST | FILTER_BILINEAR | FILTER_TRILINEAR | FILTER_ANISOTROPIC
  | FILTER_NEAREST_ANISOTROPIC | FILTER_DEFAULT

datatype ShaderType = VS | PS

datatype TextureType = Texture2D | TextureCube | TextureOther

text \<open>The integer an enumerator converts to where the source shifts or indexes with it.\<close>

fun BlendMode_int :: "BlendMode \<Rightarrow> 32 word" where
  "BlendMode_int BLEND_REPLACE = 0"
| "BlendMode_int BLEND_ADD = 1"
| "BlendMode_int BLEND_MULTIPLY = 2"
| "BlendMode_int BLEND_ALPHA = 3"
| "BlendMode_int BLEND_ADDALPHA = 4"
| "BlendMode_int BLEND_PREMULALPHA = 5"
| "BlendMode_int BLEND_INVDESTALPHA = 6"
| "BlendMode_int BLEND_SUBTRACT = 7"
| "BlendMode_int BLEND_SUBTRACTALPHA = 8"

fun CompareMode_int :: "CompareMode \<Rightarrow> 32 word" where
  "CompareMode_int CMP_ALWAYS = 0"
| "CompareMode_int CMP_EQUAL = 1"
| "CompareMode_int CMP_NOTEQUAL = 2"
| "CompareMode_int CMP_LESS = 3"
| "CompareMode_int CMP_LESSEQUAL = 4"
| "CompareMode_int CMP_GREATER = 5"
| "CompareMode_int CMP_GREATEREQUAL = 6"

fun CullMode_int :: "CullMode \<Rightarrow> 32 word" where
  "CullMode_int CULL_NONE = 0"
| "CullMode_int CULL_CCW = 1"
| "CullMode_int CULL_CW = 2"

fun FillMode_int :: "FillMode \<Rightarrow> 32 word" where
  "FillMode_int FILL_SOLID = 0"
| "FillMode_int FILL_WIREFRAME = 1"
| "FillMode_int FILL_POINT = 2"

fun StencilOp_int :: "StencilOp \<Rightarrow> 32 word" where
  "StencilOp_int OP_KEEP = 0"
| "StencilOp_int OP_ZERO = 1"
| "StencilOp_int OP_REF = 2"
| "StencilOp_int OP_INCR = 3"
| "StencilOp_int OP_DECR = 4"

subsection \<open>The translation tables to the device's enumerations\<close>

datatype COMPARISON_FUNCTION =
  COMPARISON_FUNC_ALWAYS | COMPARISON_FUNC_EQUAL | COMPARISON_FUNC_NOT_EQUAL
  | COMPARISON_FUNC_LESS | COMPARISON_FUNC_LESS_EQUAL | COMPARISON_FUNC_GREATER
  | COMPARISON_FUNC_GREATER_EQUAL

datatype BLEND_FACTOR =
  BLEND_FACTOR_ZERO | BLEND_FACTOR_ONE | BLEND_FACTOR_SRC_ALPHA | BLEND_FACTOR_INV_SRC_ALPHA
  | BLEND_FACTOR_DEST_ALPHA | BLEND_FACTOR_INV_DEST_ALPHA | BLEND_FACTOR_DEST_COLOR

datatype BLEND_OPERATION = BLEND_OPERATION_ADD | BLEND_OPERATION_REV_SUBTRACT

datatype STENCIL_OP =
  STENCIL_OP_KEEP | STENCIL_OP_ZERO | STENCIL_OP_REPLACE | STENCIL_OP_INCR_WRAP
  | STENCIL_OP_DECR_WRAP

datatype CULL_MODE = CULL_MODE_NONE | CULL_MODE_BACK | CULL_MODE_FRONT

datatype FILL_MODE = FILL_MODE_SOLID | FILL_MODE_WIREFRAME

fun diligentCmpFunc :: "CompareMode \<Rightarrow> COMPARISON_FUNCTION" where
  "diligentCmpFunc CMP_ALWAYS = COMPARISON_FUNC_ALWAYS"
| "diligentCmpFunc CMP_EQUAL = COMPARISON_FUNC_EQUAL"
| "diligentCmpFunc CMP_NOTEQUAL = COMPARISON_FUNC_NOT_EQUAL"
| "diligentCmpFunc CMP_LESS = COMPARISON_FUNC_LESS"
| "diligentCmpFunc CMP_LESSEQUAL = COMPARISON_FUNC_LESS_EQUAL"
| "diligentCmpFunc CMP_GREATER = COMPARISON_FUNC_GREATER"
| "diligentCmpFunc CMP_GREATEREQUAL = COMPARISON_FUNC_GREATER_EQUAL"

fun diligentBlendEnable :: "BlendMode \<Rightarrow> bool" where
  "diligentBlendEnable BLEND_REPLACE = False"
| "diligentBlendEnable _ = True"

fun diligentSrcBlend :: "BlendMode \<Rightarrow> BLEND_FACTOR" where
  "diligentSrcBlend BLEND_REPLACE = BLEND_FACTOR_ONE"
| "diligentSrcBlend BLEND_ADD = BLEND_FACTOR_ONE"
| "diligentSrcBlend BLEND_MULTIPLY = BLEND_FACTOR_DEST_COLOR"
| "diligentSrcBlend BLEND_ALPHA = BLEND_FACTOR_SRC_ALPHA"
| "diligentSrcBlend BLEND_ADDALPHA = BLEND_FACTOR_SRC_ALPHA"
| "diligentSrcBlend BLEND_PREMULALPHA = BLEND_FACTOR_ONE"
| "diligentSrcBlend BLEND_INVDESTALPHA = BLEND_FACTOR_INV_DEST_ALPHA"
| "diligentSrcBlend BLEND_SUBTRACT = BLEND_FACTOR_ONE"
| "diligentSrcBlend BLEND_SUBTRACTALPHA = BLEND_FACTOR_SRC_ALPHA"

fun diligentDestBlend :: "BlendMode \<Rightarrow> BLEND_FACTOR" where
  "diligentDestBlend BLEND_REPLACE = BLEND_FACTOR_ZERO"
| "diligentDestBlend BLEND_ADD = BLEND_FACTOR_ONE"
| "diligentDestBlend BLEND_MULTIPLY = BLEND_FACTOR_ZERO"
| "diligentDestBlend BLEND_ALPHA = BLEND_FACTOR_INV_SRC_ALPHA"
| "diligentDestBlend BLEND_ADDALPHA = BLEND_FACTOR_ONE"
| "diligentDestBlend BLEND_PREMULALPHA = BLEND_FACTOR_INV_SRC_ALPHA"
| "diligentDestBlend BLEND_INVDESTALPHA = BLEND_FACTOR_DEST_ALPHA"
| "diligentDestBlend BLEND_SUBTRACT = BLEND_FACTOR_ONE"
| "diligentDestBlend BLEND_SUBTRACTALPHA = BLEND_FACTOR_ONE"

fun diligentBlendOp :: "BlendMode \<Rightarrow> BLEND_OPERATION" where
  "diligentBlendOp BLEND_SUBTRACT = BLEND_OPERATION_REV_SUBTRACT"
| "diligentBlendOp BLEND_SUBTRACTALPHA = BLEND_OPERATION_REV_SUBTRACT"
| "diligentBlendOp _ = BLEND_OPERATION_ADD"

fun diligentStencilOp :: "StencilOp \<Rightarrow> STENCIL_OP" where
  "diligentStencilOp OP_KEEP = STENCIL_OP_KEEP"
| "diligentStencilOp OP_ZERO = STENCIL_OP_ZERO"
| "diligentStencilOp OP_REF = STENCIL_OP_REPLACE"
| "diligentStencilOp OP_INCR = STENCIL_OP_INCR_WRAP"
| "diligentStencilOp OP_DECR = STENCIL_OP_DECR_WRAP"

fun diligentCullMode :: "CullMode \<Rightarrow> CULL_MODE" where
  "diligentCullMode CULL_NONE = CULL_MODE_NONE"
| "diligentCullMode CULL_CCW = CULL_MODE_BACK"
| "diligentCullMode CULL_CW = CULL_MODE_FRONT"

fun diligentFillMode :: "FillMode \<Rightarrow> FILL_MODE" where
  "diligentFillMode FILL_SOLID = FILL_MODE_SOLID"
| "diligentFillMode FILL_WIREFRAME = FILL_MODE_WIREFRAME"
| "diligentFillMode FILL_POINT = FILL_MODE_WIREFRAME"

subsection \<open>Primitive counting\<close>

fun GetPrimitiveCount :: "32 word \<Rightarrow> PrimitiveType \<Rightarrow> 32 word" where
  "GetPrimitiveCount elementCount TRIANGLE_LIST = elementCount div 3"
| "GetPrimitiveCount elementCount LINE_LIST = elementCount div 2"
| "GetPrimitiveCount elementCount POINT_LIST = elementCount"
| "GetPrimitiveCount elementCount TRIANGLE_STRIP = elementCount - 2"
| "GetPrimitiveCount elementCount LINE_STRIP = elementCount - 1"
| "GetPrimitiveCount elementCount TRIANGLE_FAN = 0"

section \<open>Objects the graphics state points to\<close>

text \<open>
  Only the members that the modelled functions read or write are kept. The headers that
  declare them (\<^verbatim>\<open>Texture.h\<close>, \<^verbatim>\<open>RenderSurface.h\<close>, \<^verbatim>\<open>VertexBuffer.h\<close>, \<^verbatim>\<open>ShaderVariation.h\<close>,
  \<^verbatim>\<open>ShaderProgram.h\<close>, \<^verbatim>\<open>ConstantBuffer.h\<close>) are not among the sources at hand.
\<close>

record IntRect =
  rect_left :: int
  rect_top :: int
  rect_right :: int
  rect_bottom :: int

record Rect =
  min_x :: real
  min_y :: real
  max_x :: real
  max_y :: real

definition Rect_FULL :: Rect where
  "Rect_FULL = \<lparr>min_x = -1, min_y = -1, max_x = 1, max_y = 1\<rparr>"

definition IntRect_ZERO :: IntRect where
  "IntRect_ZERO = \<lparr>rect_left = 0, rect_top = 0, rect_right = 0, rect_bottom = 0\<rparr>"

record Texture =
  tex_object :: "nat option"
  shaderResourceView :: "nat option"
  sampler :: "nat option"
  resolveTexture :: "nat option"
  backupTexture :: "nat option"
  renderSurface :: "nat option"
  renderSurfaces :: "32 word \<Rightarrow> nat"
  tex_type :: TextureType
  usage :: TextureUsage
  tex_width :: int
  tex_height :: int
  levels :: "32 word"
  format :: "32 word"
  multiSample :: int
  autoResolve :: bool
  resolveDirty :: bool
  levelsDirty :: bool
  parametersDirty :: bool

record RenderSurface =
  parentTexture :: nat
  renderTargetView :: "nat option"
  readOnlyView :: "nat option"
  surf_resolveDirty :: bool

record VertexElement =
  elem_type :: "32 word"
  semantic :: "32 word"
  elem_index :: "8 word"
  perInstance :: bool
  elem_offset :: "32 word"

text \<open>
  \<^verbatim>\<open>VertexBuffer::GetBufferHash(streamIndex)\<close> is declared outside the sources at hand; it
  is kept as the member \<open>bufferHash\<close> of the buffer, a function of the stream index.
\<close>

record VertexBuffer =
  vb_object :: "nat option"
  vertexSize :: "32 word"
  elements :: "VertexElement list"
  bufferHash :: "32 word \<Rightarrow> 64 word"

record IndexBuffer =
  ib_object :: "nat option"
  indexSize :: "32 word"

text \<open>
  A shader variation. What compiling it yields (\<^verbatim>\<open>ShaderVariation::Create\<close> reads files and
  calls the compiler and the device) and what reflection reports are members of the
  object: \<open>compiled_object\<close> and \<open>compiled_output\<close> are the device object and the compiler
  output a call of \<^verbatim>\<open>Create\<close> leaves; \<open>clipPlaneVariation\<close> is
  \<^verbatim>\<open>GetOwner()->GetVariation(type, GetDefinesClipPlane())\<close>; \<open>variableUnits\<close> lists, for each
  variable of a resource binding of this stage in index order, the texture unit that
  \<^verbatim>\<open>getTextureUnitFromVariable\<close> resolves its name to.
\<close>

record ShaderVariation =
  sv_object :: "nat option"
  compilerOutput :: string
  fullName :: string
  compiled_object :: "nat option"
  compiled_output :: string
  clipPlaneVariation :: "nat option"
  constantBufferSizes :: "32 word \<Rightarrow> 32 word"
  constantBufferNames :: "32 word \<Rightarrow> string"
  textureResources :: "string list"
  variableUnits :: "32 word list"

record ShaderParameter =
  bufferPtr :: nat
  param_offset :: "32 word"

record ShaderProgram =
  parameters :: "string \<rightharpoonup> ShaderParameter"
  vsConstantBuffers :: "32 word \<Rightarrow> nat option"
  psConstantBuffers :: "32 word \<Rightarrow> nat option"

record ConstantBuffer =
  cb_object :: "nat option"
  cb_dirty :: bool
  cb_size :: "32 word"
  shadowData :: "8 word list"

section \<open>The device\<close>

text \<open>
  Calls on \<^verbatim>\<open>impl_->deviceContext_\<close> and \<^verbatim>\<open>impl_->device_\<close> are appended to a log, so that
  their order and their absence can be stated. A variable of a resource binding is named by
  the binding, the stage and its index.
\<close>

datatype Variable = Variable nat ShaderType nat

datatype VALUE_TYPE = VT_UNDEFINED | VT_UINT8 | VT_UINT16 | VT_UINT32

record BlendDesc =
  AlphaToCoverageEnable :: bool
  BlendEnable :: bool
  SrcBlend :: BLEND_FACTOR
  DestBlend :: BLEND_FACTOR
  BlendOp :: BLEND_OPERATION
  RenderTargetWriteMaskAll :: bool

record DepthStencilDesc =
  DepthWriteEnable :: bool
  DepthFunc :: COMPARISON_FUNCTION
  StencilEnable :: bool
  StencilReadMask :: "8 word"
  StencilWriteMask :: "8 word"
  StencilFailOp :: STENCIL_OP
  StencilDepthFailOp :: STENCIL_OP
  StencilPassOp :: STENCIL_OP
  StencilFunc :: COMPARISON_FUNCTION

record RasterizerDesc =
  FillMode :: FILL_MODE
  CullMode :: CULL_MODE
  DepthBias :: int
  SlopeScaledDepthBias :: real
  ScissorEnable :: bool
  AntialiasedLineEnable :: bool

record LayoutElement =
  HLSLSemantic :: "32 word"
  InputIndex :: "8 word"
  ElementType :: "32 word"
  BufferSlot :: "32 word"
  RelativeOffset :: "32 word"
  PerInstance :: bool

record PipelineStateCreateInfo =
  Name :: int
  PrimitiveTopology :: PrimitiveType
  pVS :: "nat option"
  pPS :: "nat option"
  Variables :: "(ShaderType \<times> string) list"
  LayoutElements :: "LayoutElement list"
  BlendDesc :: BlendDesc
  DepthStencilDesc :: DepthStencilDesc
  RasterizerDesc :: RasterizerDesc

datatype DeviceCall =
    DevSetRenderTargets "nat option list" "nat option"
  | DevSetViewports int int int int
  | DevSetScissorRects IntRect
  | DevSetVertexBuffers "32 word" "32 word" "nat option list" "64 word list"
  | DevSetIndexBuffer "nat option"
  | DevSetBlendFactors
  | DevCreateGraphicsPipelineState PipelineStateCreateInfo
  | DevStaticVariableSet nat ShaderType string "nat option"
  | DevCreateShaderResourceBinding nat
  | DevSetPipelineState nat
  | DevSetSampler nat "nat option"
  | DevVariableSet Variable nat
  | DevCommitShaderResources nat
  | DevMapBuffer nat
  | DevUnmapBuffer nat
  | DevDraw "32 word" "32 word"
  | DevDrawIndexed VALUE_TYPE "32 word" "32 word" "32 word" "32 word"
  | DevResolveTextureSubresource nat nat "32 word"
  | DevGenerateMips nat
  | DevCreateSampler

text \<open>
  \<open>created\<close> counts the objects the device has been asked to create; the next object is
  named by that count. Whether a creation or a mapping fails is the device's affair:
  \<open>createFails\<close> says it of the creation with a given number, \<open>mapFails\<close> of a mapping
  issued when the log has a given length. \<open>bufferData\<close> is the content of each device
  buffer.
\<close>

record Device =
  calls :: "DeviceCall list"
  created :: nat
  createFails :: "nat \<Rightarrow> bool"
  mapFails :: "nat \<Rightarrow> bool"
  bufferData :: "nat \<Rightarrow> 8 word list"

section \<open>The graphics state\<close>

type_synonym PipelineKey =
  "nat option \<times> nat option \<times> 32 word \<times> 32 word \<times> 32 word \<times> 64 word \<times> PrimitiveType"

type_synonym TextureMap = "(32 word \<times> Variable) list"

record PipelineState =
  pipelineState :: "nat option"
  shaderResourceBinding :: "nat option"
  textureMap :: "TextureMap option"

text \<open>\<^verbatim>\<open>GraphicsImpl\<close> (DiligentGraphicsImpl.h), with the device behind its handles.\<close>

record GraphicsImpl =
  device :: Device
  pipelineStates :: "PipelineKey \<rightharpoonup> PipelineState"
  currentPipelineState :: "nat option"
  currentShaderResourceBinding :: "nat option"
  currentTextureMap :: "TextureMap option"
  defaultRenderTargetView :: "nat option"
  defaultDepthStencilView :: "nat option"
  renderTargetViews :: "32 word \<Rightarrow> nat option"
  depthStencilView :: "nat option"
  renderTargetsDirty :: bool
  texturesDirty :: bool
  vertexDeclarationDirty :: bool
  vertexShaderDirty :: bool
  pixelShaderDirty :: bool
  blendStateDirty :: bool
  depthStateDirty :: bool
  rasterizerStateDirty :: bool
  scissorRectDirty :: bool
  stencilRefDirty :: bool
  firstDirtyTexture :: "32 word"
  lastDirtyTexture :: "32 word"
  shaderResourceViews :: "32 word \<Rightarrow> nat option"
  samplers :: "32 word \<Rightarrow> nat option"
  impl_vertexBuffers :: "32 word \<Rightarrow> nat option"
  constantBuffers :: "ShaderType \<Rightarrow> 32 word \<Rightarrow> nat option"
  vertexSizes :: "32 word \<Rightarrow> 32 word"
  vertexOffsets :: "32 word \<Rightarrow> 64 word"
  firstDirtyVB :: "32 word"
  lastDirtyVB :: "32 word"
  dirtyConstantBuffers :: "nat list"
  shaderPrograms :: "(nat \<times> nat) \<rightharpoonup> ShaderProgram"
  shaderProgram :: "ShaderProgram option"
  blendStateHash :: "32 word"
  depthStateHash :: "32 word"
  rasterizerStateHash :: "32 word"
  primitiveType :: PrimitiveType
  primitiveTypeDirty :: bool

text \<open>
  An entry of \<^verbatim>\<open>shaderParameterSources_\<close>: a pointer, or the marker
  \<^verbatim>\<open>(const void*)M_MAX_UNSIGNED\<close>.
\<close>

datatype ParameterSource = NoSource | Source "nat option"

text \<open>
  \<^verbatim>\<open>Graphics\<close>, followed by the memory it points into (one store per class of object), the
  constructor of shader programs (\<^verbatim>\<open>new ShaderProgram(this, vs, ps)\<close>, declared outside the
  sources at hand), the function-local \<^verbatim>\<open>static int count\<close> of \<^verbatim>\<open>PrepareDraw\<close>, and what
  \<^verbatim>\<open>URHO3D_LOGERROR\<close> and the shader precache have been given. A shader program is never
  changed after its construction, so \<^verbatim>\<open>impl_->shaderProgram_\<close> holds the program itself.
\<close>

record Graphics =
  impl :: GraphicsImpl
  width :: int
  height :: int
  numPrimitives :: "32 word"
  numBatches :: "32 word"
  vertexBuffers :: "32 word \<Rightarrow> nat option"
  indexBuffer :: "nat option"
  vertexDeclarationHash :: "64 word"
  vertexShader :: "nat option"
  pixelShader :: "nat option"
  textures :: "32 word \<Rightarrow> nat option"
  renderTargets :: "32 word \<Rightarrow> nat option"
  depthStencil :: "nat option"
  viewport :: IntRect
  blendMode :: BlendMode
  alphaToCoverage :: bool
  colorWrite :: bool
  cullMode :: CullMode
  constantDepthBias :: real
  slopeScaledDepthBias :: real
  depthTestMode :: CompareMode
  depthWrite :: bool
  fillMode :: FillMode
  lineAntiAlias :: bool
  scissorTest :: bool
  scissorRect :: IntRect
  stencilTest :: bool
  stencilTestMode :: CompareMode
  stencilPass :: StencilOp
  stencilFail :: StencilOp
  stencilZFail :: StencilOp
  stencilRef :: "32 word"
  stencilCompareMask :: "32 word"
  stencilWriteMask :: "32 word"
  useClipPlane :: bool
  clipPlane :: "8 word list"
  shaderParameterSources :: "32 word \<Rightarrow> ParameterSource"
  shaderPrecache :: bool
  defaultTextureFilterMode :: TextureFilterMode
  gpuObjects :: "nat list"
  texStore :: "nat \<Rightarrow> Texture"
  surfStore :: "nat \<Rightarrow> RenderSurface"
  vbStore :: "nat \<Rightarrow> VertexBuffer"
  ibStore :: "nat \<Rightarrow> IndexBuffer"
  svStore :: "nat \<Rightarrow> ShaderVariation"
  cbStore :: "nat \<Rightarrow> ConstantBuffer"
  newShaderProgram :: "nat \<Rightarrow> nat \<Rightarrow> ShaderProgram"
  PrepareDraw_count :: int
  errorLog :: "string list"
  storedShaders :: "(nat option \<times> nat option) list"

datatype error = AssertionFailed | NullPointer

definition deviceCall :: "DeviceCall \<Rightarrow> Graphics \<Rightarrow> Graphics" where
  "deviceCall c s =
     s\<lparr>impl := (impl s)\<lparr>device :=
        (device (impl s))\<lparr>calls := calls (device (impl s)) @ [c]\<rparr>\<rparr>\<rparr>"

text \<open>A creation call: logged, and answered with a new object or with null.\<close>

definition deviceCreate :: "DeviceCall \<Rightarrow> Graphics \<Rightarrow> nat option \<times> Graphics" where
  "deviceCreate c s =
     (let d = device (impl s);
          n = created d;
          obj = (if createFails d n then None else Some n)
      in (obj, s\<lparr>impl := (impl s)\<lparr>device :=
                   d\<lparr>calls := calls d @ [c], created := Suc n\<rparr>\<rparr>\<rparr>))"

definition URHO3D_LOGERROR :: "string \<Rightarrow> Graphics \<Rightarrow> Graphics" where
  "URHO3D_LOGERROR msg s = s\<lparr>errorLog := errorLog s @ [msg]\<rparr>"

text \<open>\<^verbatim>\<open>Clamp\<close> of MathDefs.h, which is outside the sources at hand.\<close>

definition Clamp :: "int \<Rightarrow> int \<Rightarrow> int \<Rightarrow> int" where
  "Clamp v lo hi = (if v < lo then lo else if v > hi then hi else v)"

text \<open>The conversion \<^verbatim>\<open>(int)x\<close> of a float: truncation towards zero.\<close>

definition float_to_int :: "real \<Rightarrow> int" where
  "float_to_int x = (if x \<ge> 0 then \<lfloor>x\<rfloor> else \<lceil>x\<rceil>)"

section \<open>State setters\<close>

definition SetBlendMode :: "BlendMode \<Rightarrow> bool \<Rightarrow> Graphics \<Rightarrow> Graphics" where
  "SetBlendMode mode a2c s =
     (if mode \<noteq> blendMode s \<or> a2c \<noteq> alphaToCoverage s
      then s\<lparr>blendMode := mode, alphaToCoverage := a2c,
             impl := (impl s)\<lparr>blendStateDirty := True\<rparr>\<rparr>
      else s)"

definition SetColorWrite :: "bool \<Rightarrow> Graphics \<Rightarrow> Graphics" where
  "SetColorWrite enable s =
     (if enable \<noteq> colorWrite s
      then s\<lparr>colorWrite := enable, impl := (impl s)\<lparr>blendStateDirty := True\<rparr>\<rparr>
      else s)"

definition SetCullMode :: "CullMode \<Rightarrow> Graphics \<Rightarrow> Graphics" where
  "SetCullMode mode s =
     (if mode \<noteq> cullMode s
      then s\<lparr>cullMode := mode, impl := (impl s)\<lparr>rasterizerStateDirty := True\<rparr>\<rparr>
      else s)"

definition SetDepthBias :: "real \<Rightarrow> real \<Rightarrow> Graphics \<Rightarrow> Graphics" where
  "SetDepthBias constantBias slopeScaledBias s =
     (if constantBias \<noteq> constantDepthBias s \<or> slopeScaledBias \<noteq> slopeScaledDepthBias s
      then s\<lparr>constantDepthBias := constantBias, slopeScaledDepthBias := slopeScaledBias,
             impl := (impl s)\<lparr>rasterizerStateDirty := True\<rparr>\<rparr>
      else s)"

definition SetDepthTest :: "CompareMode \<Rightarrow> Graphics \<Rightarrow> Graphics" where
  "SetDepthTest mode s =
     (if mode \<noteq> depthTestMode s
      then s\<lparr>depthTestMode := mode, impl := (impl s)\<lparr>depthStateDirty := True\<rparr>\<rparr>
      else s)"

definition SetDepthWrite :: "bool \<Rightarrow> Graphics \<Rightarrow> Graphics" where
  "SetDepthWrite enable s =
     (if enable \<noteq> depthWrite s
      then s\<lparr>depthWrite := enable,
             impl := (impl s)\<lparr>depthStateDirty := True, renderTargetsDirty := True\<rparr>\<rparr>
      else s)"

definition SetFillMode :: "FillMode \<Rightarrow> Graphics \<Rightarrow> Graphics" where
  "SetFillMode mode s =
     (if mode \<noteq> fillMode s
      then s\<lparr>fillMode := mode, impl := (impl s)\<lparr>rasterizerStateDirty := True\<rparr>\<rparr>
      else s)"

definition SetLineAntiAlias :: "bool \<Rightarrow> Graphics \<Rightarrow> Graphics" where
  "SetLineAntiAlias enable s =
     (if enable \<noteq> lineAntiAlias s
      then s\<lparr>lineAntiAlias := enable, impl := (impl s)\<lparr>rasterizerStateDirty := True\<rparr>\<rparr>
      else s)"

text \<open>\<^verbatim>\<open>RenderSurface::GetWidth\<close> and \<^verbatim>\<open>GetHeight\<close> are those of the parent texture.\<close>

definition GetRenderTargetDimensions :: "Graphics \<Rightarrow> int \<times> int" where
  "GetRenderTargetDimensions s =
     (case renderTargets s 0 of
        Some rt \<Rightarrow> (tex_width (texStore s (parentTexture (surfStore s rt))),
                    tex_height (texStore s (parentTexture (surfStore s rt))))
      | None \<Rightarrow>
         (case depthStencil s of
            Some ds \<Rightarrow> (tex_width (texStore s (parentTexture (surfStore s ds))),
                        tex_height (texStore s (parentTexture (surfStore s ds))))
          | None \<Rightarrow> (width s, height s)))"

text \<open>
  Both overloads of \<^verbatim>\<open>SetScissorTest\<close> end with the same statements, from the widening of an
  empty rectangle on; \<open>scissor_finish\<close> is that common end, and the rectangle each overload
  computes before it is \<open>SetScissorTest_pixels\<close> and \<open>SetScissorTest_IntRect_pixels\<close>.
\<close>

definition scissor_widen :: "IntRect \<Rightarrow> IntRect" where
  "scissor_widen intRect0 =
     (let intRect1 = (if rect_right intRect0 = rect_left intRect0
                      then intRect0\<lparr>rect_right := rect_right intRect0 + 1\<rparr> else intRect0)
      in if rect_bottom intRect1 = rect_top intRect1
         then intRect1\<lparr>rect_bottom := rect_bottom intRect1 + 1\<rparr> else intRect1)"

definition scissor_finish :: "bool \<Rightarrow> IntRect \<Rightarrow> Graphics \<Rightarrow> bool \<times> Graphics" where
  "scissor_finish enable intRect0 s =
     (let intRect = scissor_widen intRect0;
          enable1 = (if rect_right intRect < rect_left intRect \<or> rect_bottom intRect < rect_top intRect
                     then False else enable)
      in (enable1,
          if enable1 \<and> intRect \<noteq> scissorRect s
          then s\<lparr>scissorRect := intRect, impl := (impl s)\<lparr>scissorRectDirty := True\<rparr>\<rparr>
          else s))"

definition scissor_enable :: "bool \<Rightarrow> Graphics \<Rightarrow> Graphics" where
  "scissor_enable enable s =
     (if enable \<noteq> scissorTest s
      then s\<lparr>scissorTest := enable, impl := (impl s)\<lparr>rasterizerStateDirty := True\<rparr>\<rparr>
      else s)"

definition Rect_covers_view :: "Rect \<Rightarrow> bool" where
  "Rect_covers_view rect \<longleftrightarrow> min_x rect \<le> 0 \<and> min_y rect \<le> 0 \<and> max_x rect \<ge> 1 \<and> max_y rect \<ge> 1"

definition SetScissorTest_pixels :: "Rect \<Rightarrow> bool \<Rightarrow> Graphics \<Rightarrow> IntRect" where
  "SetScissorTest_pixels rect borderInclusive s =
     (let rtSize = GetRenderTargetDimensions s;
          viewSize_x = rect_right (viewport s) - rect_left (viewport s);
          viewSize_y = rect_bottom (viewport s) - rect_top (viewport s);
          viewPos_x = rect_left (viewport s);
          viewPos_y = rect_top (viewport s);
          expand = (if borderInclusive then 1 else 0)
      in \<lparr>rect_left = Clamp (float_to_int ((min_x rect + 1) * 0.5 * real_of_int viewSize_x)
                            + viewPos_x) 0 (fst rtSize - 1),
          rect_top = Clamp (float_to_int ((- max_y rect + 1) * 0.5 * real_of_int viewSize_y)
                           + viewPos_y) 0 (snd rtSize - 1),
          rect_right = Clamp (float_to_int ((max_x rect + 1) * 0.5 * real_of_int viewSize_x)
                             + viewPos_x + expand) 0 (fst rtSize),
          rect_bottom = Clamp (float_to_int ((- min_y rect + 1) * 0.5 * real_of_int viewSize_y)
                              + viewPos_y + expand) 0 (snd rtSize)\<rparr>)"

definition SetScissorTest :: "bool \<Rightarrow> Rect \<Rightarrow> bool \<Rightarrow> Graphics \<Rightarrow> Graphics" where
  "SetScissorTest enable0 rect borderInclusive s =
     (let enable = (if Rect_covers_view rect then False else enable0)
      in if enable then
           (let r = scissor_finish enable (SetScissorTest_pixels rect borderInclusive s) s
            in scissor_enable (fst r) (snd r))
         else scissor_enable enable s)"

definition SetScissorTest_IntRect_pixels :: "IntRect \<Rightarrow> Graphics \<Rightarrow> IntRect" where
  "SetScissorTest_IntRect_pixels rect s =
     (let rtSize = GetRenderTargetDimensions s;
          viewPos_x = rect_left (viewport s);
          viewPos_y = rect_top (viewport s)
      in \<lparr>rect_left = Clamp (rect_left rect + viewPos_x) 0 (fst rtSize - 1),
          rect_top = Clamp (rect_top rect + viewPos_y) 0 (snd rtSize - 1),
          rect_right = Clamp (rect_right rect + viewPos_x) 0 (fst rtSize),
          rect_bottom = Clamp (rect_bottom rect + viewPos_y) 0 (snd rtSize)\<rparr>)"

definition SetScissorTest_IntRect :: "bool \<Rightarrow> IntRect \<Rightarrow> Graphics \<Rightarrow> Graphics" where
  "SetScissorTest_IntRect enable rect s =
     (if enable then
        (let r = scissor_finish enable (SetScissorTest_IntRect_pixels rect s) s
         in scissor_enable (fst r) (snd r))
      else scissor_enable enable s)"

text \<open>
  \<^verbatim>\<open>SetStencilTest\<close> compares and stores its arguments one after the other; each of the
  eight \<^verbatim>\<open>if\<close> statements is a step of its own here.
\<close>

definition stencil_enable :: "bool \<Rightarrow> Graphics \<Rightarrow> Graphics" where
  "stencil_enable enable s =
     (if enable \<noteq> stencilTest s
      then s\<lparr>stencilTest := enable, impl := (impl s)\<lparr>depthStateDirty := True\<rparr>\<rparr>
      else s)"

definition stencil_mode :: "CompareMode \<Rightarrow> Graphics \<Rightarrow> Graphics" where
  "stencil_mode mode s =
     (if mode \<noteq> stencilTestMode s
      then s\<lparr>stencilTestMode := mode, impl := (impl s)\<lparr>depthStateDirty := True\<rparr>\<rparr>
      else s)"

definition stencil_pass :: "StencilOp \<Rightarrow> Graphics \<Rightarrow> Graphics" where
  "stencil_pass pass s =
     (if pass \<noteq> stencilPass s
      then s\<lparr>stencilPass := pass, impl := (impl s)\<lparr>depthStateDirty := True\<rparr>\<rparr>
      else s)"

definition stencil_fail :: "StencilOp \<Rightarrow> Graphics \<Rightarrow> Graphics" where
  "stencil_fail fail s =
     (if fail \<noteq> stencilFail s
      then s\<lparr>stencilFail := fail, impl := (impl s)\<lparr>depthStateDirty := True\<rparr>\<rparr>
      else s)"

definition stencil_zFail :: "StencilOp \<Rightarrow> Graphics \<Rightarrow> Graphics" where
  "stencil_zFail zFail s =
     (if zFail \<noteq> stencilZFail s
      then s\<lparr>stencilZFail := zFail, impl := (impl s)\<lparr>depthStateDirty := True\<rparr>\<rparr>
      else s)"

definition stencil_compareMask :: "32 word \<Rightarrow> Graphics \<Rightarrow> Graphics" where
  "stencil_compareMask compareMask s =
     (if compareMask \<noteq> stencilCompareMask s
      then s\<lparr>stencilCompareMask := compareMask, impl := (impl s)\<lparr>depthStateDirty := True\<rparr>\<rparr>
      else s)"

definition stencil_writeMask :: "32 word \<Rightarrow> Graphics \<Rightarrow> Graphics" where
  "stencil_writeMask writeMask s =
     (if writeMask \<noteq> stencilWriteMask s
      then s\<lparr>stencilWriteMask := writeMask, impl := (impl s)\<lparr>depthStateDirty := True\<rparr>\<rparr>
      else s)"

definition stencil_ref :: "32 word \<Rightarrow> Graphics \<Rightarrow> Graphics" where
  "stencil_ref r s =
     (if r \<noteq> stencilRef s
      then s\<lparr>stencilRef := r,
             impl := (impl s)\<lparr>stencilRefDirty := True, depthStateDirty := True\<rparr>\<rparr>
      else s)"

definition SetStencilTest ::
  "bool \<Rightarrow> CompareMode \<Rightarrow> StencilOp \<Rightarrow> StencilOp \<Rightarrow> StencilOp \<Rightarrow> 32 word \<Rightarrow> 32 word \<Rightarrow> 32 word
   \<Rightarrow> Graphics \<Rightarrow> Graphics" where
  "SetStencilTest enable mode pass fail zFail stencilRef' compareMask writeMask s =
     (if enable
      then stencil_ref stencilRef'
             (stencil_writeMask writeMask
               (stencil_compareMask compareMask
                 (stencil_zFail zFail
                   (stencil_fail fail
                     (stencil_pass pass
                       (stencil_mode mode
                         (stencil_enable enable s)))))))
      else stencil_enable enable s)"

text \<open>
  \<^verbatim>\<open>SetViewport\<close> hands the viewport to the device at once. The call
  \<^verbatim>\<open>SetScissorTest(false)\<close> takes the defaults of the first overload, \<^verbatim>\<open>Rect::FULL\<close> and
  \<^verbatim>\<open>true\<close>. The widened rectangle, before it is clamped, is \<open>SetViewport_widen\<close>.
\<close>

definition SetViewport_widen :: "IntRect \<Rightarrow> IntRect" where
  "SetViewport_widen rect =
     (let r1 = (if rect_right rect \<le> rect_left rect
                then rect\<lparr>rect_right := rect_left rect + 1\<rparr> else rect)
      in if rect_bottom r1 \<le> rect_top r1 then r1\<lparr>rect_bottom := rect_top r1 + 1\<rparr> else r1)"

definition SetViewport :: "IntRect \<Rightarrow> Graphics \<Rightarrow> Graphics" where
  "SetViewport rect s =
     (let sz = GetRenderTargetDimensions s;
          r = SetViewport_widen rect;
          rectCopy = \<lparr>rect_left = Clamp (rect_left r) 0 (fst sz),
                      rect_top = Clamp (rect_top r) 0 (snd sz),
                      rect_right = Clamp (rect_right r) 0 (fst sz),
                      rect_bottom = Clamp (rect_bottom r) 0 (snd sz)\<rparr>;
          s1 = deviceCall (DevSetViewports (rect_left rectCopy) (rect_top rectCopy)
                 (rect_right rectCopy - rect_left rectCopy)
                 (rect_bottom rectCopy - rect_top rectCopy)) s;
          s2 = s1\<lparr>viewport := rectCopy\<rparr>
      in SetScissorTest False Rect_FULL True s2)"

section \<open>Textures and render targets\<close>

definition GetParametersDirty :: "Texture \<Rightarrow> bool" where
  "GetParametersDirty t = (parametersDirty t \<or> sampler t = None)"

text \<open>
  \<^verbatim>\<open>Texture::UpdateParameters\<close> (DiligentTexture.cpp). The sampler description it fills in
  is not kept; the old sampler is released and the device's answer stored.
\<close>

definition UpdateParameters :: "nat \<Rightarrow> Graphics \<Rightarrow> Graphics" where
  "UpdateParameters t s =
     (if (\<not> parametersDirty (texStore s t) \<and> sampler (texStore s t) \<noteq> None)
         \<or> tex_object (texStore s t) = None
      then s
      else
        (let r = deviceCreate DevCreateSampler s;
             s1 = (if fst r = None then URHO3D_LOGERROR ''Failed to create sampler state'' (snd r)
                   else snd r)
         in s1\<lparr>texStore := (texStore s1)
                  (t := (texStore s1 t)\<lparr>sampler := fst r, parametersDirty := False\<rparr>)\<rparr>))"

definition RegenerateLevels :: "nat \<Rightarrow> Graphics \<Rightarrow> Graphics" where
  "RegenerateLevels t s =
     (case shaderResourceView (texStore s t) of
        None \<Rightarrow> s
      | Some view \<Rightarrow>
          (let s1 = deviceCall (DevGenerateMips view) s
           in s1\<lparr>texStore := (texStore s1)(t := (texStore s1 t)\<lparr>levelsDirty := False\<rparr>)\<rparr>))"

definition ResolveToTexture_2D :: "nat \<Rightarrow> Graphics \<Rightarrow> bool \<times> Graphics" where
  "ResolveToTexture_2D t s =
     (case renderSurface (texStore s t) of
        None \<Rightarrow> (False, s)
      | Some surface \<Rightarrow>
          (let s1 = s\<lparr>texStore := (texStore s)(t := (texStore s t)\<lparr>resolveDirty := False\<rparr>),
                      surfStore := (surfStore s)
                         (surface := (surfStore s surface)\<lparr>surf_resolveDirty := False\<rparr>)\<rparr>
           in case (tex_object (texStore s1 t), resolveTexture (texStore s1 t)) of
                (Some source, Some dest) \<Rightarrow>
                   (True, deviceCall (DevResolveTextureSubresource source dest 0) s1)
              | _ \<Rightarrow> (False, s1)))"

definition ResolveToTexture_Cube_face :: "nat \<Rightarrow> nat \<Rightarrow> nat \<Rightarrow> 32 word \<Rightarrow> Graphics \<Rightarrow> Graphics"
where
  "ResolveToTexture_Cube_face t source dest i s =
     (let surface = renderSurfaces (texStore s t) i
      in if \<not> surf_resolveDirty (surfStore s surface) then s
         else deviceCall (DevResolveTextureSubresource source dest i)
                (s\<lparr>surfStore := (surfStore s)
                      (surface := (surfStore s surface)\<lparr>surf_resolveDirty := False\<rparr>)\<rparr>))"

definition ResolveToTexture_Cube :: "nat \<Rightarrow> Graphics \<Rightarrow> bool \<times> Graphics" where
  "ResolveToTexture_Cube t s =
     (let s1 = s\<lparr>texStore := (texStore s)(t := (texStore s t)\<lparr>resolveDirty := False\<rparr>)\<rparr>
      in case (tex_object (texStore s1 t), resolveTexture (texStore s1 t)) of
           (Some source, Some dest) \<Rightarrow>
              (True, fold (ResolveToTexture_Cube_face t source dest) (indices MAX_CUBEMAP_FACES) s1)
         | _ \<Rightarrow> (False, s1))"

text \<open>The first half of \<^verbatim>\<open>SetTexture\<close>: the texture that will be bound, and what resolving
  and regenerating did on the way.\<close>

definition SetTexture_redirect :: "nat \<Rightarrow> Graphics \<Rightarrow> nat option \<times> Graphics" where
  "SetTexture_redirect t s =
     (let r = (if (case renderTargets s 0 of
                     Some rt \<Rightarrow> parentTexture (surfStore s rt) = t
                   | None \<Rightarrow> False)
               then (backupTexture (texStore s t), s)
               else (Some t,
                     if multiSample (texStore s t) > 1 \<and> autoResolve (texStore s t)
                        \<and> resolveDirty (texStore s t)
                     then (let s1 = (if tex_type (texStore s t) = Texture2D
                                     then snd (ResolveToTexture_2D t s) else s)
                           in if tex_type (texStore s1 t) = TextureCube
                              then snd (ResolveToTexture_Cube t s1) else s1)
                     else s))
      in case fst r of
           Some t' \<Rightarrow> (if levelsDirty (texStore (snd r) t')
                       then (fst r, RegenerateLevels t' (snd r)) else r)
         | None \<Rightarrow> r)"

text \<open>The second part: a texture whose sampler parameters are dirty gets its sampler
  renewed, and the unit is cleared to force the assignment.\<close>

definition SetTexture_parameters :: "32 word \<Rightarrow> nat option \<Rightarrow> Graphics \<Rightarrow> Graphics" where
  "SetTexture_parameters index texture s =
     (case texture of
        Some t \<Rightarrow>
          (if GetParametersDirty (texStore s t)
           then (UpdateParameters t s)\<lparr>textures := (textures (UpdateParameters t s))(index := None)\<rparr>
           else s)
      | None \<Rightarrow> s)"

text \<open>The last part: the comparison with the recorded texture, the dirty range and the
  recording.\<close>

definition dirtyTextureRange :: "32 word \<Rightarrow> GraphicsImpl \<Rightarrow> GraphicsImpl" where
  "dirtyTextureRange index i =
     (if firstDirtyTexture i = M_MAX_UNSIGNED
      then i\<lparr>firstDirtyTexture := index, lastDirtyTexture := index\<rparr>
      else
        (let i' = (if index < firstDirtyTexture i then i\<lparr>firstDirtyTexture := index\<rparr> else i)
         in if index > lastDirtyTexture i' then i'\<lparr>lastDirtyTexture := index\<rparr> else i'))"

definition SetTexture_bind :: "32 word \<Rightarrow> nat option \<Rightarrow> Graphics \<Rightarrow> Graphics" where
  "SetTexture_bind index texture s =
     (if texture \<noteq> textures s index
      then s\<lparr>textures := (textures s)(index := texture),
             impl := (dirtyTextureRange index (impl s))\<lparr>
               shaderResourceViews := (shaderResourceViews (impl s))
                 (index := (case texture of
                              Some t \<Rightarrow> shaderResourceView (texStore s t) | None \<Rightarrow> None)),
               samplers := (samplers (impl s))
                 (index := (case texture of Some t \<Rightarrow> sampler (texStore s t) | None \<Rightarrow> None)),
               texturesDirty := True\<rparr>\<rparr>
      else s)"

definition SetTexture :: "32 word \<Rightarrow> nat option \<Rightarrow> Graphics \<Rightarrow> Graphics" where
  "SetTexture index texture0 s =
     (if index \<ge> MAX_TEXTURE_UNITS then s
      else
        (let r = (case texture0 of Some t \<Rightarrow> SetTexture_redirect t s | None \<Rightarrow> (None, s))
         in SetTexture_bind index (fst r) (SetTexture_parameters index (fst r) (snd r))))"

text \<open>
  \<^verbatim>\<open>Texture::SetParametersDirty\<close> and \<^verbatim>\<open>Graphics::SetTextureParametersDirty\<close>; \<open>gpuObjects\<close>
  lists the registered objects that are textures.
\<close>

definition SetTextureParametersDirty :: "Graphics \<Rightarrow> Graphics" where
  "SetTextureParametersDirty s =
     fold (\<lambda>t s'. s'\<lparr>texStore := (texStore s')(t := (texStore s' t)\<lparr>parametersDirty := True\<rparr>)\<rparr>)
          (gpuObjects s) s"

definition SetDefaultTextureFilterMode :: "TextureFilterMode \<Rightarrow> Graphics \<Rightarrow> Graphics" where
  "SetDefaultTextureFilterMode mode s =
     (if mode \<noteq> defaultTextureFilterMode s
      then SetTextureParametersDirty (s\<lparr>defaultTextureFilterMode := mode\<rparr>)
      else s)"

text \<open>
  Modelled from the spec: \<^verbatim>\<open>Texture::SetResolveDirty\<close>, \<^verbatim>\<open>RenderSurface::SetResolveDirty\<close> and
  \<^verbatim>\<open>Texture::SetLevelsDirty\<close> are defined outside the sources at hand; they are taken to
  mark the texture (and the surface) for a resolve and for mip regeneration on the next read.
\<close>

definition SetRenderTarget_mark :: "nat \<Rightarrow> Graphics \<Rightarrow> Graphics" where
  "SetRenderTarget_mark rt s =
     (let p = parentTexture (surfStore s rt);
          s1 = (if multiSample (texStore s p) > 1 \<and> autoResolve (texStore s p)
                then s\<lparr>texStore := (texStore s)(p := (texStore s p)\<lparr>resolveDirty := True\<rparr>),
                       surfStore := (surfStore s)
                          (rt := (surfStore s rt)\<lparr>surf_resolveDirty := True\<rparr>)\<rparr>
                else s)
      in if levels (texStore s1 p) > 1
         then s1\<lparr>texStore := (texStore s1)(p := (texStore s1 p)\<lparr>levelsDirty := True\<rparr>)\<rparr>
         else s1)"

definition SetRenderTarget_unbind :: "nat \<Rightarrow> 32 word \<Rightarrow> Graphics \<Rightarrow> Graphics" where
  "SetRenderTarget_unbind p i s =
     (if textures s i = Some p then SetTexture i (backupTexture (texStore s p)) s else s)"

definition SetRenderTarget :: "32 word \<Rightarrow> nat option \<Rightarrow> Graphics \<Rightarrow> Graphics" where
  "SetRenderTarget index renderTarget s =
     (if index \<ge> MAX_RENDERTARGETS then s
      else if renderTarget \<noteq> renderTargets s index
      then
        (let s1 = s\<lparr>renderTargets := (renderTargets s)(index := renderTarget),
                    impl := (impl s)\<lparr>renderTargetsDirty := True\<rparr>\<rparr>
         in case renderTarget of
              None \<Rightarrow> s1
            | Some rt \<Rightarrow>
                SetRenderTarget_mark rt
                  (fold (SetRenderTarget_unbind (parentTexture (surfStore s1 rt)))
                        (indices MAX_TEXTURE_UNITS) s1))
      else s)"

definition SetRenderTarget_Texture2D :: "32 word \<Rightarrow> nat option \<Rightarrow> Graphics \<Rightarrow> Graphics" where
  "SetRenderTarget_Texture2D index texture s =
     SetRenderTarget index
       (case texture of Some t \<Rightarrow> renderSurface (texStore s t) | None \<Rightarrow> None) s"

definition SetDepthStencil :: "nat option \<Rightarrow> Graphics \<Rightarrow> Graphics" where
  "SetDepthStencil ds s =
     (if ds \<noteq> depthStencil s
      then s\<lparr>depthStencil := ds, impl := (impl s)\<lparr>renderTargetsDirty := True\<rparr>\<rparr>
      else s)"

definition SetDepthStencil_Texture2D :: "nat option \<Rightarrow> Graphics \<Rightarrow> Graphics" where
  "SetDepthStencil_Texture2D texture s =
     (let s1 = SetDepthStencil
                 (case texture of Some t \<Rightarrow> renderSurface (texStore s t) | None \<Rightarrow> None) s
      in s1\<lparr>impl := (impl s1)\<lparr>rasterizerStateDirty := True\<rparr>\<rparr>)"

section \<open>Vertex and index buffers\<close>

definition dirtyVBRange :: "32 word \<Rightarrow> GraphicsImpl \<Rightarrow> GraphicsImpl" where
  "dirtyVBRange i i1 =
     (if firstDirtyVB i1 = M_MAX_UNSIGNED
      then i1\<lparr>firstDirtyVB := i, lastDirtyVB := i\<rparr>
      else
        (let i' = (if i < firstDirtyVB i1 then i1\<lparr>firstDirtyVB := i\<rparr> else i1)
         in if i > lastDirtyVB i' then i'\<lparr>lastDirtyVB := i\<rparr> else i'))"

text \<open>One round of the loop of \<^verbatim>\<open>SetVertexBuffers\<close>: \<open>SetVertexBuffers_store\<close> is the part
  that compares and stores, with \<^verbatim>\<open>changed\<close> as its first result.\<close>

definition instanceDataOffset :: "VertexBuffer \<Rightarrow> 32 word \<Rightarrow> 32 word" where
  "instanceDataOffset vb instanceOffset =
     (let hasInstanceData = (case elements vb of [] \<Rightarrow> False | e # _ \<Rightarrow> perInstance e)
      in if hasInstanceData then instanceOffset * vertexSize vb else 0)"

definition SetVertexBuffers_store :: "nat option \<Rightarrow> 32 word \<Rightarrow> 32 word \<Rightarrow> Graphics
    \<Rightarrow> bool \<times> Graphics" where
  "SetVertexBuffers_store buffer instanceOffset i s =
     (case buffer of
        Some b \<Rightarrow>
          (let offset = instanceDataOffset (vbStore s b) instanceOffset
           in if buffer \<noteq> vertexBuffers s i \<or> ucast offset \<noteq> vertexOffsets (impl s) i
              then (True,
                    s\<lparr>vertexBuffers := (vertexBuffers s)(i := buffer),
                      impl := (impl s)\<lparr>
                        impl_vertexBuffers := (impl_vertexBuffers (impl s))
                           (i := vb_object (vbStore s b)),
                        vertexSizes := (vertexSizes (impl s))(i := vertexSize (vbStore s b)),
                        vertexOffsets := (vertexOffsets (impl s))(i := ucast offset)\<rparr>\<rparr>)
              else (False, s))
      | None \<Rightarrow>
          (if vertexBuffers s i \<noteq> None
           then (True,
                 s\<lparr>vertexBuffers := (vertexBuffers s)(i := None),
                   impl := (impl s)\<lparr>
                     impl_vertexBuffers := (impl_vertexBuffers (impl s))(i := None),
                     vertexSizes := (vertexSizes (impl s))(i := 0),
                     vertexOffsets := (vertexOffsets (impl s))(i := 0)\<rparr>\<rparr>)
           else (False, s)))"

definition SetVertexBuffers_slot :: "nat option list \<Rightarrow> 32 word \<Rightarrow> 32 word \<Rightarrow> Graphics \<Rightarrow> Graphics"
where
  "SetVertexBuffers_slot buffers instanceOffset i s =
     (let r = SetVertexBuffers_store
                (if unat i < length buffers then buffers ! unat i else None) instanceOffset i s
      in if fst r
         then (snd r)\<lparr>impl := dirtyVBRange i ((impl (snd r))\<lparr>vertexDeclarationDirty := True\<rparr>)\<rparr>
         else snd r)"

definition SetVertexBuffers :: "nat option list \<Rightarrow> 32 word \<Rightarrow> Graphics \<Rightarrow> bool \<times> Graphics" where
  "SetVertexBuffers buffers instanceOffset s =
     (if length buffers > unat MAX_VERTEX_STREAMS
      then (False, URHO3D_LOGERROR ''Too many vertex buffers'' s)
      else (True, fold (SetVertexBuffers_slot buffers instanceOffset)
                       (indices MAX_VERTEX_STREAMS) s))"

definition SetVertexBuffer :: "nat option \<Rightarrow> Graphics \<Rightarrow> Graphics" where
  "SetVertexBuffer buffer s = snd (SetVertexBuffers [buffer] 0 s)"

definition SetIndexBuffer :: "nat option \<Rightarrow> Graphics \<Rightarrow> Graphics" where
  "SetIndexBuffer buffer s =
     (if buffer \<noteq> indexBuffer s
      then (deviceCall
              (DevSetIndexBuffer (case buffer of Some b \<Rightarrow> ib_object (ibStore s b) | None \<Rightarrow> None))
              s)\<lparr>indexBuffer := buffer\<rparr>
      else s)"

section \<open>Shaders and shader parameters\<close>

text \<open>
  \<^verbatim>\<open>ShaderVariation::Create\<close> (DiligentShaderVariation.cpp) with the compiler and the device
  behind it taken as given: it leaves the device object and the compiler output that the
  variation's \<open>compiled_object\<close> and \<open>compiled_output\<close> name, and succeeds when there is an
  object.
\<close>

definition Create :: "nat \<Rightarrow> Graphics \<Rightarrow> bool \<times> Graphics" where
  "Create v s =
     (compiled_object (svStore s v) \<noteq> None,
      s\<lparr>svStore := (svStore s)
          (v := (svStore s v)\<lparr>sv_object := compiled_object (svStore s v),
                               compilerOutput := compiled_output (svStore s v)\<rparr>)\<rparr>)"

text \<open>
  Modelled from the spec: \<^verbatim>\<open>ConstantBuffer::SetParameter\<close> is defined outside the sources at
  hand. A constant buffer "becomes dirty on any parameter write": the bytes are stored in
  the shadow copy at the offset and the buffer is marked dirty.
\<close>

definition SetParameter :: "nat \<Rightarrow> 32 word \<Rightarrow> 8 word list \<Rightarrow> Graphics \<Rightarrow> Graphics" where
  "SetParameter b offset bytes s =
     s\<lparr>cbStore := (cbStore s)
         (b := (cbStore s b)\<lparr>
            shadowData := fold (\<lambda>k sh. sh[unat offset + k := bytes ! k]) [0..<length bytes]
                            (shadowData (cbStore s b)),
            cb_dirty := True\<rparr>)\<rparr>"

text \<open>
  The overloads of \<^verbatim>\<open>SetShaderParameter\<close> differ in how many bytes they hand to
  \<^verbatim>\<open>SetParameter\<close>; one function stands for them, given the bytes.
\<close>

definition SetShaderParameter :: "string \<Rightarrow> 8 word list \<Rightarrow> Graphics \<Rightarrow> Graphics" where
  "SetShaderParameter param bytes s =
     (case shaderProgram (impl s) of
        None \<Rightarrow> s
      | Some prog \<Rightarrow>
          (case parameters prog param of
             None \<Rightarrow> s
           | Some sp \<Rightarrow>
               (let buffer = bufferPtr sp;
                    s1 = (if \<not> cb_dirty (cbStore s buffer)
                          then s\<lparr>impl := (impl s)\<lparr>dirtyConstantBuffers :=
                                   dirtyConstantBuffers (impl s) @ [buffer]\<rparr>\<rparr>
                          else s)
                in SetParameter buffer (param_offset sp) bytes s1)))"

definition VSP_CLIPPLANE :: string where
  "VSP_CLIPPLANE = ''ClipPlane''"

definition SetShaders_vs :: "nat option \<Rightarrow> Graphics \<Rightarrow> Graphics" where
  "SetShaders_vs vs s =
     (if vs \<noteq> vertexShader s then
        (let s1 = s\<lparr>vertexShader := vs,
                    impl := (impl s)\<lparr>vertexShaderDirty := True, vertexDeclarationDirty := True\<rparr>\<rparr>
         in case vs of
              None \<Rightarrow> s1
            | Some v \<Rightarrow>
                (if sv_object (svStore s1 v) = None then
                   (if compilerOutput (svStore s1 v) = [] then
                      (let r = Create v s1
                       in if \<not> fst r
                          then (URHO3D_LOGERROR
                                  (''Failed to compile vertex shader '' @ fullName (svStore (snd r) v)
                                   @ '':'' @ [CHR 0x0A] @ compilerOutput (svStore (snd r) v)) (snd r))
                               \<lparr>vertexShader := None\<rparr>
                          else snd r)
                    else s1\<lparr>vertexShader := None\<rparr>)
                 else s1))
      else s)"

definition SetShaders_ps :: "nat option \<Rightarrow> Graphics \<Rightarrow> Graphics" where
  "SetShaders_ps ps s =
     (if ps \<noteq> pixelShader s then
        (let s1 = s\<lparr>pixelShader := ps, impl := (impl s)\<lparr>pixelShaderDirty := True\<rparr>\<rparr>
         in case ps of
              None \<Rightarrow> s1
            | Some v \<Rightarrow>
                (if sv_object (svStore s1 v) = None then
                   (if compilerOutput (svStore s1 v) = [] then
                      (let r = Create v s1
                       in if \<not> fst r
                          then (URHO3D_LOGERROR
                                  (''Failed to compile pixel shader '' @ fullName (svStore (snd r) v)
                                   @ '':'' @ [CHR 0x0A] @ compilerOutput (svStore (snd r) v)) (snd r))
                               \<lparr>pixelShader := None\<rparr>
                          else snd r)
                    else s1\<lparr>pixelShader := None\<rparr>)
                 else s1))
      else s)"

definition SetShaders_sources :: "ShaderProgram \<Rightarrow> 32 word \<Rightarrow> Graphics \<Rightarrow> Graphics" where
  "SetShaders_sources prog i s =
     (let vsBuffer = (case vsConstantBuffers prog i of
                        Some b \<Rightarrow> cb_object (cbStore s b) | None \<Rightarrow> None);
          s1 = (if vsBuffer \<noteq> constantBuffers (impl s) VS i
                then s\<lparr>shaderParameterSources := (shaderParameterSources s)(i := NoSource)\<rparr>
                else s);
          psBuffer = (case psConstantBuffers prog i of
                        Some b \<Rightarrow> cb_object (cbStore s1 b) | None \<Rightarrow> None)
      in if psBuffer \<noteq> constantBuffers (impl s1) PS i
         then s1\<lparr>shaderParameterSources := (shaderParameterSources s1)(i := NoSource)\<rparr>
         else s1)"

definition SetShaders_program :: "Graphics \<Rightarrow> Graphics" where
  "SetShaders_program s =
     (case (vertexShader s, pixelShader s) of
        (Some v, Some p) \<Rightarrow>
          (case shaderPrograms (impl s) (v, p) of
             Some prog \<Rightarrow>
               fold (SetShaders_sources prog) (indices MAX_SHADER_PARAMETER_GROUPS)
                 (s\<lparr>impl := (impl s)\<lparr>shaderProgram := Some prog\<rparr>\<rparr>)
           | None \<Rightarrow>
               fold (SetShaders_sources (newShaderProgram s v p))
                 (indices MAX_SHADER_PARAMETER_GROUPS)
                 (s\<lparr>impl := (impl s)\<lparr>
                      shaderPrograms := (shaderPrograms (impl s))
                         ((v, p) \<mapsto> newShaderProgram s v p),
                      shaderProgram := Some (newShaderProgram s v p)\<rparr>\<rparr>))
      | _ \<Rightarrow> s\<lparr>impl := (impl s)\<lparr>shaderProgram := None\<rparr>\<rparr>)"

text \<open>The variation a call of \<^verbatim>\<open>SetShaders\<close> goes on with: the clip-plane variation of the
  one given while a clip plane is in use.\<close>

definition SetShaders_variation :: "Graphics \<Rightarrow> nat option \<Rightarrow> nat option" where
  "SetShaders_variation s v0 =
     (if useClipPlane s
      then (case v0 of Some v \<Rightarrow> clipPlaneVariation (svStore s v) | None \<Rightarrow> None)
      else v0)"

definition SetShaders_precache :: "Graphics \<Rightarrow> Graphics" where
  "SetShaders_precache s =
     (if shaderPrecache s
      then s\<lparr>storedShaders := storedShaders s @ [(vertexShader s, pixelShader s)]\<rparr>
      else s)"

definition SetShaders_clipPlane :: "Graphics \<Rightarrow> Graphics" where
  "SetShaders_clipPlane s =
     (if useClipPlane s then SetShaderParameter VSP_CLIPPLANE (clipPlane s) s else s)"

definition SetShaders :: "nat option \<Rightarrow> nat option \<Rightarrow> Graphics \<Rightarrow> Graphics" where
  "SetShaders vs0 ps0 s =
     SetShaders_clipPlane
       (SetShaders_precache
         (SetShaders_program
           (SetShaders_ps (SetShaders_variation s ps0)
             (SetShaders_vs (SetShaders_variation s vs0) s))))"

text \<open>
  \<^verbatim>\<open>SetClipPlane\<close>: the plane transformed by the view and projection matrices is given as
  the bytes handed to \<^verbatim>\<open>SetShaderParameter\<close>.
\<close>

definition SetClipPlane :: "bool \<Rightarrow> 8 word list \<Rightarrow> Graphics \<Rightarrow> Graphics" where
  "SetClipPlane enable transformed s =
     (let s1 = s\<lparr>useClipPlane := enable\<rparr>
      in if enable
         then SetShaderParameter VSP_CLIPPLANE transformed (s1\<lparr>clipPlane := transformed\<rparr>)
         else s1)"

text \<open>\<^verbatim>\<open>ConstantBuffer::Apply\<close> (DiligentConstantBuffer.cpp).\<close>

definition Apply :: "nat \<Rightarrow> Graphics \<Rightarrow> Graphics" where
  "Apply b s =
     (case cb_object (cbStore s b) of
        None \<Rightarrow> s
      | Some buffer \<Rightarrow>
          (if cb_dirty (cbStore s b) then
             (let mapped = \<not> mapFails (device (impl s)) (length (calls (device (impl s))));
                  s1 = deviceCall (DevMapBuffer buffer) s;
                  s2 = (if mapped
                        then deviceCall (DevUnmapBuffer buffer)
                               (s1\<lparr>impl := (impl s1)\<lparr>device := (device (impl s1))\<lparr>
                                  bufferData := (bufferData (device (impl s1)))
                                    (buffer := take (unat (cb_size (cbStore s1 b)))
                                                 (shadowData (cbStore s1 b)))\<rparr>\<rparr>\<rparr>)
                        else s1)
              in s2\<lparr>cbStore := (cbStore s2)(b := (cbStore s2 b)\<lparr>cb_dirty := False\<rparr>)\<rparr>)
           else s))"

text \<open>
  Modelled from the spec: \<^verbatim>\<open>GraphicsImpl::SetPrimitiveType\<close> is declared in
  DiligentGraphicsImpl.h and defined outside the sources at hand. A draw call "notifies
  the pipeline-state cache of the primitive topology", and a setter "only on change updates
  the recorded value and sets the corresponding dirty flag".
\<close>

definition SetPrimitiveType :: "PrimitiveType \<Rightarrow> Graphics \<Rightarrow> Graphics" where
  "SetPrimitiveType t s =
     (if t \<noteq> primitiveType (impl s)
      then s\<lparr>impl := (impl s)\<lparr>primitiveType := t, primitiveTypeDirty := True\<rparr>\<rparr>
      else s)"

section \<open>ResetCachedState\<close>

definition ResetCachedState :: "Graphics \<Rightarrow> Graphics" where
  "ResetCachedState s =
     s\<lparr>vertexBuffers := (\<lambda>i. if i < MAX_VERTEX_STREAMS then None else vertexBuffers s i),
       textures := (\<lambda>i. if i < MAX_TEXTURE_UNITS then None else textures s i),
       renderTargets := (\<lambda>i. if i < MAX_RENDERTARGETS then None else renderTargets s i),
       depthStencil := None,
       viewport := \<lparr>rect_left = 0, rect_top = 0, rect_right = width s, rect_bottom = height s\<rparr>,
       indexBuffer := None,
       vertexDeclarationHash := 0,
       vertexShader := None,
       pixelShader := None,
       blendMode := BLEND_REPLACE,
       alphaToCoverage := False,
       colorWrite := True,
       cullMode := CULL_CCW,
       constantDepthBias := 0,
       slopeScaledDepthBias := 0,
       depthTestMode := CMP_LESSEQUAL,
       depthWrite := True,
       fillMode := FILL_SOLID,
       lineAntiAlias := False,
       scissorTest := False,
       scissorRect := IntRect_ZERO,
       stencilTest := False,
       stencilTestMode := CMP_ALWAYS,
       stencilPass := OP_KEEP,
       stencilFail := OP_KEEP,
       stencilZFail := OP_KEEP,
       stencilRef := 0,
       stencilCompareMask := M_MAX_UNSIGNED,
       stencilWriteMask := M_MAX_UNSIGNED,
       useClipPlane := False,
       impl := (impl s)\<lparr>
         impl_vertexBuffers :=
           (\<lambda>i. if i < MAX_VERTEX_STREAMS then None else impl_vertexBuffers (impl s) i),
         vertexSizes := (\<lambda>i. if i < MAX_VERTEX_STREAMS then 0 else vertexSizes (impl s) i),
         vertexOffsets := (\<lambda>i. if i < MAX_VERTEX_STREAMS then 0 else vertexOffsets (impl s) i),
         shaderResourceViews :=
           (\<lambda>i. if i < MAX_TEXTURE_UNITS then None else shaderResourceViews (impl s) i),
         samplers := (\<lambda>i. if i < MAX_TEXTURE_UNITS then None else samplers (impl s) i),
         renderTargetViews :=
           (\<lambda>i. if i < MAX_RENDERTARGETS then None else renderTargetViews (impl s) i),
         constantBuffers :=
           (\<lambda>t i. if i < MAX_SHADER_PARAMETER_GROUPS then None else constantBuffers (impl s) t i),
         depthStencilView := None,
         shaderProgram := None,
         renderTargetsDirty := True,
         texturesDirty := True,
         vertexDeclarationDirty := True,
         blendStateDirty := True,
         depthStateDirty := True,
         rasterizerStateDirty := True,
         scissorRectDirty := True,
         stencilRefDirty := True,
         blendStateHash := M_MAX_UNSIGNED,
         depthStateHash := M_MAX_UNSIGNED,
         rasterizerStateHash := M_MAX_UNSIGNED,
         firstDirtyTexture := M_MAX_UNSIGNED,
         lastDirtyTexture := M_MAX_UNSIGNED,
         firstDirtyVB := M_MAX_UNSIGNED,
         lastDirtyVB := M_MAX_UNSIGNED,
         dirtyConstantBuffers := []\<rparr>\<rparr>"

section \<open>PrepareDraw\<close>

subsection \<open>Render targets\<close>

definition surf_usage :: "Graphics \<Rightarrow> nat \<Rightarrow> TextureUsage" where
  "surf_usage s rs = usage (texStore s (parentTexture (surfStore s rs)))"

definition PrepareDraw_renderTargets :: "Graphics \<Rightarrow> Graphics" where
  "PrepareDraw_renderTargets s =
     (if renderTargetsDirty (impl s) then
        (let dsv0 = (case depthStencil s of
                       Some ds \<Rightarrow> (if surf_usage s ds = TEXTURE_DEPTHSTENCIL
                                   then renderTargetView (surfStore s ds)
                                   else defaultDepthStencilView (impl s))
                     | None \<Rightarrow> defaultDepthStencilView (impl s));
             dsv = (case depthStencil s of
                      Some ds \<Rightarrow> (if \<not> depthWrite s \<and> readOnlyView (surfStore s ds) \<noteq> None
                                  then readOnlyView (surfStore s ds) else dsv0)
                    | None \<Rightarrow> dsv0);
             rtv0 = (\<lambda>i. if i < MAX_RENDERTARGETS
                          then (case renderTargets s i of
                                  Some rt \<Rightarrow> (if surf_usage s rt = TEXTURE_RENDERTARGET
                                              then renderTargetView (surfStore s rt) else None)
                                | None \<Rightarrow> None)
                          else renderTargetViews (impl s) i);
             rtv = (if renderTargets s 0 = None
                       \<and> (case depthStencil s of
                             None \<Rightarrow> True
                           | Some ds \<Rightarrow>
                               tex_width (texStore s (parentTexture (surfStore s ds))) = width s
                               \<and> tex_height (texStore s (parentTexture (surfStore s ds))) = height s)
                    then rtv0(0 := defaultRenderTargetView (impl s)) else rtv0);
             s1 = s\<lparr>impl := (impl s)\<lparr>depthStencilView := dsv, renderTargetViews := rtv\<rparr>\<rparr>;
             s2 = deviceCall (DevSetRenderTargets (map rtv (indices MAX_RENDERTARGETS)) dsv) s1;
             s3 = SetViewport (viewport s2) s2
         in s3\<lparr>impl := (impl s3)\<lparr>renderTargetsDirty := False\<rparr>\<rparr>)
      else s)"

subsection \<open>The state hashes\<close>

definition newBlendStateHash :: "Graphics \<Rightarrow> 32 word" where
  "newBlendStateHash s =
     (if colorWrite s then 1 else 0) OR (if alphaToCoverage s then 2 else 0)
     OR push_bit 2 (BlendMode_int (blendMode s))"

definition newDepthStateHash :: "Graphics \<Rightarrow> 32 word" where
  "newDepthStateHash s =
     (if depthWrite s then 1 else 0) OR (if stencilTest s then 2 else 0)
     OR push_bit 2 (CompareMode_int (depthTestMode s))
     OR push_bit 5 (stencilCompareMask s AND 0xff)
     OR push_bit 13 (stencilWriteMask s AND 0xff)
     OR push_bit 21 (CompareMode_int (stencilTestMode s))
     OR push_bit 24 (StencilOp_int (stencilFail s) + StencilOp_int (stencilZFail s) * 5
                     + StencilOp_int (stencilPass s) * 25)"

definition DXGI_FORMAT_R16_TYPELESS :: "32 word" where
  "DXGI_FORMAT_R16_TYPELESS = 53"

definition depthBits :: "Graphics \<Rightarrow> nat" where
  "depthBits s =
     (case depthStencil s of
        Some ds \<Rightarrow> (if format (texStore s (parentTexture (surfStore s ds))) = DXGI_FORMAT_R16_TYPELESS
                    then 16 else 24)
      | None \<Rightarrow> 24)"

definition scaledDepthBias :: "Graphics \<Rightarrow> int" where
  "scaledDepthBias s = float_to_int (constantDepthBias s * 2 ^ depthBits s)"

definition newRasterizerStateHash :: "Graphics \<Rightarrow> 32 word" where
  "newRasterizerStateHash s =
     (if scissorTest s then 1 else 0) OR (if lineAntiAlias s then 2 else 0)
     OR push_bit 2 (FillMode_int (fillMode s))
     OR push_bit 4 (CullMode_int (cullMode s))
     OR push_bit 6 (word_of_int (scaledDepthBias s) AND 0x1fff)
     OR push_bit 19 (word_of_int (float_to_int (slopeScaledDepthBias s * 100)) AND 0x1fff)"

definition newVertexDeclarationHash :: "Graphics \<Rightarrow> 64 word" where
  "newVertexDeclarationHash s =
     fold (\<lambda>i h. case vertexBuffers s i of
                    Some b \<Rightarrow> h OR bufferHash (vbStore s b) i
                  | None \<Rightarrow> h)
          (indices MAX_VERTEX_STREAMS) 0"

text \<open>
  Each step below takes the state and the local \<^verbatim>\<open>pipelineStateDirty\<close> and gives both
  back, in the order of the source.
\<close>

definition PrepareDraw_vertexDeclaration :: "Graphics \<times> bool \<Rightarrow> Graphics \<times> bool" where
  "PrepareDraw_vertexDeclaration = (\<lambda>(s, d).
     if vertexDeclarationDirty (impl s) \<and> vertexShader s \<noteq> None then
       (let first = firstDirtyVB (impl s);
            n = lastDirtyVB (impl s) - first + 1;
            s1 = (if first < M_MAX_UNSIGNED
                  then (let s' = deviceCall
                                   (DevSetVertexBuffers first n
                                      (map (\<lambda>k. impl_vertexBuffers (impl s) (first + of_nat k))
                                           [0..<unat n])
                                      (map (\<lambda>k. vertexOffsets (impl s) (first + of_nat k))
                                           [0..<unat n]))
                                   s
                        in s'\<lparr>impl := (impl s')\<lparr>firstDirtyVB := M_MAX_UNSIGNED,
                                                  lastDirtyVB := M_MAX_UNSIGNED\<rparr>\<rparr>)
                  else s);
            h = newVertexDeclarationHash s1
        in if h \<noteq> 0 \<and> h \<noteq> vertexDeclarationHash s1
           then (s1\<lparr>vertexDeclarationHash := h\<rparr>, True)
           else (s1, d))
     else (s, d))"

definition PrepareDraw_primitiveType :: "Graphics \<times> bool \<Rightarrow> Graphics \<times> bool" where
  "PrepareDraw_primitiveType = (\<lambda>(s, d).
     if primitiveTypeDirty (impl s)
     then (s\<lparr>impl := (impl s)\<lparr>primitiveTypeDirty := False\<rparr>\<rparr>, True)
     else (s, d))"

definition PrepareDraw_blendState :: "Graphics \<times> bool \<Rightarrow> Graphics \<times> bool" where
  "PrepareDraw_blendState = (\<lambda>(s, d).
     if blendStateDirty (impl s) then
       (if newBlendStateHash s \<noteq> blendStateHash (impl s)
        then (let s1 = deviceCall DevSetBlendFactors
                         (s\<lparr>impl := (impl s)\<lparr>blendStateHash := newBlendStateHash s\<rparr>\<rparr>)
              in (s1\<lparr>impl := (impl s1)\<lparr>blendStateDirty := False\<rparr>\<rparr>, True))
        else (s\<lparr>impl := (impl s)\<lparr>blendStateDirty := False\<rparr>\<rparr>, d))
     else (s, d))"

definition PrepareDraw_depthState :: "Graphics \<times> bool \<Rightarrow> Graphics \<times> bool" where
  "PrepareDraw_depthState = (\<lambda>(s, d).
     if depthStateDirty (impl s) then
       (if newDepthStateHash s \<noteq> depthStateHash (impl s) \<or> stencilRefDirty (impl s)
        then (s\<lparr>impl := (impl s)\<lparr>depthStateHash := newDepthStateHash s,
                                   depthStateDirty := False\<rparr>\<rparr>, True)
        else (s\<lparr>impl := (impl s)\<lparr>depthStateDirty := False\<rparr>\<rparr>, d))
     else (s, d))"

definition PrepareDraw_rasterizerState :: "Graphics \<times> bool \<Rightarrow> Graphics \<times> bool" where
  "PrepareDraw_rasterizerState = (\<lambda>(s, d).
     if rasterizerStateDirty (impl s) then
       (if newRasterizerStateHash s \<noteq> rasterizerStateHash (impl s)
        then (s\<lparr>impl := (impl s)\<lparr>rasterizerStateHash := newRasterizerStateHash s,
                                   rasterizerStateDirty := False\<rparr>\<rparr>, True)
        else (s\<lparr>impl := (impl s)\<lparr>rasterizerStateDirty := False\<rparr>\<rparr>, d))
     else (s, d))"

definition PrepareDraw_shadersClean :: "Graphics \<times> bool \<Rightarrow> Graphics \<times> bool" where
  "PrepareDraw_shadersClean = (\<lambda>(s, d).
     (s\<lparr>impl := (impl s)\<lparr>vertexShaderDirty := False, pixelShaderDirty := False\<rparr>\<rparr>, d))"

text \<open>The state after the hashes are brought up to date, and \<^verbatim>\<open>pipelineStateDirty\<close>.\<close>

definition PrepareDraw_state :: "Graphics \<Rightarrow> Graphics \<times> bool" where
  "PrepareDraw_state s =
     PrepareDraw_shadersClean
       (PrepareDraw_rasterizerState
         (PrepareDraw_depthState
           (PrepareDraw_blendState
             (PrepareDraw_primitiveType
               (PrepareDraw_vertexDeclaration
                 (s, vertexShaderDirty (impl s) \<or> pixelShaderDirty (impl s)))))))"

subsection \<open>The pipeline-state cache\<close>

definition pipelineKey :: "Graphics \<Rightarrow> PipelineKey" where
  "pipelineKey s =
     (vertexShader s, pixelShader s, blendStateHash (impl s), depthStateHash (impl s),
      rasterizerStateHash (impl s), vertexDeclarationHash s, primitiveType (impl s))"

text \<open>
  The input layout: the elements of every bound vertex buffer, in slot order. An element
  whose semantic and index an earlier buffer already gave overrides that entry's slot, offset
  and frequency; \<^verbatim>\<open>isExisting\<close> is declared once for each buffer and is not cleared between
  its elements.
\<close>

fun layout_override :: "32 word \<Rightarrow> VertexElement \<Rightarrow> nat \<Rightarrow> LayoutElement list
    \<Rightarrow> bool \<times> LayoutElement list" where
  "layout_override i e 0 ls = (False, ls)"
| "layout_override i e (Suc n) [] = (False, [])"
| "layout_override i e (Suc n) (l # ls) =
     (if HLSLSemantic l = semantic e \<and> InputIndex l = elem_index e
      then (True, l\<lparr>BufferSlot := i, RelativeOffset := elem_offset e,
                    PerInstance := perInstance e\<rparr> # ls)
      else (let r = layout_override i e n ls in (fst r, l # snd r)))"

definition layout_element :: "32 word \<Rightarrow> nat \<Rightarrow> VertexElement \<Rightarrow> LayoutElement list \<times> bool
    \<Rightarrow> LayoutElement list \<times> bool" where
  "layout_element i prevCount e = (\<lambda>(ls, isExisting).
     (let r = layout_override i e prevCount ls
      in if isExisting \<or> fst r then (snd r, True)
         else (snd r @ [\<lparr>HLSLSemantic = semantic e, InputIndex = elem_index e,
                         ElementType = elem_type e, BufferSlot = i,
                         RelativeOffset = elem_offset e, PerInstance = perInstance e\<rparr>],
               False)))"

definition layout_buffer :: "Graphics \<Rightarrow> 32 word \<Rightarrow> LayoutElement list \<Rightarrow> LayoutElement list" where
  "layout_buffer s i ls =
     (case vertexBuffers s i of
        None \<Rightarrow> ls
      | Some b \<Rightarrow> fst (fold (layout_element i (length ls)) (elements (vbStore s b)) (ls, False)))"

definition layoutElements :: "Graphics \<Rightarrow> LayoutElement list" where
  "layoutElements s = fold (layout_buffer s) (indices MAX_VERTEX_STREAMS) []"

text \<open>
  What \<^verbatim>\<open>PrepareDraw\<close> fills into \<^verbatim>\<open>pipelineStateCreateInfo\<close>. \<^verbatim>\<open>GetPrimitiveTopology\<close> is
  defined outside the sources at hand; the topology is given as the primitive type.
\<close>

definition createInfo :: "Graphics \<Rightarrow> nat \<Rightarrow> nat \<Rightarrow> PipelineStateCreateInfo" where
  "createInfo s v p =
     \<lparr>Name = PrepareDraw_count s,
      PrimitiveTopology = primitiveType (impl s),
      pVS = sv_object (svStore s v),
      pPS = sv_object (svStore s p),
      Variables = map (Pair VS) (textureResources (svStore s v))
                  @ map (Pair PS) (textureResources (svStore s p)),
      LayoutElements = layoutElements s,
      BlendDesc = \<lparr>AlphaToCoverageEnable = alphaToCoverage s,
                   BlendEnable = diligentBlendEnable (blendMode s),
                   SrcBlend = diligentSrcBlend (blendMode s),
                   DestBlend = diligentDestBlend (blendMode s),
                   BlendOp = diligentBlendOp (blendMode s),
                   RenderTargetWriteMaskAll = colorWrite s\<rparr>,
      DepthStencilDesc = \<lparr>DepthWriteEnable = depthWrite s,
                          DepthFunc = diligentCmpFunc (depthTestMode s),
                          StencilEnable = stencilTest s,
                          StencilReadMask = ucast (stencilCompareMask s),
                          StencilWriteMask = ucast (stencilWriteMask s),
                          StencilFailOp = diligentStencilOp (stencilFail s),
                          StencilDepthFailOp = diligentStencilOp (stencilZFail s),
                          StencilPassOp = diligentStencilOp (stencilPass s),
                          StencilFunc = diligentCmpFunc (stencilTestMode s)\<rparr>,
      RasterizerDesc = \<lparr>FillMode = diligentFillMode (fillMode s),
                        CullMode = diligentCullMode (cullMode s),
                        DepthBias = scaledDepthBias s,
                        SlopeScaledDepthBias = slopeScaledDepthBias s,
                        ScissorEnable = scissorTest s,
                        AntialiasedLineEnable = lineAntiAlias s\<rparr>\<rparr>"

text \<open>
  Binding the shared constant buffers of one stage to the static variables of a new
  pipeline. \<^verbatim>\<open>impl_->shaderProgram_\<close> and the buffer of the group are dereferenced without a
  check.
\<close>

definition bindConstantBuffer :: "nat \<Rightarrow> ShaderType \<Rightarrow> nat \<Rightarrow> 32 word \<Rightarrow> error + Graphics
    \<Rightarrow> error + Graphics" where
  "bindConstantBuffer pso stage v i r =
     (case r of
        Inl e \<Rightarrow> Inl e
      | Inr s \<Rightarrow>
          (if constantBufferSizes (svStore s v) i > 0 \<and> constantBufferNames (svStore s v) i \<noteq> []
           then (case shaderProgram (impl s) of
                   None \<Rightarrow> Inl NullPointer
                 | Some prog \<Rightarrow>
                     (case (if stage = VS then vsConstantBuffers prog i
                            else psConstantBuffers prog i) of
                        None \<Rightarrow> Inl NullPointer
                      | Some b \<Rightarrow>
                          Inr (deviceCall
                                 (DevStaticVariableSet pso stage
                                    (constantBufferNames (svStore s v) i)
                                    (cb_object (cbStore s b))) s)))
           else Inr s))"

definition textureMapOf :: "nat \<Rightarrow> ShaderType \<Rightarrow> 32 word list \<Rightarrow> TextureMap" where
  "textureMapOf srb stage units =
     map (\<lambda>(k, u). (u, Variable srb stage k))
         (filter (\<lambda>(k, u). u < MAX_TEXTURE_UNITS) (enumerate 0 units))"

text \<open>
  A cache miss, in three steps: the pipeline object is created (\<^verbatim>\<open>count++\<close> names it) and
  asserted; the constant buffers of both stages are bound; the resource binding is created and
  asserted and the texture map derived. The triple is then stored under the key.
\<close>

definition PrepareDraw_createPipeline :: "nat \<Rightarrow> nat \<Rightarrow> Graphics \<Rightarrow> error + (nat \<times> Graphics)" where
  "PrepareDraw_createPipeline v p s =
     (let r = deviceCreate (DevCreateGraphicsPipelineState (createInfo s v p)) s
      in case fst r of
           None \<Rightarrow> Inl AssertionFailed
         | Some pso \<Rightarrow> Inr (pso, (snd r)\<lparr>PrepareDraw_count := PrepareDraw_count (snd r) + 1\<rparr>))"

definition bindConstantBuffers :: "nat \<Rightarrow> nat \<Rightarrow> nat \<Rightarrow> Graphics \<Rightarrow> error + Graphics" where
  "bindConstantBuffers pso v p s =
     fold (bindConstantBuffer pso PS p) (indices MAX_SHADER_PARAMETER_GROUPS)
       (fold (bindConstantBuffer pso VS v) (indices MAX_SHADER_PARAMETER_GROUPS) (Inr s))"

definition PrepareDraw_createBinding :: "nat \<Rightarrow> nat \<Rightarrow> nat \<Rightarrow> Graphics
    \<Rightarrow> error + (PipelineState \<times> Graphics)" where
  "PrepareDraw_createBinding pso v p s =
     (let r = deviceCreate (DevCreateShaderResourceBinding pso) s
      in case fst r of
           None \<Rightarrow> Inl AssertionFailed
         | Some srb \<Rightarrow>
             Inr (\<lparr>pipelineState = Some pso,
                   shaderResourceBinding = Some srb,
                   textureMap = Some (textureMapOf srb VS (variableUnits (svStore s v))
                                      @ textureMapOf srb PS (variableUnits (svStore s p)))\<rparr>,
                  snd r))"

definition PrepareDraw_build :: "nat \<Rightarrow> nat \<Rightarrow> Graphics \<Rightarrow> error + (PipelineState \<times> Graphics)"
where
  "PrepareDraw_build v p s =
     (case PrepareDraw_createPipeline v p s of
        Inl e \<Rightarrow> Inl e
      | Inr (pso, s1) \<Rightarrow>
          (case bindConstantBuffers pso v p s1 of
             Inl e \<Rightarrow> Inl e
           | Inr s2 \<Rightarrow>
               (case PrepareDraw_createBinding pso v p s2 of
                  Inl e \<Rightarrow> Inl e
                | Inr (entry, s3) \<Rightarrow>
                    Inr (entry,
                         s3\<lparr>impl := (impl s3)\<lparr>pipelineStates :=
                              (pipelineStates (impl s3))(pipelineKey s \<mapsto> entry)\<rparr>\<rparr>))))"

definition PrepareDraw_adopt :: "PipelineState \<Rightarrow> Graphics \<Rightarrow> bool \<times> Graphics" where
  "PrepareDraw_adopt entry s =
     (if currentPipelineState (impl s) \<noteq> pipelineState entry
      then (True, s\<lparr>impl := (impl s)\<lparr>
                     currentPipelineState := pipelineState entry,
                     currentShaderResourceBinding := shaderResourceBinding entry,
                     currentTextureMap := textureMap entry\<rparr>\<rparr>)
      else (False, s))"

text \<open>
  The pipeline-resolution step, entered when \<^verbatim>\<open>pipelineStateDirty\<close> holds (both shaders
  are bound then): the result is \<^verbatim>\<open>pipelineStateChanged\<close> and the state.
\<close>

definition PrepareDraw_pipeline :: "Graphics \<Rightarrow> error + (bool \<times> Graphics)" where
  "PrepareDraw_pipeline s =
     (case pipelineStates (impl s) (pipelineKey s) of
        Some entry \<Rightarrow> Inr (PrepareDraw_adopt entry s)
      | None \<Rightarrow>
          (case (vertexShader s, pixelShader s) of
             (Some v, Some p) \<Rightarrow>
               (case PrepareDraw_build v p s of
                  Inl e \<Rightarrow> Inl e
                | Inr (entry, s1) \<Rightarrow> Inr (PrepareDraw_adopt entry s1))
           | _ \<Rightarrow> Inl NullPointer))"

subsection \<open>Binding and the flush of the constant buffers\<close>

definition commitTexture :: "bool \<Rightarrow> 32 word \<times> Variable \<Rightarrow> Graphics \<Rightarrow> Graphics" where
  "commitTexture pipelineStateChanged = (\<lambda>(textureUnit, variable) s.
     if pipelineStateChanged
        \<or> (textureUnit \<ge> firstDirtyTexture (impl s) \<and> textureUnit \<le> lastDirtyTexture (impl s))
     then (case shaderResourceViews (impl s) textureUnit of
             Some view \<Rightarrow>
               deviceCall (DevVariableSet variable view)
                 (deviceCall (DevSetSampler view (samplers (impl s) textureUnit)) s)
           | None \<Rightarrow> s)
     else s)"

definition PrepareDraw_textures :: "bool \<Rightarrow> Graphics \<Rightarrow> Graphics" where
  "PrepareDraw_textures pipelineStateChanged s =
     (if pipelineStateChanged
         \<or> (texturesDirty (impl s) \<and> firstDirtyTexture (impl s) < M_MAX_UNSIGNED)
      then
        (let s1 = (case currentTextureMap (impl s) of
                     Some tm \<Rightarrow> fold (commitTexture pipelineStateChanged) tm s
                   | None \<Rightarrow> s)
         in s1\<lparr>impl := (impl s1)\<lparr>firstDirtyTexture := M_MAX_UNSIGNED,
                                    lastDirtyTexture := M_MAX_UNSIGNED,
                                    texturesDirty := False\<rparr>\<rparr>)
      else s)"

definition PrepareDraw_scissor :: "Graphics \<Rightarrow> Graphics" where
  "PrepareDraw_scissor s =
     (if scissorRectDirty (impl s)
      then (let s1 = deviceCall (DevSetScissorRects (scissorRect s)) s
            in s1\<lparr>impl := (impl s1)\<lparr>scissorRectDirty := False\<rparr>\<rparr>)
      else s)"

definition PrepareDraw_constantBuffers :: "Graphics \<Rightarrow> Graphics" where
  "PrepareDraw_constantBuffers s =
     (let s1 = fold Apply (dirtyConstantBuffers (impl s)) s
      in s1\<lparr>impl := (impl s1)\<lparr>dirtyConstantBuffers := []\<rparr>\<rparr>)"

definition PrepareDraw_commit :: "bool \<Rightarrow> Graphics \<Rightarrow> error + Graphics" where
  "PrepareDraw_commit pipelineStateChanged s =
     (case currentPipelineState (impl s) of
        None \<Rightarrow> Inl AssertionFailed
      | Some pso \<Rightarrow>
          (let s1 = PrepareDraw_textures pipelineStateChanged (deviceCall (DevSetPipelineState pso) s)
           in case currentShaderResourceBinding (impl s1) of
                None \<Rightarrow> Inl AssertionFailed
              | Some srb \<Rightarrow>
                  Inr (PrepareDraw_constantBuffers
                         (PrepareDraw_scissor (deviceCall (DevCommitShaderResources srb) s1)))))"

definition PrepareDraw_anyDirty :: "Graphics \<Rightarrow> bool" where
  "PrepareDraw_anyDirty s =
     (vertexShaderDirty (impl s) \<or> pixelShaderDirty (impl s) \<or> blendStateDirty (impl s)
      \<or> depthStateDirty (impl s) \<or> rasterizerStateDirty (impl s) \<or> primitiveTypeDirty (impl s)
      \<or> vertexDeclarationDirty (impl s))"

text \<open>The part of \<^verbatim>\<open>PrepareDraw\<close> between the early return and the binding.\<close>

definition PrepareDraw_resolve :: "Graphics \<Rightarrow> error + (bool \<times> Graphics)" where
  "PrepareDraw_resolve s =
     (if PrepareDraw_anyDirty s
      then (if snd (PrepareDraw_state s)
            then PrepareDraw_pipeline (fst (PrepareDraw_state s))
            else Inr (False, fst (PrepareDraw_state s)))
      else Inr (False, s))"

definition PrepareDraw :: "Graphics \<Rightarrow> error + Graphics" where
  "PrepareDraw s0 =
     (let s = PrepareDraw_renderTargets s0
      in if vertexShader s = None \<or> pixelShader s = None then Inr s
         else (case PrepareDraw_resolve s of
                 Inl e \<Rightarrow> Inl e
               | Inr (pipelineStateChanged, s1) \<Rightarrow> PrepareDraw_commit pipelineStateChanged s1))"

section \<open>Draw calls\<close>

text \<open>\<^verbatim>\<open>diligentIndexType\<close>, a table of five entries indexed by the index size.\<close>

definition diligentIndexType :: "32 word \<Rightarrow> VALUE_TYPE" where
  "diligentIndexType n =
     (if n = 1 then VT_UINT8 else if n = 2 then VT_UINT16 else if n = 4 then VT_UINT32
      else VT_UNDEFINED)"

definition countBatch :: "32 word \<Rightarrow> Graphics \<Rightarrow> Graphics" where
  "countBatch n s = s\<lparr>numPrimitives := numPrimitives s + n, numBatches := numBatches s + 1\<rparr>"

definition Draw :: "PrimitiveType \<Rightarrow> 32 word \<Rightarrow> 32 word \<Rightarrow> Graphics \<Rightarrow> error + Graphics" where
  "Draw type0 vertexStart vertexCount s =
     (if vertexCount = 0 \<or> shaderProgram (impl s) = None then Inr s
      else
        (let type = (if fillMode s = FILL_POINT then POINT_LIST else type0)
         in case PrepareDraw (SetPrimitiveType type s) of
              Inl e \<Rightarrow> Inl e
            | Inr s1 \<Rightarrow>
                Inr (countBatch (GetPrimitiveCount vertexCount type)
                       (deviceCall (DevDraw vertexCount vertexStart) s1))))"

text \<open>
  The indexed draws read \<^verbatim>\<open>indexBuffer_->GetIndexSize()\<close> without a check. The four of them
  differ in their guard, in the base vertex and in the instance count; \<open>drawIndexed\<close> is what
  they share after the guard.
\<close>

definition drawIndexed :: "PrimitiveType \<Rightarrow> 32 word \<Rightarrow> 32 word \<Rightarrow> 32 word \<Rightarrow> 32 word
    \<Rightarrow> Graphics \<Rightarrow> error + Graphics" where
  "drawIndexed type0 indexStart indexCount baseVertexIndex instanceCount s =
     (let type = (if fillMode s = FILL_POINT then POINT_LIST else type0)
      in case PrepareDraw (SetPrimitiveType type s) of
           Inl e \<Rightarrow> Inl e
         | Inr s1 \<Rightarrow>
             (case indexBuffer s1 of
                None \<Rightarrow> Inl NullPointer
              | Some ib \<Rightarrow>
                  Inr (countBatch (instanceCount * GetPrimitiveCount indexCount type)
                         (deviceCall
                            (DevDrawIndexed (diligentIndexType (indexSize (ibStore s1 ib)))
                               indexStart indexCount baseVertexIndex instanceCount) s1))))"

definition Draw_indexed :: "PrimitiveType \<Rightarrow> 32 word \<Rightarrow> 32 word \<Rightarrow> 32 word \<Rightarrow> 32 word
    \<Rightarrow> Graphics \<Rightarrow> error + Graphics" where
  "Draw_indexed type0 indexStart indexCount minVertex vertexCount s =
     (if vertexCount = 0 \<or> shaderProgram (impl s) = None then Inr s
      else drawIndexed type0 indexStart indexCount 0 1 s)"

definition Draw_indexed_base :: "PrimitiveType \<Rightarrow> 32 word \<Rightarrow> 32 word \<Rightarrow> 32 word \<Rightarrow> 32 word
    \<Rightarrow> 32 word \<Rightarrow> Graphics \<Rightarrow> error + Graphics" where
  "Draw_indexed_base type0 indexStart indexCount baseVertexIndex minVertex vertexCount s =
     (if vertexCount = 0 \<or> shaderProgram (impl s) = None then Inr s
      else drawIndexed type0 indexStart indexCount baseVertexIndex 1 s)"

definition DrawInstanced :: "PrimitiveType \<Rightarrow> 32 word \<Rightarrow> 32 word \<Rightarrow> 32 word \<Rightarrow> 32 word
    \<Rightarrow> 32 word \<Rightarrow> Graphics \<Rightarrow> error + Graphics" where
  "DrawInstanced type0 indexStart indexCount minVertex vertexCount instanceCount s =
     (if indexCount = 0 \<or> instanceCount = 0 \<or> shaderProgram (impl s) = None then Inr s
      else drawIndexed type0 indexStart indexCount 0 instanceCount s)"

definition DrawInstanced_base :: "PrimitiveType \<Rightarrow> 32 word \<Rightarrow> 32 word \<Rightarrow> 32 word \<Rightarrow> 32 word
    \<Rightarrow> 32 word \<Rightarrow> 32 word \<Rightarrow> Graphics \<Rightarrow> error + Graphics" where
  "DrawInstanced_base type0 indexStart indexCount baseVertexIndex minVertex vertexCount
       instanceCount s =
     (if indexCount = 0 \<or> instanceCount = 0 \<or> shaderProgram (impl s) = None then Inr s
      else drawIndexed type0 indexStart indexCount baseVertexIndex instanceCount s)"

section \<open>Sequences of calls\<close>

text \<open>
  The calls a client makes between two frames, as data; \<open>run\<close> makes them in order and
  stops at the first failure.
\<close>

datatype call =
    CallSetBlendMode BlendMode bool
  | CallSetColorWrite bool
  | CallSetCullMode CullMode
  | CallSetDepthBias real real
  | CallSetDepthTest CompareMode
  | CallSetDepthWrite bool
  | CallSetFillMode FillMode
  | CallSetLineAntiAlias bool
  | CallSetScissorTest bool Rect bool
  | CallSetScissorTest_IntRect bool IntRect
  | CallSetStencilTest bool CompareMode StencilOp StencilOp StencilOp "32 word" "32 word" "32 word"
  | CallSetViewport IntRect
  | CallSetTexture "32 word" "nat option"
  | CallSetDefaultTextureFilterMode TextureFilterMode
  | CallSetRenderTarget "32 word" "nat option"
  | CallSetRenderTarget_Texture2D "32 word" "nat option"
  | CallSetDepthStencil "nat option"
  | CallSetDepthStencil_Texture2D "nat option"
  | CallSetVertexBuffers "nat option list" "32 word"
  | CallSetVertexBuffer "nat option"
  | CallSetIndexBuffer "nat option"
  | CallSetShaders "nat option" "nat option"
  | CallSetShaderParameter string "8 word list"
  | CallSetClipPlane bool "8 word list"
  | CallDraw PrimitiveType "32 word" "32 word"
  | CallDraw_indexed PrimitiveType "32 word" "32 word" "32 word" "32 word"
  | CallDraw_indexed_base PrimitiveType "32 word" "32 word" "32 word" "32 word" "32 word"
  | CallDrawInstanced PrimitiveType "32 word" "32 word" "32 word" "32 word" "32 word"
  | CallDrawInstanced_base PrimitiveType "32 word" "32 word" "32 word" "32 word" "32 word"
      "32 word"

fun exec :: "call \<Rightarrow> Graphics \<Rightarrow> error + Graphics" where
  "exec (CallSetBlendMode m a) s = Inr (SetBlendMode m a s)"
| "exec (CallSetColorWrite e) s = Inr (SetColorWrite e s)"
| "exec (CallSetCullMode m) s = Inr (SetCullMode m s)"
| "exec (CallSetDepthBias c sl) s = Inr (SetDepthBias c sl s)"
| "exec (CallSetDepthTest m) s = Inr (SetDepthTest m s)"
| "exec (CallSetDepthWrite e) s = Inr (SetDepthWrite e s)"
| "exec (CallSetFillMode m) s = Inr (SetFillMode m s)"
| "exec (CallSetLineAntiAlias e) s = Inr (SetLineAntiAlias e s)"
| "exec (CallSetScissorTest e r b) s = Inr (SetScissorTest e r b s)"
| "exec (CallSetScissorTest_IntRect e r) s = Inr (SetScissorTest_IntRect e r s)"
| "exec (CallSetStencilTest e m p f z r cm wm) s = Inr (SetStencilTest e m p f z r cm wm s)"
| "exec (CallSetViewport r) s = Inr (SetViewport r s)"
| "exec (CallSetTexture i t) s = Inr (SetTexture i t s)"
| "exec (CallSetDefaultTextureFilterMode m) s = Inr (SetDefaultTextureFilterMode m s)"
| "exec (CallSetRenderTarget i rt) s = Inr (SetRenderTarget i rt s)"
| "exec (CallSetRenderTarget_Texture2D i t) s = Inr (SetRenderTarget_Texture2D i t s)"
| "exec (CallSetDepthStencil ds) s = Inr (SetDepthStencil ds s)"
| "exec (CallSetDepthStencil_Texture2D t) s = Inr (SetDepthStencil_Texture2D t s)"
| "exec (CallSetVertexBuffers bs off) s = Inr (snd (SetVertexBuffers bs off s))"
| "exec (CallSetVertexBuffer b) s = Inr (SetVertexBuffer b s)"
| "exec (CallSetIndexBuffer b) s = Inr (SetIndexBuffer b s)"
| "exec (CallSetShaders vs ps) s = Inr (SetShaders vs ps s)"
| "exec (CallSetShaderParameter p bytes) s = Inr (SetShaderParameter p bytes s)"
| "exec (CallSetClipPlane e plane) s = Inr (SetClipPlane e plane s)"
| "exec (CallDraw t vs n) s = Draw t vs n s"
| "exec (CallDraw_indexed t is ic mv vc) s = Draw_indexed t is ic mv vc s"
| "exec (CallDraw_indexed_base t is ic bv mv vc) s = Draw_indexed_base t is ic bv mv vc s"
| "exec (CallDrawInstanced t is ic mv vc n) s = DrawInstanced t is ic mv vc n s"
| "exec (CallDrawInstanced_base t is ic bv mv vc n) s = DrawInstanced_base t is ic bv mv vc n s"

fun run :: "call list \<Rightarrow> Graphics \<Rightarrow> error + Graphics" where
  "run [] s = Inr s"
| "run (c # cs) s = (case exec c s of Inl e \<Rightarrow> Inl e | Inr s' \<Rightarrow> run cs s')"

text \<open>
  The guards of the draw calls: \<open>issued c s\<close> holds of a draw call that gets past its guard
  in \<open>s\<close>.
\<close>

fun issued :: "call \<Rightarrow> Graphics \<Rightarrow> bool" where
  "issued (CallDraw t vs n) s \<longleftrightarrow> \<not> (n = 0 \<or> shaderProgram (impl s) = None)"
| "issued (CallDraw_indexed t is ic mv vc) s \<longleftrightarrow> \<not> (vc = 0 \<or> shaderProgram (impl s) = None)"
| "issued (CallDraw_indexed_base t is ic bv mv vc) s \<longleftrightarrow>
     \<not> (vc = 0 \<or> shaderProgram (impl s) = None)"
| "issued (CallDrawInstanced t is ic mv vc n) s \<longleftrightarrow>
     \<not> (ic = 0 \<or> n = 0 \<or> shaderProgram (impl s) = None)"
| "issued (CallDrawInstanced_base t is ic bv mv vc n) s \<longleftrightarrow>
     \<not> (ic = 0 \<or> n = 0 \<or> shaderProgram (impl s) = None)"
| "issued _ s \<longleftrightarrow> False"

text \<open>
  What the constructor leaves of the pipeline-state cache: the map is empty, the counter of
  \<^verbatim>\<open>PrepareDraw\<close> is 0, and \<^verbatim>\<open>ResetCachedState\<close> has cleared the shaders and the shader
  program.
\<close>

definition constructed :: "Graphics \<Rightarrow> bool" where
  "constructed s \<longleftrightarrow>
     dom (pipelineStates (impl s)) = {} \<and> PrepareDraw_count s = 0
     \<and> vertexShader s = None \<and> pixelShader s = None \<and> shaderProgram (impl s) = None"

section \<open>A concrete scene\<close>

text \<open>
  A device whose calls all succeed and a handful of objects, to run the functions on: a
  window of 1024 by 768; textures with a device object and a view but no sampler yet, of
  which texture 2 is a render target (surface 1) with texture 3 as its backup; shader
  variations that are compiled already; a program with one parameter in constant buffer 1.
  \<open>scene\<close> is the state after the constructor: these objects, and \<^verbatim>\<open>ResetCachedState\<close>.
\<close>

definition scene_device :: Device where
  "scene_device =
     \<lparr>calls = [], created = 0, createFails = (\<lambda>n. False), mapFails = (\<lambda>n. False),
      bufferData = (\<lambda>b. [])\<rparr>"

definition scene_impl :: GraphicsImpl where
  "scene_impl =
     \<lparr>device = scene_device,
      pipelineStates = Map.empty,
      currentPipelineState = None,
      currentShaderResourceBinding = None,
      currentTextureMap = None,
      defaultRenderTargetView = Some 1,
      defaultDepthStencilView = Some 2,
      renderTargetViews = (\<lambda>i. None),
      depthStencilView = None,
      renderTargetsDirty = False,
      texturesDirty = False,
      vertexDeclarationDirty = False,
      vertexShaderDirty = False,
      pixelShaderDirty = False,
      blendStateDirty = False,
      depthStateDirty = False,
      rasterizerStateDirty = False,
      scissorRectDirty = False,
      stencilRefDirty = False,
      firstDirtyTexture = 0,
      lastDirtyTexture = 0,
      shaderResourceViews = (\<lambda>i. None),
      samplers = (\<lambda>i. None),
      impl_vertexBuffers = (\<lambda>i. None),
      constantBuffers = (\<lambda>t i. None),
      vertexSizes = (\<lambda>i. 0),
      vertexOffsets = (\<lambda>i. 0),
      firstDirtyVB = M_MAX_UNSIGNED,
      lastDirtyVB = M_MAX_UNSIGNED,
      dirtyConstantBuffers = [],
      shaderPrograms = Map.empty,
      shaderProgram = None,
      blendStateHash = 0,
      depthStateHash = 0,
      rasterizerStateHash = 0,
      primitiveType = TRIANGLE_LIST,
      primitiveTypeDirty = False\<rparr>"

definition scene_texture :: "nat \<Rightarrow> Texture" where
  "scene_texture t =
     \<lparr>tex_object = Some (100 + t),
      shaderResourceView = Some (200 + t),
      sampler = None,
      resolveTexture = None,
      backupTexture = (if t = 2 then Some 3 else None),
      renderSurface = (if t = 2 then Some 1 else None),
      renderSurfaces = (\<lambda>face. 0),
      tex_type = Texture2D,
      usage = (if t = 2 then TEXTURE_RENDERTARGET else TEXTURE_STATIC),
      tex_width = 256,
      tex_height = 256,
      levels = 1,
      format = 0,
      multiSample = 1,
      autoResolve = False,
      resolveDirty = False,
      levelsDirty = False,
      parametersDirty = False\<rparr>"

definition scene_surface :: "nat \<Rightarrow> RenderSurface" where
  "scene_surface r =
     \<lparr>parentTexture = 2, renderTargetView = Some (300 + r), readOnlyView = None,
      surf_resolveDirty = False\<rparr>"

definition scene_vertexBuffer :: "nat \<Rightarrow> VertexBuffer" where
  "scene_vertexBuffer b =
     \<lparr>vb_object = Some (400 + b),
      vertexSize = 12,
      elements = [\<lparr>elem_type = 3, semantic = 0, elem_index = 0, perInstance = False,
                    elem_offset = 0\<rparr>],
      bufferHash = (\<lambda>i. push_bit (unat i * 16) 1)\<rparr>"

definition scene_indexBuffer :: "nat \<Rightarrow> IndexBuffer" where
  "scene_indexBuffer b = \<lparr>ib_object = Some (500 + b), indexSize = 2\<rparr>"

definition scene_shader :: "nat \<Rightarrow> ShaderVariation" where
  "scene_shader v =
     \<lparr>sv_object = Some (600 + v),
      compilerOutput = [],
      fullName = [],
      compiled_object = Some (600 + v),
      compiled_output = [],
      clipPlaneVariation = Some v,
      constantBufferSizes = (\<lambda>i. 0),
      constantBufferNames = (\<lambda>i. []),
      textureResources = (if v = 2 then [''tDiffMap''] else []),
      variableUnits = (if v = 2 then [0] else [])\<rparr>"

definition scene_constantBuffer :: "nat \<Rightarrow> ConstantBuffer" where
  "scene_constantBuffer b =
     \<lparr>cb_object = Some (700 + b), cb_dirty = False, cb_size = 16,
      shadowData = replicate 16 0\<rparr>"

definition scene_program :: "nat \<Rightarrow> nat \<Rightarrow> ShaderProgram" where
  "scene_program v p =
     \<lparr>parameters = [''MatDiffColor'' \<mapsto> \<lparr>bufferPtr = 1, param_offset = 0\<rparr>],
      vsConstantBuffers = (\<lambda>i. None),
      psConstantBuffers = (\<lambda>i. None)\<rparr>"

definition scene_fields :: Graphics where
  "scene_fields =
     \<lparr>impl = scene_impl,
      width = 1024,
      height = 768,
      numPrimitives = 0,
      numBatches = 0,
      vertexBuffers = (\<lambda>i. None),
      indexBuffer = None,
      vertexDeclarationHash = 0,
      vertexShader = None,
      pixelShader = None,
      textures = (\<lambda>i. None),
      renderTargets = (\<lambda>i. None),
      depthStencil = None,
      viewport = IntRect_ZERO,
      blendMode = BLEND_REPLACE,
      alphaToCoverage = False,
      colorWrite = True,
      cullMode = CULL_CCW,
      constantDepthBias = 0,
      slopeScaledDepthBias = 0,
      depthTestMode = CMP_LESSEQUAL,
      depthWrite = True,
      fillMode = FILL_SOLID,
      lineAntiAlias = False,
      scissorTest = False,
      scissorRect = IntRect_ZERO,
      stencilTest = False,
      stencilTestMode = CMP_ALWAYS,
      stencilPass = OP_KEEP,
      stencilFail = OP_KEEP,
      stencilZFail = OP_KEEP,
      stencilRef = 0,
      stencilCompareMask = M_MAX_UNSIGNED,
      stencilWriteMask = M_MAX_UNSIGNED,
      useClipPlane = False,
      clipPlane = [],
      shaderParameterSources = (\<lambda>i. NoSource),
      shaderPrecache = False,
      defaultTextureFilterMode = FILTER_TRILINEAR,
      gpuObjects = [1, 2, 3],
      texStore = scene_texture,
      surfStore = scene_surface,
      vbStore = scene_vertexBuffer,
      ibStore = scene_indexBuffer,
      svStore = scene_shader,
      cbStore = scene_constantBuffer,
      newShaderProgram = scene_program,
      PrepareDraw_count = 0,
      errorLog = [],
      storedShaders = []\<rparr>"

definition scene :: Graphics where
  "scene = ResetCachedState scene_fields"

text \<open>The scene with shaders 1 and 2, a vertex buffer and an index buffer bound.\<close>

definition scene_bound :: Graphics where
  "scene_bound =
     SetIndexBuffer (Some 1) (SetVertexBuffer (Some 1) (SetShaders (Some 1) (Some 2) scene))"





text \<open>
  The bound scene with the stencil test enabled, after a triangle was drawn; and the same
  with the ninth bit of the compare mask set as well.
\<close>

definition scene_stencil :: Graphics where
  "scene_stencil =
     projr (Draw TRIANGLE_LIST 0 3
       (SetStencilTest True CMP_ALWAYS OP_REF OP_KEEP OP_KEEP 1 255 255 scene_bound))"

definition scene_stencil_masked :: Graphics where
  "scene_stencil_masked =
     SetStencilTest True CMP_ALWAYS OP_REF OP_KEEP OP_KEEP 1 511 255 scene_stencil"





text \<open>
  The bound scene after a triangle was drawn; after the cull mode was changed and changed
  back, and a triangle drawn again; and after the cull mode was changed and a triangle drawn.
\<close>

definition scene_drawn :: Graphics where
  "scene_drawn = projr (Draw TRIANGLE_LIST 0 3 scene_bound)"

definition scene_recull :: Graphics where
  "scene_recull = SetCullMode CULL_CCW (SetCullMode CULL_NONE scene_drawn)"

definition scene_redrawn :: Graphics where
  "scene_redrawn = projr (Draw TRIANGLE_LIST 0 3 scene_recull)"

definition scene_culled :: Graphics where
  "scene_culled = projr (Draw TRIANGLE_LIST 0 3 (SetCullMode CULL_NONE scene_drawn))"

section \<open>Views of the state\<close>

text \<open>The counters of primitives and batches drawn in the frame.\<close>

definition counters :: "Graphics \<Rightarrow> 32 word \<times> 32 word" where
  "counters s = (numPrimitives s, numBatches s)"

text \<open>
  \<open>maintains s s'\<close>: \<open>s'\<close> is \<open>s\<close> but for the textures' and surfaces' own flags and samplers,
  the error log and the device; no texture has got another backup texture, and none has got
  dirty sampler parameters.
\<close>

definition maintains :: "Graphics \<Rightarrow> Graphics \<Rightarrow> bool" where
  "maintains s s' \<longleftrightarrow>
     s' = s\<lparr>texStore := texStore s', surfStore := surfStore s', errorLog := errorLog s',
            impl := (impl s)\<lparr>device := device (impl s')\<rparr>\<rparr>
     \<and> (\<forall>t. backupTexture (texStore s' t) = backupTexture (texStore s t))
     \<and> (\<forall>t. GetParametersDirty (texStore s' t) \<longrightarrow> GetParametersDirty (texStore s t))"

text \<open>
  What the pipeline-state cache and its key are made of: in \<^verbatim>\<open>GraphicsImpl\<close> the cache, the
  current triple, the three dirty flags that alone announce a change of the shaders and of the
  primitive type, the primitive type, the three stored hashes and the shader program; in
  \<^verbatim>\<open>Graphics\<close> the two shaders, the vertex-declaration hash and the counter of pipelines built.
\<close>

definition cacheView :: "GraphicsImpl \<Rightarrow>
    (PipelineKey \<rightharpoonup> PipelineState) \<times> nat option \<times> nat option \<times> TextureMap option
    \<times> bool \<times> bool \<times> bool \<times> PrimitiveType \<times> 32 word \<times> 32 word \<times> 32 word
    \<times> ShaderProgram option" where
  "cacheView i =
     (pipelineStates i, currentPipelineState i, currentShaderResourceBinding i,
      currentTextureMap i, vertexShaderDirty i, pixelShaderDirty i, primitiveTypeDirty i,
      primitiveType i, blendStateHash i, depthStateHash i, rasterizerStateHash i,
      shaderProgram i)"

definition pipelineView :: "Graphics \<Rightarrow> _" where
  "pipelineView s =
     (vertexShader s, pixelShader s, vertexDeclarationHash s, PrepareDraw_count s,
      cacheView (impl s))"

text \<open>The shaders and the dirty flags \<^verbatim>\<open>SetShaders\<close> raises.\<close>

definition shaderFlags :: "Graphics \<Rightarrow> nat option \<times> nat option \<times> bool \<times> bool \<times> bool" where
  "shaderFlags s =
     (vertexShader s, pixelShader s, vertexShaderDirty (impl s), pixelShaderDirty (impl s),
      vertexDeclarationDirty (impl s))"

text \<open>The fields the four state hashes are computed from.\<close>

definition hashInputs :: "Graphics \<Rightarrow> _" where
  "hashInputs s =
     ((colorWrite s, alphaToCoverage s, blendMode s),
      (depthWrite s, stencilTest s, depthTestMode s, stencilCompareMask s, stencilWriteMask s,
       stencilTestMode s, stencilFail s, stencilZFail s, stencilPass s),
      (scissorTest s, lineAntiAlias s, fillMode s, cullMode s, constantDepthBias s,
       slopeScaledDepthBias s, depthStencil s, surfStore s, texStore s),
      (vertexBuffers s, vbStore s))"

text \<open>
  \<open>retargets s s'\<close>: \<open>s'\<close> is \<open>s\<close> but for what applying the render targets touches, the
  views handed to the device, the viewport, the scissor test and its dirty flag.
\<close>

definition retargets :: "Graphics \<Rightarrow> Graphics \<Rightarrow> bool" where
  "retargets s s' \<longleftrightarrow>
     s' = s\<lparr>viewport := viewport s', scissorTest := scissorTest s',
            impl := (impl s)\<lparr>device := device (impl s'),
                             depthStencilView := depthStencilView (impl s'),
                             renderTargetViews := renderTargetViews (impl s'),
                             renderTargetsDirty := renderTargetsDirty (impl s'),
                             rasterizerStateDirty := rasterizerStateDirty (impl s')\<rparr>\<rparr>
     \<and> (rasterizerStateDirty (impl s) \<longrightarrow> rasterizerStateDirty (impl s'))"

text \<open>The sampler of each texture and whether its parameters are dirty.\<close>

definition samplersOf :: "Graphics \<Rightarrow> nat \<Rightarrow> bool \<times> nat option" where
  "samplersOf s t = (parametersDirty (texStore s t), sampler (texStore s t))"

text \<open>
  \<open>devices s s'\<close>: \<open>s'\<close> is \<open>s\<close> but for the device. \<open>builds s s'\<close>: \<open>s'\<close> is \<open>s\<close> but for
  the device, the pipeline-state cache, the current pipeline triple and the counter of
  pipelines built.
\<close>

definition devices :: "Graphics \<Rightarrow> Graphics \<Rightarrow> bool" where
  "devices s s' \<longleftrightarrow> s' = s\<lparr>impl := (impl s)\<lparr>device := device (impl s')\<rparr>\<rparr>"

definition builds :: "Graphics \<Rightarrow> Graphics \<Rightarrow> bool" where
  "builds s s' \<longleftrightarrow>
     s' = s\<lparr>PrepareDraw_count := PrepareDraw_count s',
            impl := (impl s)\<lparr>device := device (impl s'),
                             pipelineStates := pipelineStates (impl s'),
                             currentPipelineState := currentPipelineState (impl s'),
                             currentShaderResourceBinding :=
                               currentShaderResourceBinding (impl s'),
                             currentTextureMap := currentTextureMap (impl s')\<rparr>\<rparr>"

text \<open>
  What the invariant of the cache is made of. \<open>settled\<close>: none of the three flags that alone
  announce a change of the shaders or of the primitive type is raised. \<open>resolved\<close>: the cache
  has an entry under the key of the state and its pipeline is the current one. \<open>built s s'\<close>:
  from \<open>s\<close> to \<open>s'\<close> the cache and the counter stayed as they were, or the key of \<open>s'\<close>,
  not in the cache before, was added and the counter went up by one.
\<close>

definition settled :: "Graphics \<Rightarrow> bool" where
  "settled s \<longleftrightarrow>
     \<not> vertexShaderDirty (impl s) \<and> \<not> pixelShaderDirty (impl s)
     \<and> \<not> primitiveTypeDirty (impl s)"

definition resolved :: "Graphics \<Rightarrow> bool" where
  "resolved s \<longleftrightarrow>
     (case pipelineStates (impl s) (pipelineKey s) of
        None \<Rightarrow> False
      | Some e \<Rightarrow> currentPipelineState (impl s) = pipelineState e)"

definition built :: "Graphics \<Rightarrow> Graphics \<Rightarrow> bool" where
  "built s s' \<longleftrightarrow>
     (pipelineStates (impl s') = pipelineStates (impl s)
      \<and> PrepareDraw_count s' = PrepareDraw_count s)
     \<or> (pipelineKey s' \<notin> dom (pipelineStates (impl s))
        \<and> dom (pipelineStates (impl s')) = insert (pipelineKey s') (dom (pipelineStates (impl s)))
        \<and> pipelineStates (impl s) \<subseteq>\<^sub>m pipelineStates (impl s')
        \<and> PrepareDraw_count s' = PrepareDraw_count s + 1)"

text \<open>The cache, the counter and the part of the key that \<^verbatim>\<open>SetShaders\<close> leaves alone.\<close>

definition cacheCore :: "Graphics \<Rightarrow> _" where
  "cacheCore s =
     (pipelineStates (impl s), currentPipelineState (impl s), PrepareDraw_count s,
      blendStateHash (impl s), depthStateHash (impl s), rasterizerStateHash (impl s),
      vertexDeclarationHash s, primitiveType (impl s), primitiveTypeDirty (impl s))"

text \<open>
  The invariant: a settled state with both shaders bound is resolved; the cache has as many
  keys as pipelines were built; and a shader program is only recorded with both shaders.
\<close>

definition cacheInvariant :: "Graphics \<Rightarrow> bool" where
  "cacheInvariant s \<longleftrightarrow>
     (vertexShader s \<noteq> None \<and> pixelShader s \<noteq> None \<and> settled s \<longrightarrow> resolved s)
     \<and> finite (dom (pipelineStates (impl s)))
     \<and> int (card (dom (pipelineStates (impl s)))) = PrepareDraw_count s
     \<and> (shaderProgram (impl s) \<noteq> None \<longrightarrow> vertexShader s \<noteq> None \<and> pixelShader s \<noteq> None)"

fun isDraw :: "call \<Rightarrow> bool" where
  "isDraw (CallDraw t vs n) = True"
| "isDraw (CallDraw_indexed t is ic mv vc) = True"
| "isDraw (CallDraw_indexed_base t is ic bv mv vc) = True"
| "isDraw (CallDrawInstanced t is ic mv vc n) = True"
| "isDraw (CallDrawInstanced_base t is ic bv mv vc n) = True"
| "isDraw _ = False"

text \<open>The three stencil operations as the depth-state hash packs them.\<close>

definition stencilOps :: "Graphics \<Rightarrow> 32 word" where
  "stencilOps s = StencilOp_int (stencilFail s) + StencilOp_int (stencilZFail s) * 5
                     + StencilOp_int (stencilPass s) * 25"
section \<open>What the functions leave alone\<close>

lemma fold_keeps: "(\<And>x s. g (f x s) = g s) \<Longrightarrow> g (fold f xs s) = g s"
  by (induction xs arbitrary: s) simp_all

lemma counters_update [simp]:
  "counters (impl_update f0 s) = counters s"
  "counters (width_update f1 s) = counters s"
  "counters (height_update f2 s) = counters s"
  "counters (vertexBuffers_update f3 s) = counters s"
  "counters (indexBuffer_update f4 s) = counters s"
  "counters (vertexDeclarationHash_update f5 s) = counters s"
  "counters (vertexShader_update f6 s) = counters s"
  "counters (pixelShader_update f7 s) = counters s"
  "counters (textures_update f8 s) = counters s"
  "counters (renderTargets_update f9 s) = counters s"
  "counters (depthStencil_update f10 s) = counters s"
  "counters (viewport_update f11 s) = counters s"
  "counters (blendMode_update f12 s) = counters s"
  "counters (alphaToCoverage_update f13 s) = counters s"
  "counters (colorWrite_update f14 s) = counters s"
  "counters (cullMode_update f15 s) = counters s"
  "counters (constantDepthBias_update f16 s) = counters s"
  "counters (slopeScaledDepthBias_update f17 s) = counters s"
  "counters (depthTestMode_update f18 s) = counters s"
  "counters (depthWrite_update f19 s) = counters s"
  "counters (fillMode_update f20 s) = counters s"
  "counters (lineAntiAlias_update f21 s) = counters s"
  "counters (scissorTest_update f22 s) = counters s"
  "counters (scissorRect_update f23 s) = counters s"
  "counters (stencilTest_update f24 s) = counters s"
  "counters (stencilTestMode_update f25 s) = counters s"
  "counters (stencilPass_update f26 s) = counters s"
  "counters (stencilFail_update f27 s) = counters s"
  "counters (stencilZFail_update f28 s) = counters s"
  "counters (stencilRef_update f29 s) = counters s"
  "counters (stencilCompareMask_update f30 s) = counters s"
  "counters (stencilWriteMask_update f31 s) = counters s"
  "counters (useClipPlane_update f32 s) = counters s"
  "counters (clipPlane_update f33 s) = counters s"
  "counters (shaderParameterSources_update f34 s) = counters s"
  "counters (shaderPrecache_update f35 s) = counters s"
  "counters (defaultTextureFilterMode_update f36 s) = counters s"
  "counters (gpuObjects_update f37 s) = counters s"
  "counters (texStore_update f38 s) = counters s"
  "counters (surfStore_update f39 s) = counters s"
  "counters (vbStore_update f40 s) = counters s"
  "counters (ibStore_update f41 s) = counters s"
  "counters (svStore_update f42 s) = counters s"
  "counters (cbStore_update f43 s) = counters s"
  "counters (newShaderProgram_update f44 s) = counters s"
  "counters (PrepareDraw_count_update f45 s) = counters s"
  "counters (errorLog_update f46 s) = counters s"
  "counters (storedShaders_update f47 s) = counters s"
  by (simp_all add: counters_def)

lemmas counters_if = if_distrib [where f = counters] option.case_distrib [where h = counters]
  if_distrib [where f = fst] if_distrib [where f = snd] prod.case_distrib [where h = counters]
  prod.case_distrib [where h = fst]

lemma counters_deviceCall [simp]: "counters (deviceCall c s) = counters s"
  by (simp add: deviceCall_def)

lemma counters_deviceCreate [simp]: "counters (snd (deviceCreate c s)) = counters s"
  by (simp add: deviceCreate_def Let_def)

lemma counters_LOGERROR [simp]: "counters (URHO3D_LOGERROR m s) = counters s"
  by (simp add: URHO3D_LOGERROR_def)

lemma counters_scissor_enable [simp]: "counters (scissor_enable e s) = counters s"
  by (simp add: scissor_enable_def)

lemma counters_scissor_finish [simp]: "counters (snd (scissor_finish e r s)) = counters s"
  by (simp add: scissor_finish_def Let_def)

lemma counters_SetScissorTest [simp]: "counters (SetScissorTest e r b s) = counters s"
  by (simp add: SetScissorTest_def Let_def)

lemma counters_SetViewport [simp]: "counters (SetViewport r s) = counters s"
  by (simp add: SetViewport_def Let_def)

lemma counters_renderTargets [simp]: "counters (PrepareDraw_renderTargets s) = counters s"
  by (simp add: PrepareDraw_renderTargets_def Let_def)

lemma counters_vertexDeclaration [simp]:
  "counters (fst (PrepareDraw_vertexDeclaration p)) = counters (fst p)"
  by (cases p) (simp add: PrepareDraw_vertexDeclaration_def Let_def counters_if)

lemma counters_primitiveType [simp]:
  "counters (fst (PrepareDraw_primitiveType p)) = counters (fst p)"
  by (cases p) (simp add: PrepareDraw_primitiveType_def counters_if)

lemma counters_blendState [simp]:
  "counters (fst (PrepareDraw_blendState p)) = counters (fst p)"
  by (cases p) (simp add: PrepareDraw_blendState_def Let_def counters_if)

lemma counters_depthState [simp]:
  "counters (fst (PrepareDraw_depthState p)) = counters (fst p)"
  by (cases p) (simp add: PrepareDraw_depthState_def counters_if)

lemma counters_rasterizerState [simp]:
  "counters (fst (PrepareDraw_rasterizerState p)) = counters (fst p)"
  by (cases p) (simp add: PrepareDraw_rasterizerState_def counters_if)

lemma counters_shadersClean [simp]:
  "counters (fst (PrepareDraw_shadersClean p)) = counters (fst p)"
  by (cases p) (simp add: PrepareDraw_shadersClean_def counters_if)

lemma counters_state [simp]: "counters (fst (PrepareDraw_state s)) = counters s"
  by (simp add: PrepareDraw_state_def)











lemma counters_commitTexture [simp]: "counters (commitTexture c e s) = counters s"
  by (cases e) (auto simp: commitTexture_def split: option.splits)

lemma counters_textures [simp]: "counters (PrepareDraw_textures c s) = counters s"
  by (auto simp: PrepareDraw_textures_def Let_def fold_keeps split: option.splits)

lemma counters_scissor [simp]: "counters (PrepareDraw_scissor s) = counters s"
  by (simp add: PrepareDraw_scissor_def Let_def)

lemma counters_Apply [simp]: "counters (Apply b s) = counters s"
  by (auto simp: Apply_def Let_def split: option.splits)

lemma counters_constantBuffers [simp]: "counters (PrepareDraw_constantBuffers s) = counters s"
  by (simp add: PrepareDraw_constantBuffers_def Let_def fold_keeps)




lemma counters_SetPrimitiveType [simp]: "counters (SetPrimitiveType t s) = counters s"
  by (simp add: SetPrimitiveType_def)


subsection \<open>The upkeep of textures within SetTexture\<close>

lemma maintains_refl [simp]: "maintains s s"
  by (simp add: maintains_def)

lemma maintains_trans: "maintains s s1 \<Longrightarrow> maintains s1 s2 \<Longrightarrow> maintains s s2"
  unfolding maintains_def
  by (elim conjE, intro conjI, (erule ssubst)+, simp, simp, simp)

lemma maintains_fold:
  "(\<And>x s. maintains s (f x s)) \<Longrightarrow> maintains s (fold f xs s)"
  by (induction xs arbitrary: s) (auto intro: maintains_trans)

lemma maintains_deviceCall [simp]: "maintains s (deviceCall c s)"
  by (simp add: maintains_def deviceCall_def)

lemma maintains_deviceCreate [simp]: "maintains s (snd (deviceCreate c s))"
  by (simp add: maintains_def deviceCreate_def Let_def)

lemma maintains_LOGERROR [simp]: "maintains s (URHO3D_LOGERROR m s)"
  by (simp add: maintains_def URHO3D_LOGERROR_def)

lemma maintains_UpdateParameters [simp]: "maintains s (UpdateParameters t s)"
  by (simp add: maintains_def UpdateParameters_def Let_def deviceCreate_def URHO3D_LOGERROR_def
      GetParametersDirty_def)

lemma maintains_RegenerateLevels [simp]: "maintains s (RegenerateLevels t s)"
  by (simp add: maintains_def RegenerateLevels_def Let_def deviceCall_def GetParametersDirty_def
      split: option.splits)

lemma maintains_Resolve2D [simp]: "maintains s (snd (ResolveToTexture_2D t s))"
  by (simp add: maintains_def ResolveToTexture_2D_def Let_def deviceCall_def GetParametersDirty_def
      split: option.splits)

lemma maintains_ResolveCube_face [simp]: "maintains s (ResolveToTexture_Cube_face t a b i s)"
  by (simp add: maintains_def ResolveToTexture_Cube_face_def Let_def deviceCall_def)

lemma maintains_ResolveCube [simp]: "maintains s (snd (ResolveToTexture_Cube t s))"
proof (cases "tex_object (texStore s t)")
  case None then show ?thesis
    by (simp add: maintains_def ResolveToTexture_Cube_def Let_def GetParametersDirty_def)
next
  case (Some a)
  show ?thesis
  proof (cases "resolveTexture (texStore s t)")
    case None with Some show ?thesis
      by (simp add: maintains_def ResolveToTexture_Cube_def Let_def GetParametersDirty_def)
  next
    case (Some b)
    let ?s1 = "s\<lparr>texStore := (texStore s)(t := (texStore s t)\<lparr>resolveDirty := False\<rparr>)\<rparr>"
    have 1: "maintains s ?s1" by (simp add: maintains_def GetParametersDirty_def)
    have 2: "maintains ?s1 (fold (ResolveToTexture_Cube_face t a b) (indices MAX_CUBEMAP_FACES) ?s1)"
      by (rule maintains_fold) simp
    from maintains_trans [OF 1 2] Some \<open>tex_object (texStore s t) = Some a\<close>
    show ?thesis by (simp add: ResolveToTexture_Cube_def Let_def)
  qed
qed

lemma maintains_redirect [simp]: "maintains s (snd (SetTexture_redirect t s))"
proof -
  have a: "\<And>s. maintains s (if tex_type (texStore s t) = TextureCube
                              then snd (ResolveToTexture_Cube t s) else s)" by simp
  have b: "maintains s (let s1 = (if tex_type (texStore s t) = Texture2D
                                     then snd (ResolveToTexture_2D t s) else s)
                           in if tex_type (texStore s1 t) = TextureCube
                              then snd (ResolveToTexture_Cube t s1) else s1)"
    unfolding Let_def by (rule maintains_trans [OF _ a]) simp
  show ?thesis
    unfolding SetTexture_redirect_def
    apply (simp only: Let_def [of "if _ then (_, _) else (_, _)"])
    using b
    by (auto split: option.splits intro: maintains_trans [OF _ maintains_RegenerateLevels] simp: Let_def)
qed





lemma maintains_backup: "maintains s s' \<Longrightarrow> backupTexture (texStore s' t) = backupTexture (texStore s t)"
  unfolding maintains_def by simp





subsection \<open>The pipeline view\<close>

lemma cacheView_update [simp]:
  "cacheView (device_update f0 i) = cacheView i"
  "cacheView (defaultRenderTargetView_update f1 i) = cacheView i"
  "cacheView (defaultDepthStencilView_update f2 i) = cacheView i"
  "cacheView (renderTargetViews_update f3 i) = cacheView i"
  "cacheView (depthStencilView_update f4 i) = cacheView i"
  "cacheView (renderTargetsDirty_update f5 i) = cacheView i"
  "cacheView (texturesDirty_update f6 i) = cacheView i"
  "cacheView (vertexDeclarationDirty_update f7 i) = cacheView i"
  "cacheView (blendStateDirty_update f8 i) = cacheView i"
  "cacheView (depthStateDirty_update f9 i) = cacheView i"
  "cacheView (rasterizerStateDirty_update f10 i) = cacheView i"
  "cacheView (scissorRectDirty_update f11 i) = cacheView i"
  "cacheView (stencilRefDirty_update f12 i) = cacheView i"
  "cacheView (firstDirtyTexture_update f13 i) = cacheView i"
  "cacheView (lastDirtyTexture_update f14 i) = cacheView i"
  "cacheView (shaderResourceViews_update f15 i) = cacheView i"
  "cacheView (samplers_update f16 i) = cacheView i"
  "cacheView (impl_vertexBuffers_update f17 i) = cacheView i"
  "cacheView (constantBuffers_update f18 i) = cacheView i"
  "cacheView (vertexSizes_update f19 i) = cacheView i"
  "cacheView (vertexOffsets_update f20 i) = cacheView i"
  "cacheView (firstDirtyVB_update f21 i) = cacheView i"
  "cacheView (lastDirtyVB_update f22 i) = cacheView i"
  "cacheView (dirtyConstantBuffers_update f23 i) = cacheView i"
  "cacheView (shaderPrograms_update f24 i) = cacheView i"
  by (simp_all add: cacheView_def)

lemma pipelineView_update [simp]:
  "pipelineView (width_update f0 s) = pipelineView s"
  "pipelineView (height_update f1 s) = pipelineView s"
  "pipelineView (numPrimitives_update f2 s) = pipelineView s"
  "pipelineView (numBatches_update f3 s) = pipelineView s"
  "pipelineView (vertexBuffers_update f4 s) = pipelineView s"
  "pipelineView (indexBuffer_update f5 s) = pipelineView s"
  "pipelineView (textures_update f6 s) = pipelineView s"
  "pipelineView (renderTargets_update f7 s) = pipelineView s"
  "pipelineView (depthStencil_update f8 s) = pipelineView s"
  "pipelineView (viewport_update f9 s) = pipelineView s"
  "pipelineView (blendMode_update f10 s) = pipelineView s"
  "pipelineView (alphaToCoverage_update f11 s) = pipelineView s"
  "pipelineView (colorWrite_update f12 s) = pipelineView s"
  "pipelineView (cullMode_update f13 s) = pipelineView s"
  "pipelineView (constantDepthBias_update f14 s) = pipelineView s"
  "pipelineView (slopeScaledDepthBias_update f15 s) = pipelineView s"
  "pipelineView (depthTestMode_update f16 s) = pipelineView s"
  "pipelineView (depthWrite_update f17 s) = pipelineView s"
  "pipelineView (fillMode_update f18 s) = pipelineView s"
  "pipelineView (lineAntiAlias_update f19 s) = pipelineView s"
  "pipelineView (scissorTest_update f20 s) = pipelineView s"
  "pipelineView (scissorRect_update f21 s) = pipelineView s"
  "pipelineView (stencilTest_update f22 s) = pipelineView s"
  "pipelineView (stencilTestMode_update f23 s) = pipelineView s"
  "pipelineView (stencilPass_update f24 s) = pipelineView s"
  "pipelineView (stencilFail_update f25 s) = pipelineView s"
  "pipelineView (stencilZFail_update f26 s) = pipelineView s"
  "pipelineView (stencilRef_update f27 s) = pipelineView s"
  "pipelineView (stencilCompareMask_update f28 s) = pipelineView s"
  "pipelineView (stencilWriteMask_update f29 s) = pipelineView s"
  "pipelineView (useClipPlane_update f30 s) = pipelineView s"
  "pipelineView (clipPlane_update f31 s) = pipelineView s"
  "pipelineView (shaderParameterSources_update f32 s) = pipelineView s"
  "pipelineView (shaderPrecache_update f33 s) = pipelineView s"
  "pipelineView (defaultTextureFilterMode_update f34 s) = pipelineView s"
  "pipelineView (gpuObjects_update f35 s) = pipelineView s"
  "pipelineView (texStore_update f36 s) = pipelineView s"
  "pipelineView (surfStore_update f37 s) = pipelineView s"
  "pipelineView (vbStore_update f38 s) = pipelineView s"
  "pipelineView (ibStore_update f39 s) = pipelineView s"
  "pipelineView (svStore_update f40 s) = pipelineView s"
  "pipelineView (cbStore_update f41 s) = pipelineView s"
  "pipelineView (newShaderProgram_update f42 s) = pipelineView s"
  "pipelineView (errorLog_update f43 s) = pipelineView s"
  "pipelineView (storedShaders_update f44 s) = pipelineView s"
  by (simp_all add: pipelineView_def)

lemma pipelineView_impl [simp]:
  "cacheView (f (impl s)) = cacheView (impl s) \<Longrightarrow> pipelineView (impl_update f s) = pipelineView s"
  by (simp add: pipelineView_def)

lemma pipelineView_maintains: "maintains s s' \<Longrightarrow> pipelineView s' = pipelineView s"
  unfolding maintains_def
  by (elim conjE, drule arg_cong [where f = pipelineView]) simp

lemma pipelineView_deviceCall [simp]: "pipelineView (deviceCall c s) = pipelineView s"
  by (simp add: deviceCall_def)

lemma pipelineView_deviceCreate [simp]: "pipelineView (snd (deviceCreate c s)) = pipelineView s"
  by (simp add: deviceCreate_def Let_def)

lemma pipelineView_LOGERROR [simp]: "pipelineView (URHO3D_LOGERROR m s) = pipelineView s"
  by (simp add: URHO3D_LOGERROR_def)

lemma pipelineView_SetBlendMode [simp]: "pipelineView (SetBlendMode m a s) = pipelineView s"
  by (simp add: SetBlendMode_def)

lemma pipelineView_SetColorWrite [simp]: "pipelineView (SetColorWrite e s) = pipelineView s"
  by (simp add: SetColorWrite_def)

lemma pipelineView_SetCullMode [simp]: "pipelineView (SetCullMode m s) = pipelineView s"
  by (simp add: SetCullMode_def)

lemma pipelineView_SetDepthBias [simp]: "pipelineView (SetDepthBias c sl s) = pipelineView s"
  by (simp add: SetDepthBias_def)

lemma pipelineView_SetDepthTest [simp]: "pipelineView (SetDepthTest m s) = pipelineView s"
  by (simp add: SetDepthTest_def)

lemma pipelineView_SetDepthWrite [simp]: "pipelineView (SetDepthWrite e s) = pipelineView s"
  by (simp add: SetDepthWrite_def)

lemma pipelineView_SetFillMode [simp]: "pipelineView (SetFillMode m s) = pipelineView s"
  by (simp add: SetFillMode_def)

lemma pipelineView_SetLineAntiAlias [simp]: "pipelineView (SetLineAntiAlias e s) = pipelineView s"
  by (simp add: SetLineAntiAlias_def)

lemma pipelineView_scissor_enable [simp]: "pipelineView (scissor_enable e s) = pipelineView s"
  by (simp add: scissor_enable_def)

lemma pipelineView_scissor_finish [simp]:
  "pipelineView (snd (scissor_finish e r s)) = pipelineView s"
  by (simp add: scissor_finish_def Let_def)

lemma pipelineView_SetScissorTest [simp]: "pipelineView (SetScissorTest e r b s) = pipelineView s"
  by (simp add: SetScissorTest_def Let_def)

lemma pipelineView_SetScissorTest_IntRect [simp]:
  "pipelineView (SetScissorTest_IntRect e r s) = pipelineView s"
  by (simp add: SetScissorTest_IntRect_def Let_def)

lemma pipelineView_stencil [simp]:
  "pipelineView (stencil_enable e s) = pipelineView s"
  "pipelineView (stencil_mode m s) = pipelineView s"
  "pipelineView (stencil_pass p s) = pipelineView s"
  "pipelineView (stencil_fail f s) = pipelineView s"
  "pipelineView (stencil_zFail z s) = pipelineView s"
  "pipelineView (stencil_compareMask cm s) = pipelineView s"
  "pipelineView (stencil_writeMask wm s) = pipelineView s"
  "pipelineView (stencil_ref r s) = pipelineView s"
  by (simp_all add: stencil_enable_def stencil_mode_def stencil_pass_def stencil_fail_def
      stencil_zFail_def stencil_compareMask_def stencil_writeMask_def stencil_ref_def)

lemma pipelineView_SetStencilTest [simp]:
  "pipelineView (SetStencilTest e m p f z r cm wm s) = pipelineView s"
  by (simp add: SetStencilTest_def)

lemma pipelineView_SetViewport [simp]: "pipelineView (SetViewport r s) = pipelineView s"
  by (simp add: SetViewport_def Let_def)

lemma pipelineView_dirtyTextureRange [simp]: "cacheView (dirtyTextureRange x i) = cacheView i"
  by (simp add: dirtyTextureRange_def Let_def)

lemma pipelineView_SetTexture_bind [simp]:
  "pipelineView (SetTexture_bind x t s) = pipelineView s"
  by (simp add: SetTexture_bind_def)

lemma pipelineView_SetTexture_parameters [simp]:
  "pipelineView (SetTexture_parameters x t s) = pipelineView s"
  by (simp add: SetTexture_parameters_def pipelineView_maintains split: option.splits)

lemma pipelineView_SetTexture [simp]: "pipelineView (SetTexture x t s) = pipelineView s"
  by (simp add: SetTexture_def Let_def pipelineView_maintains split: option.splits)

lemma pipelineView_SetTextureParametersDirty [simp]:
  "pipelineView (SetTextureParametersDirty s) = pipelineView s"
  by (simp add: SetTextureParametersDirty_def fold_keeps)

lemma pipelineView_SetDefaultTextureFilterMode [simp]:
  "pipelineView (SetDefaultTextureFilterMode m s) = pipelineView s"
  by (simp add: SetDefaultTextureFilterMode_def)

lemma pipelineView_SetRenderTarget_mark [simp]:
  "pipelineView (SetRenderTarget_mark rt s) = pipelineView s"
  by (simp add: SetRenderTarget_mark_def Let_def)

lemma pipelineView_SetRenderTarget_unbind [simp]:
  "pipelineView (SetRenderTarget_unbind p x s) = pipelineView s"
  by (simp add: SetRenderTarget_unbind_def)

lemma pipelineView_SetRenderTarget [simp]: "pipelineView (SetRenderTarget x rt s) = pipelineView s"
  by (simp add: SetRenderTarget_def Let_def fold_keeps split: option.splits)

lemma pipelineView_SetRenderTarget_Texture2D [simp]:
  "pipelineView (SetRenderTarget_Texture2D x t s) = pipelineView s"
  by (simp add: SetRenderTarget_Texture2D_def)

lemma pipelineView_SetDepthStencil [simp]: "pipelineView (SetDepthStencil ds s) = pipelineView s"
  by (simp add: SetDepthStencil_def)

lemma pipelineView_SetDepthStencil_Texture2D [simp]:
  "pipelineView (SetDepthStencil_Texture2D t s) = pipelineView s"
proof -
  have "pipelineView (SetDepthStencil_Texture2D t s)
        = pipelineView (SetDepthStencil
            (case t of Some t' \<Rightarrow> renderSurface (texStore s t') | None \<Rightarrow> None) s)"
    unfolding SetDepthStencil_Texture2D_def Let_def
    by (simp add: pipelineView_def)
  then show ?thesis by simp
qed

lemma cacheView_dirtyVBRange [simp]: "cacheView (dirtyVBRange x i) = cacheView i"
  by (simp add: dirtyVBRange_def Let_def)

lemma pipelineView_SetVertexBuffers_store [simp]:
  "pipelineView (snd (SetVertexBuffers_store b off x s)) = pipelineView s"
  by (simp add: SetVertexBuffers_store_def Let_def split: option.splits)

lemma pipelineView_SetVertexBuffers_slot [simp]:
  "pipelineView (SetVertexBuffers_slot bs off x s) = pipelineView s"
proof -
  let ?r = "SetVertexBuffers_store (if unat x < length bs then bs ! unat x else None) off x s"
  have "pipelineView ((snd ?r)\<lparr>impl := dirtyVBRange x ((impl (snd ?r))\<lparr>vertexDeclarationDirty := True\<rparr>)\<rparr>)
        = pipelineView (snd ?r)"
    by (simp add: pipelineView_def)
  then show ?thesis
    by (simp add: SetVertexBuffers_slot_def Let_def)
qed

lemma pipelineView_SetVertexBuffers [simp]:
  "pipelineView (snd (SetVertexBuffers bs off s)) = pipelineView s"
  by (simp add: SetVertexBuffers_def fold_keeps)

lemma pipelineView_SetVertexBuffer [simp]: "pipelineView (SetVertexBuffer b s) = pipelineView s"
  by (simp add: SetVertexBuffer_def)

lemma pipelineView_SetIndexBuffer [simp]: "pipelineView (SetIndexBuffer b s) = pipelineView s"
  by (simp add: SetIndexBuffer_def)

lemma pipelineView_SetParameter [simp]: "pipelineView (SetParameter b off bytes s) = pipelineView s"
  by (simp add: SetParameter_def)

lemma pipelineView_SetShaderParameter [simp]:
  "pipelineView (SetShaderParameter p bytes s) = pipelineView s"
  by (simp add: SetShaderParameter_def Let_def split: option.splits)

lemma pipelineView_countBatch [simp]: "pipelineView (countBatch n s) = pipelineView s"
  by (simp add: countBatch_def)

lemma pipelineView_SetClipPlane [simp]: "pipelineView (SetClipPlane e plane s) = pipelineView s"
  by (simp add: SetClipPlane_def Let_def)

subsection \<open>Setters called with what is recorded\<close>







lemma shaderFlags_sources [simp]: "shaderFlags (SetShaders_sources prog i s) = shaderFlags s"
  by (simp add: SetShaders_sources_def Let_def shaderFlags_def)

lemma shaderFlags_fold_sources [simp]:
  "shaderFlags (fold (SetShaders_sources prog) xs s) = shaderFlags s"
  by (simp add: fold_keeps)

lemma shaderFlags_program [simp]: "shaderFlags (SetShaders_program s) = shaderFlags s"
  by (auto simp: SetShaders_program_def split: option.splits prod.splits)
     (simp_all add: shaderFlags_def)

lemma shaderFlags_SetShaderParameter [simp]:
  "shaderFlags (SetShaderParameter p bytes s) = shaderFlags s"
  by (simp add: SetShaderParameter_def SetParameter_def Let_def shaderFlags_def split: option.splits)

lemma shaderFlags_precache [simp]: "shaderFlags (SetShaders_precache s) = shaderFlags s"
  by (simp add: SetShaders_precache_def shaderFlags_def)

lemma shaderFlags_clipPlane [simp]: "shaderFlags (SetShaders_clipPlane s) = shaderFlags s"
  by (simp add: SetShaders_clipPlane_def)

lemma SetShaders_same:
  assumes "SetShaders_variation s vs = vertexShader s"
    and "SetShaders_variation s ps = pixelShader s"
  shows "shaderFlags (SetShaders vs ps s) = shaderFlags s"
  by (simp add: SetShaders_def assms SetShaders_vs_def SetShaders_ps_def)


lemma SetScissorTest_False: "SetScissorTest False r b s = scissor_enable False s"
  by (simp add: SetScissorTest_def)

lemma samplersOf_deviceCall [simp]: "samplersOf (deviceCall c s) = samplersOf s"
  by (simp add: samplersOf_def deviceCall_def fun_eq_iff)

lemma samplersOf_RegenerateLevels [simp]: "samplersOf (RegenerateLevels t s) = samplersOf s"
  by (auto simp add: samplersOf_def RegenerateLevels_def Let_def deviceCall_def fun_eq_iff
      split: option.splits)

lemma samplersOf_Resolve2D [simp]: "samplersOf (snd (ResolveToTexture_2D t s)) = samplersOf s"
  by (auto simp add: samplersOf_def ResolveToTexture_2D_def Let_def deviceCall_def fun_eq_iff
      split: option.splits)

lemma samplersOf_ResolveCube_face [simp]:
  "samplersOf (ResolveToTexture_Cube_face t a b i s) = samplersOf s"
  by (simp add: samplersOf_def ResolveToTexture_Cube_face_def Let_def deviceCall_def fun_eq_iff)

lemma samplersOf_ResolveCube [simp]: "samplersOf (snd (ResolveToTexture_Cube t s)) = samplersOf s"
proof -
  have "samplersOf (s\<lparr>texStore := (texStore s)(t := (texStore s t)\<lparr>resolveDirty := False\<rparr>)\<rparr>)
          = samplersOf s"
    by (auto simp add: samplersOf_def fun_eq_iff)
  then show ?thesis
    by (auto simp add: ResolveToTexture_Cube_def Let_def fold_keeps split: option.splits)
qed

lemma samplersOf_redirect [simp]: "samplersOf (snd (SetTexture_redirect t s)) = samplersOf s"
  by (auto simp add: SetTexture_redirect_def Let_def split: option.splits)



lemma shaderFlags_Create [simp]:
  "vertexShaderDirty (impl (snd (Create v s))) = vertexShaderDirty (impl s)"
  "pixelShaderDirty (impl (snd (Create v s))) = pixelShaderDirty (impl s)"
  by (simp_all add: Create_def)

lemma SetShaders_vs_raises:
  "v \<noteq> vertexShader s \<Longrightarrow> vertexShaderDirty (impl (SetShaders_vs v s))"
  by (auto simp add: SetShaders_vs_def Let_def URHO3D_LOGERROR_def split: option.splits)

lemma SetShaders_ps_raises:
  "p \<noteq> pixelShader s \<Longrightarrow> pixelShaderDirty (impl (SetShaders_ps p s))"
  by (auto simp add: SetShaders_ps_def Let_def URHO3D_LOGERROR_def split: option.splits)

lemma SetShaders_ps_keeps:
  "vertexShaderDirty (impl (SetShaders_ps p s)) = vertexShaderDirty (impl s)"
  by (auto simp add: SetShaders_ps_def Let_def URHO3D_LOGERROR_def split: option.splits)

lemma SetShaders_vs_pixelShader:
  "pixelShader (SetShaders_vs v s) = pixelShader s"
  by (auto simp add: SetShaders_vs_def Let_def URHO3D_LOGERROR_def Create_def
      split: option.splits)

lemma SetShaders_flags:
  "shaderFlags (SetShaders vs ps s)
     = shaderFlags (SetShaders_ps (SetShaders_variation s ps)
                      (SetShaders_vs (SetShaders_variation s vs) s))"
  by (simp add: SetShaders_def)

lemma SetShaders_raises:
  "SetShaders_variation s vs \<noteq> vertexShader s \<Longrightarrow> vertexShaderDirty (impl (SetShaders vs ps s))"
  "SetShaders_variation s ps \<noteq> pixelShader s \<Longrightarrow> pixelShaderDirty (impl (SetShaders vs ps s))"
proof -
  note f = SetShaders_flags [of vs ps s, unfolded shaderFlags_def, simplified]
  show "vertexShaderDirty (impl (SetShaders vs ps s))"
    if "SetShaders_variation s vs \<noteq> vertexShader s"
    using that f by (simp add: SetShaders_ps_keeps SetShaders_vs_raises)
  show "pixelShaderDirty (impl (SetShaders vs ps s))"
    if "SetShaders_variation s ps \<noteq> pixelShader s"
    using that f by (simp add: SetShaders_ps_raises SetShaders_vs_pixelShader)
qed

subsection \<open>Applying the render targets\<close>

lemma retargets_refl [simp]: "retargets s s"
  by (simp add: retargets_def)

lemma retargets_trans: "retargets s s1 \<Longrightarrow> retargets s1 s2 \<Longrightarrow> retargets s s2"
  unfolding retargets_def
  by (elim conjE, intro conjI, (erule ssubst)+, simp, simp)

lemma retargets_deviceCall [simp]: "retargets s (deviceCall c s)"
  by (simp add: retargets_def deviceCall_def)

lemma retargets_scissor_enable [simp]: "retargets s (scissor_enable e s)"
  by (simp add: retargets_def scissor_enable_def)

lemma retargets_viewport [simp]: "retargets s (s\<lparr>viewport := v\<rparr>)"
  by (simp add: retargets_def)

lemma retargets_views [simp]:
  "retargets s (s\<lparr>impl := (impl s)\<lparr>depthStencilView := dsv, renderTargetViews := rtv\<rparr>\<rparr>)"
  by (simp add: retargets_def)

lemma retargets_clean [simp]:
  "retargets s (s\<lparr>impl := (impl s)\<lparr>renderTargetsDirty := False\<rparr>\<rparr>)"
  by (simp add: retargets_def)

lemma retargets_SetViewport [simp]: "retargets s (SetViewport r s)"
  unfolding SetViewport_def Let_def SetScissorTest_False
  by (rule retargets_trans [OF retargets_trans [OF retargets_deviceCall retargets_viewport]
        retargets_scissor_enable])

lemma retargets_core:
  "retargets s
     ((SetViewport r (deviceCall c
         (s\<lparr>impl := (impl s)\<lparr>depthStencilView := dsv, renderTargetViews := rtv\<rparr>\<rparr>)))
      \<lparr>impl := (impl (SetViewport r (deviceCall c
         (s\<lparr>impl := (impl s)\<lparr>depthStencilView := dsv, renderTargetViews := rtv\<rparr>\<rparr>))))
         \<lparr>renderTargetsDirty := False\<rparr>\<rparr>)"
  by (rule retargets_trans [OF retargets_trans [OF retargets_trans
        [OF retargets_views retargets_deviceCall] retargets_SetViewport] retargets_clean])

lemma retargets_renderTargets: "retargets s (PrepareDraw_renderTargets s)"
  unfolding PrepareDraw_renderTargets_def Let_def
  by (cases "renderTargetsDirty (impl s)"; simp only: if_True if_False retargets_core retargets_refl)

lemma retargets_pipelineView: "retargets s s' \<Longrightarrow> pipelineView s' = pipelineView s"
  unfolding retargets_def
  by (elim conjE, drule arg_cong [where f = pipelineView]) (simp add: cacheView_def)

lemma retargets_depth:
  assumes "retargets s s'"
  shows "newDepthStateHash s' = newDepthStateHash s"
    and "depthStateDirty (impl s') = depthStateDirty (impl s)"
    and "stencilRefDirty (impl s') = stencilRefDirty (impl s)"
    and "depthStateHash (impl s') = depthStateHash (impl s)"
    and "vertexShader s' = vertexShader s"
    and "pixelShader s' = pixelShader s"
proof -
  from assms have e: "s' = s\<lparr>viewport := viewport s', scissorTest := scissorTest s',
            impl := (impl s)\<lparr>device := device (impl s'),
                             depthStencilView := depthStencilView (impl s'),
                             renderTargetViews := renderTargetViews (impl s'),
                             renderTargetsDirty := renderTargetsDirty (impl s'),
                             rasterizerStateDirty := rasterizerStateDirty (impl s')\<rparr>\<rparr>"
    by (simp add: retargets_def)
  show "newDepthStateHash s' = newDepthStateHash s"
    using arg_cong [OF e, of newDepthStateHash] by (simp add: newDepthStateHash_def)
  show "depthStateDirty (impl s') = depthStateDirty (impl s)"
    using arg_cong [OF e, of "\<lambda>s. depthStateDirty (impl s)"] by simp
  show "stencilRefDirty (impl s') = stencilRefDirty (impl s)"
    using arg_cong [OF e, of "\<lambda>s. stencilRefDirty (impl s)"] by simp
  show "depthStateHash (impl s') = depthStateHash (impl s)"
    using arg_cong [OF e, of "\<lambda>s. depthStateHash (impl s)"] by simp
  show "vertexShader s' = vertexShader s"
    using arg_cong [OF e, of vertexShader] by simp
  show "pixelShader s' = pixelShader s"
    using arg_cong [OF e, of pixelShader] by simp
qed

subsection \<open>The steps of PrepareDraw that bring the hashes up to date\<close>

lemma newBlendStateHash_cong:
  "hashInputs s' = hashInputs s \<Longrightarrow> newBlendStateHash s' = newBlendStateHash s"
  by (simp add: hashInputs_def newBlendStateHash_def)

lemma newDepthStateHash_cong:
  "hashInputs s' = hashInputs s \<Longrightarrow> newDepthStateHash s' = newDepthStateHash s"
  by (simp add: hashInputs_def newDepthStateHash_def)

lemma newRasterizerStateHash_cong:
  "hashInputs s' = hashInputs s \<Longrightarrow> newRasterizerStateHash s' = newRasterizerStateHash s"
  by (simp add: hashInputs_def newRasterizerStateHash_def scaledDepthBias_def depthBits_def
      cong: option.case_cong)

lemma newVertexDeclarationHash_cong:
  "hashInputs s' = hashInputs s \<Longrightarrow> newVertexDeclarationHash s' = newVertexDeclarationHash s"
  by (simp add: hashInputs_def newVertexDeclarationHash_def cong: option.case_cong)

lemma hashInputs_impl [simp]:
  "hashInputs (s\<lparr>impl := i\<rparr>) = hashInputs s"
  "hashInputs (s\<lparr>vertexDeclarationHash := h\<rparr>) = hashInputs s"
  by (simp_all add: hashInputs_def)

lemma newHash_impl [simp]:
  "newBlendStateHash (s\<lparr>impl := i\<rparr>) = newBlendStateHash s"
  "newDepthStateHash (s\<lparr>impl := i\<rparr>) = newDepthStateHash s"
  "newRasterizerStateHash (s\<lparr>impl := i\<rparr>) = newRasterizerStateHash s"
  "newVertexDeclarationHash (s\<lparr>impl := i\<rparr>) = newVertexDeclarationHash s"
  "newVertexDeclarationHash (s\<lparr>vertexDeclarationHash := h\<rparr>) = newVertexDeclarationHash s"
  by (rule newBlendStateHash_cong newDepthStateHash_cong newRasterizerStateHash_cong
      newVertexDeclarationHash_cong, simp)+

lemma step_vertexDeclaration_inputs: "hashInputs (fst (PrepareDraw_vertexDeclaration p)) = hashInputs (fst p)"
  by (simp add: PrepareDraw_vertexDeclaration_def split_def Let_def deviceCall_def hashInputs_def)

lemma step_vertexDeclaration_new:
  "newBlendStateHash (fst (PrepareDraw_vertexDeclaration p)) = newBlendStateHash (fst p)"
  "newDepthStateHash (fst (PrepareDraw_vertexDeclaration p)) = newDepthStateHash (fst p)"
  "newRasterizerStateHash (fst (PrepareDraw_vertexDeclaration p)) = newRasterizerStateHash (fst p)"
  "newVertexDeclarationHash (fst (PrepareDraw_vertexDeclaration p)) = newVertexDeclarationHash (fst p)"
  by (rule newBlendStateHash_cong newDepthStateHash_cong newRasterizerStateHash_cong
      newVertexDeclarationHash_cong, rule step_vertexDeclaration_inputs)+

lemma step_vertexDeclaration:
  "vertexShaderDirty (impl (fst (PrepareDraw_vertexDeclaration p))) = vertexShaderDirty (impl (fst p))"
  "pixelShaderDirty (impl (fst (PrepareDraw_vertexDeclaration p))) = pixelShaderDirty (impl (fst p))"
  "primitiveTypeDirty (impl (fst (PrepareDraw_vertexDeclaration p))) = primitiveTypeDirty (impl (fst p))"
  "blendStateDirty (impl (fst (PrepareDraw_vertexDeclaration p))) = blendStateDirty (impl (fst p))"
  "depthStateDirty (impl (fst (PrepareDraw_vertexDeclaration p))) = depthStateDirty (impl (fst p))"
  "rasterizerStateDirty (impl (fst (PrepareDraw_vertexDeclaration p))) = rasterizerStateDirty (impl (fst p))"
  "vertexDeclarationDirty (impl (fst (PrepareDraw_vertexDeclaration p))) = vertexDeclarationDirty (impl (fst p))"
  "stencilRefDirty (impl (fst (PrepareDraw_vertexDeclaration p))) = stencilRefDirty (impl (fst p))"
  "blendStateHash (impl (fst (PrepareDraw_vertexDeclaration p))) = blendStateHash (impl (fst p))"
  "depthStateHash (impl (fst (PrepareDraw_vertexDeclaration p))) = depthStateHash (impl (fst p))"
  "rasterizerStateHash (impl (fst (PrepareDraw_vertexDeclaration p))) = rasterizerStateHash (impl (fst p))"
  "vertexDeclarationHash (fst (PrepareDraw_vertexDeclaration p)) = (if vertexDeclarationDirty (impl (fst p)) \<and> vertexShader (fst p) \<noteq> None \<and> newVertexDeclarationHash (fst p) \<noteq> 0 then newVertexDeclarationHash (fst p) else vertexDeclarationHash (fst p))"
  "vertexShader (fst (PrepareDraw_vertexDeclaration p)) = vertexShader (fst p)"
  "pixelShader (fst (PrepareDraw_vertexDeclaration p)) = pixelShader (fst p)"
  "PrepareDraw_count (fst (PrepareDraw_vertexDeclaration p)) = PrepareDraw_count (fst p)"
  "cbStore (fst (PrepareDraw_vertexDeclaration p)) = cbStore (fst p)"
  "primitiveType (impl (fst (PrepareDraw_vertexDeclaration p))) = primitiveType (impl (fst p))"
  "pipelineStates (impl (fst (PrepareDraw_vertexDeclaration p))) = pipelineStates (impl (fst p))"
  "currentPipelineState (impl (fst (PrepareDraw_vertexDeclaration p))) = currentPipelineState (impl (fst p))"
  "currentShaderResourceBinding (impl (fst (PrepareDraw_vertexDeclaration p))) = currentShaderResourceBinding (impl (fst p))"
  "currentTextureMap (impl (fst (PrepareDraw_vertexDeclaration p))) = currentTextureMap (impl (fst p))"
  "shaderProgram (impl (fst (PrepareDraw_vertexDeclaration p))) = shaderProgram (impl (fst p))"
  "dirtyConstantBuffers (impl (fst (PrepareDraw_vertexDeclaration p))) = dirtyConstantBuffers (impl (fst p))"
  "snd (PrepareDraw_vertexDeclaration p) = (snd p \<or> vertexDeclarationDirty (impl (fst p)) \<and> vertexShader (fst p) \<noteq> None \<and> newVertexDeclarationHash (fst p) \<noteq> 0 \<and> newVertexDeclarationHash (fst p) \<noteq> vertexDeclarationHash (fst p))"
  by (auto simp add: PrepareDraw_vertexDeclaration_def split_def Let_def deviceCall_def)

lemma step_primitiveType_inputs: "hashInputs (fst (PrepareDraw_primitiveType p)) = hashInputs (fst p)"
  by (simp add: PrepareDraw_primitiveType_def split_def Let_def deviceCall_def hashInputs_def)

lemma step_primitiveType_new:
  "newBlendStateHash (fst (PrepareDraw_primitiveType p)) = newBlendStateHash (fst p)"
  "newDepthStateHash (fst (PrepareDraw_primitiveType p)) = newDepthStateHash (fst p)"
  "newRasterizerStateHash (fst (PrepareDraw_primitiveType p)) = newRasterizerStateHash (fst p)"
  "newVertexDeclarationHash (fst (PrepareDraw_primitiveType p)) = newVertexDeclarationHash (fst p)"
  by (rule newBlendStateHash_cong newDepthStateHash_cong newRasterizerStateHash_cong
      newVertexDeclarationHash_cong, rule step_primitiveType_inputs)+

lemma step_primitiveType:
  "vertexShaderDirty (impl (fst (PrepareDraw_primitiveType p))) = vertexShaderDirty (impl (fst p))"
  "pixelShaderDirty (impl (fst (PrepareDraw_primitiveType p))) = pixelShaderDirty (impl (fst p))"
  "\<not> primitiveTypeDirty (impl (fst (PrepareDraw_primitiveType p)))"
  "blendStateDirty (impl (fst (PrepareDraw_primitiveType p))) = blendStateDirty (impl (fst p))"
  "depthStateDirty (impl (fst (PrepareDraw_primitiveType p))) = depthStateDirty (impl (fst p))"
  "rasterizerStateDirty (impl (fst (PrepareDraw_primitiveType p))) = rasterizerStateDirty (impl (fst p))"
  "vertexDeclarationDirty (impl (fst (PrepareDraw_primitiveType p))) = vertexDeclarationDirty (impl (fst p))"
  "stencilRefDirty (impl (fst (PrepareDraw_primitiveType p))) = stencilRefDirty (impl (fst p))"
  "blendStateHash (impl (fst (PrepareDraw_primitiveType p))) = blendStateHash (impl (fst p))"
  "depthStateHash (impl (fst (PrepareDraw_primitiveType p))) = depthStateHash (impl (fst p))"
  "rasterizerStateHash (impl (fst (PrepareDraw_primitiveType p))) = rasterizerStateHash (impl (fst p))"
  "vertexDeclarationHash (fst (PrepareDraw_primitiveType p)) = vertexDeclarationHash (fst p)"
  "vertexShader (fst (PrepareDraw_primitiveType p)) = vertexShader (fst p)"
  "pixelShader (fst (PrepareDraw_primitiveType p)) = pixelShader (fst p)"
  "PrepareDraw_count (fst (PrepareDraw_primitiveType p)) = PrepareDraw_count (fst p)"
  "cbStore (fst (PrepareDraw_primitiveType p)) = cbStore (fst p)"
  "primitiveType (impl (fst (PrepareDraw_primitiveType p))) = primitiveType (impl (fst p))"
  "pipelineStates (impl (fst (PrepareDraw_primitiveType p))) = pipelineStates (impl (fst p))"
  "currentPipelineState (impl (fst (PrepareDraw_primitiveType p))) = currentPipelineState (impl (fst p))"
  "currentShaderResourceBinding (impl (fst (PrepareDraw_primitiveType p))) = currentShaderResourceBinding (impl (fst p))"
  "currentTextureMap (impl (fst (PrepareDraw_primitiveType p))) = currentTextureMap (impl (fst p))"
  "shaderProgram (impl (fst (PrepareDraw_primitiveType p))) = shaderProgram (impl (fst p))"
  "dirtyConstantBuffers (impl (fst (PrepareDraw_primitiveType p))) = dirtyConstantBuffers (impl (fst p))"
  "snd (PrepareDraw_primitiveType p) = (snd p \<or> primitiveTypeDirty (impl (fst p)))"
  by (auto simp add: PrepareDraw_primitiveType_def split_def Let_def deviceCall_def)

lemma step_blendState_inputs: "hashInputs (fst (PrepareDraw_blendState p)) = hashInputs (fst p)"
  by (simp add: PrepareDraw_blendState_def split_def Let_def deviceCall_def hashInputs_def)

lemma step_blendState_new:
  "newBlendStateHash (fst (PrepareDraw_blendState p)) = newBlendStateHash (fst p)"
  "newDepthStateHash (fst (PrepareDraw_blendState p)) = newDepthStateHash (fst p)"
  "newRasterizerStateHash (fst (PrepareDraw_blendState p)) = newRasterizerStateHash (fst p)"
  "newVertexDeclarationHash (fst (PrepareDraw_blendState p)) = newVertexDeclarationHash (fst p)"
  by (rule newBlendStateHash_cong newDepthStateHash_cong newRasterizerStateHash_cong
      newVertexDeclarationHash_cong, rule step_blendState_inputs)+

lemma step_blendState:
  "vertexShaderDirty (impl (fst (PrepareDraw_blendState p))) = vertexShaderDirty (impl (fst p))"
  "pixelShaderDirty (impl (fst (PrepareDraw_blendState p))) = pixelShaderDirty (impl (fst p))"
  "primitiveTypeDirty (impl (fst (PrepareDraw_blendState p))) = primitiveTypeDirty (impl (fst p))"
  "\<not> blendStateDirty (impl (fst (PrepareDraw_blendState p)))"
  "depthStateDirty (impl (fst (PrepareDraw_blendState p))) = depthStateDirty (impl (fst p))"
  "rasterizerStateDirty (impl (fst (PrepareDraw_blendState p))) = rasterizerStateDirty (impl (fst p))"
  "vertexDeclarationDirty (impl (fst (PrepareDraw_blendState p))) = vertexDeclarationDirty (impl (fst p))"
  "stencilRefDirty (impl (fst (PrepareDraw_blendState p))) = stencilRefDirty (impl (fst p))"
  "blendStateHash (impl (fst (PrepareDraw_blendState p))) = (if blendStateDirty (impl (fst p)) then newBlendStateHash (fst p) else blendStateHash (impl (fst p)))"
  "depthStateHash (impl (fst (PrepareDraw_blendState p))) = depthStateHash (impl (fst p))"
  "rasterizerStateHash (impl (fst (PrepareDraw_blendState p))) = rasterizerStateHash (impl (fst p))"
  "vertexDeclarationHash (fst (PrepareDraw_blendState p)) = vertexDeclarationHash (fst p)"
  "vertexShader (fst (PrepareDraw_blendState p)) = vertexShader (fst p)"
  "pixelShader (fst (PrepareDraw_blendState p)) = pixelShader (fst p)"
  "PrepareDraw_count (fst (PrepareDraw_blendState p)) = PrepareDraw_count (fst p)"
  "cbStore (fst (PrepareDraw_blendState p)) = cbStore (fst p)"
  "primitiveType (impl (fst (PrepareDraw_blendState p))) = primitiveType (impl (fst p))"
  "pipelineStates (impl (fst (PrepareDraw_blendState p))) = pipelineStates (impl (fst p))"
  "currentPipelineState (impl (fst (PrepareDraw_blendState p))) = currentPipelineState (impl (fst p))"
  "currentShaderResourceBinding (impl (fst (PrepareDraw_blendState p))) = currentShaderResourceBinding (impl (fst p))"
  "currentTextureMap (impl (fst (PrepareDraw_blendState p))) = currentTextureMap (impl (fst p))"
  "shaderProgram (impl (fst (PrepareDraw_blendState p))) = shaderProgram (impl (fst p))"
  "dirtyConstantBuffers (impl (fst (PrepareDraw_blendState p))) = dirtyConstantBuffers (impl (fst p))"
  "snd (PrepareDraw_blendState p) = (snd p \<or> blendStateDirty (impl (fst p)) \<and> newBlendStateHash (fst p) \<noteq> blendStateHash (impl (fst p)))"
  by (auto simp add: PrepareDraw_blendState_def split_def Let_def deviceCall_def)

lemma step_depthState_inputs: "hashInputs (fst (PrepareDraw_depthState p)) = hashInputs (fst p)"
  by (simp add: PrepareDraw_depthState_def split_def Let_def deviceCall_def hashInputs_def)

lemma step_depthState_new:
  "newBlendStateHash (fst (PrepareDraw_depthState p)) = newBlendStateHash (fst p)"
  "newDepthStateHash (fst (PrepareDraw_depthState p)) = newDepthStateHash (fst p)"
  "newRasterizerStateHash (fst (PrepareDraw_depthState p)) = newRasterizerStateHash (fst p)"
  "newVertexDeclarationHash (fst (PrepareDraw_depthState p)) = newVertexDeclarationHash (fst p)"
  by (rule newBlendStateHash_cong newDepthStateHash_cong newRasterizerStateHash_cong
      newVertexDeclarationHash_cong, rule step_depthState_inputs)+

lemma step_depthState:
  "vertexShaderDirty (impl (fst (PrepareDraw_depthState p))) = vertexShaderDirty (impl (fst p))"
  "pixelShaderDirty (impl (fst (PrepareDraw_depthState p))) = pixelShaderDirty (impl (fst p))"
  "primitiveTypeDirty (impl (fst (PrepareDraw_depthState p))) = primitiveTypeDirty (impl (fst p))"
  "blendStateDirty (impl (fst (PrepareDraw_depthState p))) = blendStateDirty (impl (fst p))"
  "\<not> depthStateDirty (impl (fst (PrepareDraw_depthState p)))"
  "rasterizerStateDirty (impl (fst (PrepareDraw_depthState p))) = rasterizerStateDirty (impl (fst p))"
  "vertexDeclarationDirty (impl (fst (PrepareDraw_depthState p))) = vertexDeclarationDirty (impl (fst p))"
  "stencilRefDirty (impl (fst (PrepareDraw_depthState p))) = stencilRefDirty (impl (fst p))"
  "blendStateHash (impl (fst (PrepareDraw_depthState p))) = blendStateHash (impl (fst p))"
  "depthStateHash (impl (fst (PrepareDraw_depthState p))) = (if depthStateDirty (impl (fst p)) then newDepthStateHash (fst p) else depthStateHash (impl (fst p)))"
  "rasterizerStateHash (impl (fst (PrepareDraw_depthState p))) = rasterizerStateHash (impl (fst p))"
  "vertexDeclarationHash (fst (PrepareDraw_depthState p)) = vertexDeclarationHash (fst p)"
  "vertexShader (fst (PrepareDraw_depthState p)) = vertexShader (fst p)"
  "pixelShader (fst (PrepareDraw_depthState p)) = pixelShader (fst p)"
  "PrepareDraw_count (fst (PrepareDraw_depthState p)) = PrepareDraw_count (fst p)"
  "cbStore (fst (PrepareDraw_depthState p)) = cbStore (fst p)"
  "primitiveType (impl (fst (PrepareDraw_depthState p))) = primitiveType (impl (fst p))"
  "pipelineStates (impl (fst (PrepareDraw_depthState p))) = pipelineStates (impl (fst p))"
  "currentPipelineState (impl (fst (PrepareDraw_depthState p))) = currentPipelineState (impl (fst p))"
  "currentShaderResourceBinding (impl (fst (PrepareDraw_depthState p))) = currentShaderResourceBinding (impl (fst p))"
  "currentTextureMap (impl (fst (PrepareDraw_depthState p))) = currentTextureMap (impl (fst p))"
  "shaderProgram (impl (fst (PrepareDraw_depthState p))) = shaderProgram (impl (fst p))"
  "dirtyConstantBuffers (impl (fst (PrepareDraw_depthState p))) = dirtyConstantBuffers (impl (fst p))"
  "snd (PrepareDraw_depthState p) = (snd p \<or> depthStateDirty (impl (fst p)) \<and> (newDepthStateHash (fst p) \<noteq> depthStateHash (impl (fst p)) \<or> stencilRefDirty (impl (fst p))))"
  by (auto simp add: PrepareDraw_depthState_def split_def Let_def deviceCall_def)

lemma step_rasterizerState_inputs: "hashInputs (fst (PrepareDraw_rasterizerState p)) = hashInputs (fst p)"
  by (simp add: PrepareDraw_rasterizerState_def split_def Let_def deviceCall_def hashInputs_def)

lemma step_rasterizerState_new:
  "newBlendStateHash (fst (PrepareDraw_rasterizerState p)) = newBlendStateHash (fst p)"
  "newDepthStateHash (fst (PrepareDraw_rasterizerState p)) = newDepthStateHash (fst p)"
  "newRasterizerStateHash (fst (PrepareDraw_rasterizerState p)) = newRasterizerStateHash (fst p)"
  "newVertexDeclarationHash (fst (PrepareDraw_rasterizerState p)) = newVertexDeclarationHash (fst p)"
  by (rule newBlendStateHash_cong newDepthStateHash_cong newRasterizerStateHash_cong
      newVertexDeclarationHash_cong, rule step_rasterizerState_inputs)+

lemma step_rasterizerState:
  "vertexShaderDirty (impl (fst (PrepareDraw_rasterizerState p))) = vertexShaderDirty (impl (fst p))"
  "pixelShaderDirty (impl (fst (PrepareDraw_rasterizerState p))) = pixelShaderDirty (impl (fst p))"
  "primitiveTypeDirty (impl (fst (PrepareDraw_rasterizerState p))) = primitiveTypeDirty (impl (fst p))"
  "blendStateDirty (impl (fst (PrepareDraw_rasterizerState p))) = blendStateDirty (impl (fst p))"
  "depthStateDirty (impl (fst (PrepareDraw_rasterizerState p))) = depthStateDirty (impl (fst p))"
  "\<not> rasterizerStateDirty (impl (fst (PrepareDraw_rasterizerState p)))"
  "vertexDeclarationDirty (impl (fst (PrepareDraw_rasterizerState p))) = vertexDeclarationDirty (impl (fst p))"
  "stencilRefDirty (impl (fst (PrepareDraw_rasterizerState p))) = stencilRefDirty (impl (fst p))"
  "blendStateHash (impl (fst (PrepareDraw_rasterizerState p))) = blendStateHash (impl (fst p))"
  "depthStateHash (impl (fst (PrepareDraw_rasterizerState p))) = depthStateHash (impl (fst p))"
  "rasterizerStateHash (impl (fst (PrepareDraw_rasterizerState p))) = (if rasterizerStateDirty (impl (fst p)) then newRasterizerStateHash (fst p) else rasterizerStateHash (impl (fst p)))"
  "vertexDeclarationHash (fst (PrepareDraw_rasterizerState p)) = vertexDeclarationHash (fst p)"
  "vertexShader (fst (PrepareDraw_rasterizerState p)) = vertexShader (fst p)"
  "pixelShader (fst (PrepareDraw_rasterizerState p)) = pixelShader (fst p)"
  "PrepareDraw_count (fst (PrepareDraw_rasterizerState p)) = PrepareDraw_count (fst p)"
  "cbStore (fst (PrepareDraw_rasterizerState p)) = cbStore (fst p)"
  "primitiveType (impl (fst (PrepareDraw_rasterizerState p))) = primitiveType (impl (fst p))"
  "pipelineStates (impl (fst (PrepareDraw_rasterizerState p))) = pipelineStates (impl (fst p))"
  "currentPipelineState (impl (fst (PrepareDraw_rasterizerState p))) = currentPipelineState (impl (fst p))"
  "currentShaderResourceBinding (impl (fst (PrepareDraw_rasterizerState p))) = currentShaderResourceBinding (impl (fst p))"
  "currentTextureMap (impl (fst (PrepareDraw_rasterizerState p))) = currentTextureMap (impl (fst p))"
  "shaderProgram (impl (fst (PrepareDraw_rasterizerState p))) = shaderProgram (impl (fst p))"
  "dirtyConstantBuffers (impl (fst (PrepareDraw_rasterizerState p))) = dirtyConstantBuffers (impl (fst p))"
  "snd (PrepareDraw_rasterizerState p) = (snd p \<or> rasterizerStateDirty (impl (fst p)) \<and> newRasterizerStateHash (fst p) \<noteq> rasterizerStateHash (impl (fst p)))"
  by (auto simp add: PrepareDraw_rasterizerState_def split_def Let_def deviceCall_def)

lemma step_shadersClean_inputs: "hashInputs (fst (PrepareDraw_shadersClean p)) = hashInputs (fst p)"
  by (simp add: PrepareDraw_shadersClean_def split_def Let_def deviceCall_def hashInputs_def)

lemma step_shadersClean_new:
  "newBlendStateHash (fst (PrepareDraw_shadersClean p)) = newBlendStateHash (fst p)"
  "newDepthStateHash (fst (PrepareDraw_shadersClean p)) = newDepthStateHash (fst p)"
  "newRasterizerStateHash (fst (PrepareDraw_shadersClean p)) = newRasterizerStateHash (fst p)"
  "newVertexDeclarationHash (fst (PrepareDraw_shadersClean p)) = newVertexDeclarationHash (fst p)"
  by (rule newBlendStateHash_cong newDepthStateHash_cong newRasterizerStateHash_cong
      newVertexDeclarationHash_cong, rule step_shadersClean_inputs)+

lemma step_shadersClean:
  "\<not> vertexShaderDirty (impl (fst (PrepareDraw_shadersClean p)))"
  "\<not> pixelShaderDirty (impl (fst (PrepareDraw_shadersClean p)))"
  "primitiveTypeDirty (impl (fst (PrepareDraw_shadersClean p))) = primitiveTypeDirty (impl (fst p))"
  "blendStateDirty (impl (fst (PrepareDraw_shadersClean p))) = blendStateDirty (impl (fst p))"
  "depthStateDirty (impl (fst (PrepareDraw_shadersClean p))) = depthStateDirty (impl (fst p))"
  "rasterizerStateDirty (impl (fst (PrepareDraw_shadersClean p))) = rasterizerStateDirty (impl (fst p))"
  "vertexDeclarationDirty (impl (fst (PrepareDraw_shadersClean p))) = vertexDeclarationDirty (impl (fst p))"
  "stencilRefDirty (impl (fst (PrepareDraw_shadersClean p))) = stencilRefDirty (impl (fst p))"
  "blendStateHash (impl (fst (PrepareDraw_shadersClean p))) = blendStateHash (impl (fst p))"
  "depthStateHash (impl (fst (PrepareDraw_shadersClean p))) = depthStateHash (impl (fst p))"
  "rasterizerStateHash (impl (fst (PrepareDraw_shadersClean p))) = rasterizerStateHash (impl (fst p))"
  "vertexDeclarationHash (fst (PrepareDraw_shadersClean p)) = vertexDeclarationHash (fst p)"
  "vertexShader (fst (PrepareDraw_shadersClean p)) = vertexShader (fst p)"
  "pixelShader (fst (PrepareDraw_shadersClean p)) = pixelShader (fst p)"
  "PrepareDraw_count (fst (PrepareDraw_shadersClean p)) = PrepareDraw_count (fst p)"
  "cbStore (fst (PrepareDraw_shadersClean p)) = cbStore (fst p)"
  "primitiveType (impl (fst (PrepareDraw_shadersClean p))) = primitiveType (impl (fst p))"
  "pipelineStates (impl (fst (PrepareDraw_shadersClean p))) = pipelineStates (impl (fst p))"
  "currentPipelineState (impl (fst (PrepareDraw_shadersClean p))) = currentPipelineState (impl (fst p))"
  "currentShaderResourceBinding (impl (fst (PrepareDraw_shadersClean p))) = currentShaderResourceBinding (impl (fst p))"
  "currentTextureMap (impl (fst (PrepareDraw_shadersClean p))) = currentTextureMap (impl (fst p))"
  "shaderProgram (impl (fst (PrepareDraw_shadersClean p))) = shaderProgram (impl (fst p))"
  "dirtyConstantBuffers (impl (fst (PrepareDraw_shadersClean p))) = dirtyConstantBuffers (impl (fst p))"
  "snd (PrepareDraw_shadersClean p) = snd p"
  by (auto simp add: PrepareDraw_shadersClean_def split_def Let_def deviceCall_def)

lemmas step_simps =
  step_vertexDeclaration step_vertexDeclaration_new
  step_primitiveType step_primitiveType_new
  step_blendState step_blendState_new
  step_depthState step_depthState_new
  step_rasterizerState step_rasterizerState_new
  step_shadersClean step_shadersClean_new

lemma PrepareDraw_state_snd:
  "snd (PrepareDraw_state s) \<longleftrightarrow>
     vertexShaderDirty (impl s) \<or> pixelShaderDirty (impl s)
     \<or> (vertexDeclarationDirty (impl s) \<and> vertexShader s \<noteq> None
         \<and> newVertexDeclarationHash s \<noteq> 0
         \<and> newVertexDeclarationHash s \<noteq> vertexDeclarationHash s)
     \<or> primitiveTypeDirty (impl s)
     \<or> (blendStateDirty (impl s) \<and> newBlendStateHash s \<noteq> blendStateHash (impl s))
     \<or> (depthStateDirty (impl s)
         \<and> (newDepthStateHash s \<noteq> depthStateHash (impl s) \<or> stencilRefDirty (impl s)))
     \<or> (rasterizerStateDirty (impl s)
         \<and> newRasterizerStateHash s \<noteq> rasterizerStateHash (impl s))"
  by (simp add: PrepareDraw_state_def step_simps)

lemma PrepareDraw_state_fst:
  "\<not> vertexShaderDirty (impl (fst (PrepareDraw_state s)))"
  "\<not> pixelShaderDirty (impl (fst (PrepareDraw_state s)))"
  "\<not> primitiveTypeDirty (impl (fst (PrepareDraw_state s)))"
  "\<not> blendStateDirty (impl (fst (PrepareDraw_state s)))"
  "\<not> depthStateDirty (impl (fst (PrepareDraw_state s)))"
  "\<not> rasterizerStateDirty (impl (fst (PrepareDraw_state s)))"
  "blendStateHash (impl (fst (PrepareDraw_state s)))
     = (if blendStateDirty (impl s) then newBlendStateHash s else blendStateHash (impl s))"
  "depthStateHash (impl (fst (PrepareDraw_state s)))
     = (if depthStateDirty (impl s) then newDepthStateHash s else depthStateHash (impl s))"
  "rasterizerStateHash (impl (fst (PrepareDraw_state s)))
     = (if rasterizerStateDirty (impl s) then newRasterizerStateHash s
        else rasterizerStateHash (impl s))"
  "vertexShader (fst (PrepareDraw_state s)) = vertexShader s"
  "pixelShader (fst (PrepareDraw_state s)) = pixelShader s"
  "primitiveType (impl (fst (PrepareDraw_state s))) = primitiveType (impl s)"
  "PrepareDraw_count (fst (PrepareDraw_state s)) = PrepareDraw_count s"
  "pipelineStates (impl (fst (PrepareDraw_state s))) = pipelineStates (impl s)"
  "currentPipelineState (impl (fst (PrepareDraw_state s))) = currentPipelineState (impl s)"
  "currentShaderResourceBinding (impl (fst (PrepareDraw_state s)))
     = currentShaderResourceBinding (impl s)"
  "currentTextureMap (impl (fst (PrepareDraw_state s))) = currentTextureMap (impl s)"
  "shaderProgram (impl (fst (PrepareDraw_state s))) = shaderProgram (impl s)"
  "dirtyConstantBuffers (impl (fst (PrepareDraw_state s))) = dirtyConstantBuffers (impl s)"
  "cbStore (fst (PrepareDraw_state s)) = cbStore s"
  "stencilRefDirty (impl (fst (PrepareDraw_state s))) = stencilRefDirty (impl s)"
  "vertexDeclarationDirty (impl (fst (PrepareDraw_state s))) = vertexDeclarationDirty (impl s)"
  by (simp_all add: PrepareDraw_state_def step_simps)

lemma PrepareDraw_state_vertexDeclarationHash:
  "vertexDeclarationHash (fst (PrepareDraw_state s))
     = (if vertexDeclarationDirty (impl s) \<and> vertexShader s \<noteq> None
           \<and> newVertexDeclarationHash s \<noteq> 0
        then newVertexDeclarationHash s else vertexDeclarationHash s)"
  by (auto simp add: PrepareDraw_state_def step_simps)

section \<open>The pipeline-state cache across calls\<close>

lemma builds_refl [simp]: "builds s s"
  by (simp add: builds_def)

lemma builds_trans: "builds s s1 \<Longrightarrow> builds s1 s2 \<Longrightarrow> builds s s2"
  unfolding builds_def
  by ((erule ssubst)+, simp)

lemma devices_refl [simp]: "devices s s"
  by (simp add: devices_def)

lemma devices_trans: "devices s s1 \<Longrightarrow> devices s1 s2 \<Longrightarrow> devices s s2"
  unfolding devices_def
  by ((erule ssubst)+, simp)

lemma devices_deviceCall [simp]: "devices s (deviceCall c s)"
  by (simp add: devices_def deviceCall_def)

lemma devices_deviceCreate [simp]: "devices s (snd (deviceCreate c s))"
  by (simp add: devices_def deviceCreate_def Let_def)

lemma devices_bind1:
  "bindConstantBuffer pso st v x r = Inr s' \<Longrightarrow> \<exists>s. r = Inr s \<and> devices s s'"
  by (auto simp: bindConstantBuffer_def split: sum.splits if_splits option.splits)

lemma fold_bind_devices:
  "fold (bindConstantBuffer pso st v) xs r = Inr s' \<Longrightarrow> \<exists>s. r = Inr s \<and> devices s s'"
proof (induction xs arbitrary: r)
  case Nil
  then show ?case by simp
next
  case (Cons x xs)
  from Cons.IH [OF Cons.prems [simplified]] obtain s1 where
    s1: "bindConstantBuffer pso st v x r = Inr s1" "devices s1 s'" by blast
  from devices_bind1 [OF s1(1)] s1(2) show ?case by (auto intro: devices_trans)
qed

lemma devices_binds:
  "bindConstantBuffers pso v p s = Inr s' \<Longrightarrow> devices s s'"
  unfolding bindConstantBuffers_def
  by (auto dest!: fold_bind_devices intro: devices_trans)

lemma devices_createBinding:
  "PrepareDraw_createBinding pso v p s = Inr (e, s') \<Longrightarrow>
     devices s s' \<and> pipelineState e = Some pso"
  by (auto simp: PrepareDraw_createBinding_def Let_def split: option.splits)

lemma devices_builds: "devices s s' \<Longrightarrow> builds s s'"
  unfolding devices_def builds_def
  by (erule ssubst) simp

lemma devices_cache:
  assumes "devices s s'"
  shows "PrepareDraw_count s' = PrepareDraw_count s"
    and "pipelineStates (impl s') = pipelineStates (impl s)"
    and "currentPipelineState (impl s') = currentPipelineState (impl s)"
proof -
  from assms have e: "s' = s\<lparr>impl := (impl s)\<lparr>device := device (impl s')\<rparr>\<rparr>"
    by (simp add: devices_def)
  show "PrepareDraw_count s' = PrepareDraw_count s"
    using arg_cong [OF e, of PrepareDraw_count] by simp
  show "pipelineStates (impl s') = pipelineStates (impl s)"
    using arg_cong [OF e, of "\<lambda>s. pipelineStates (impl s)"] by simp
  show "currentPipelineState (impl s') = currentPipelineState (impl s)"
    using arg_cong [OF e, of "\<lambda>s. currentPipelineState (impl s)"] by simp
qed

lemma builds_createPipeline:
  "PrepareDraw_createPipeline v p s = Inr (pso, s') \<Longrightarrow>
     builds s s' \<and> PrepareDraw_count s' = PrepareDraw_count s + 1
     \<and> pipelineStates (impl s') = pipelineStates (impl s)
     \<and> currentPipelineState (impl s') = currentPipelineState (impl s)"
  by (auto simp: PrepareDraw_createPipeline_def Let_def builds_def deviceCreate_def
      split: option.splits)

lemma builds_stored [simp]:
  "builds s (s\<lparr>impl := (impl s)\<lparr>pipelineStates := m\<rparr>\<rparr>)"
  by (simp add: builds_def)

lemma builds_frame:
  assumes "builds s s'"
  shows "pipelineKey s' = pipelineKey s"
    and "vertexShader s' = vertexShader s" and "pixelShader s' = pixelShader s"
    and "vertexShaderDirty (impl s') = vertexShaderDirty (impl s)"
    and "pixelShaderDirty (impl s') = pixelShaderDirty (impl s)"
    and "primitiveTypeDirty (impl s') = primitiveTypeDirty (impl s)"
    and "shaderProgram (impl s') = shaderProgram (impl s)"
    and "cbStore s' = cbStore s"
    and "dirtyConstantBuffers (impl s') = dirtyConstantBuffers (impl s)"
proof -
  from assms have e: "s' = s\<lparr>PrepareDraw_count := PrepareDraw_count s',
            impl := (impl s)\<lparr>device := device (impl s'),
                             pipelineStates := pipelineStates (impl s'),
                             currentPipelineState := currentPipelineState (impl s'),
                             currentShaderResourceBinding :=
                               currentShaderResourceBinding (impl s'),
                             currentTextureMap := currentTextureMap (impl s')\<rparr>\<rparr>"
    by (simp add: builds_def)
  show "pipelineKey s' = pipelineKey s"
    using arg_cong [OF e, of pipelineKey] by (simp add: pipelineKey_def)
  show "vertexShader s' = vertexShader s"
    using arg_cong [OF e, of vertexShader] by simp
  show "pixelShader s' = pixelShader s"
    using arg_cong [OF e, of pixelShader] by simp
  show "vertexShaderDirty (impl s') = vertexShaderDirty (impl s)"
    using arg_cong [OF e, of "\<lambda>s. vertexShaderDirty (impl s)"] by simp
  show "pixelShaderDirty (impl s') = pixelShaderDirty (impl s)"
    using arg_cong [OF e, of "\<lambda>s. pixelShaderDirty (impl s)"] by simp
  show "primitiveTypeDirty (impl s') = primitiveTypeDirty (impl s)"
    using arg_cong [OF e, of "\<lambda>s. primitiveTypeDirty (impl s)"] by simp
  show "shaderProgram (impl s') = shaderProgram (impl s)"
    using arg_cong [OF e, of "\<lambda>s. shaderProgram (impl s)"] by simp
  show "cbStore s' = cbStore s"
    using arg_cong [OF e, of cbStore] by simp
  show "dirtyConstantBuffers (impl s') = dirtyConstantBuffers (impl s)"
    using arg_cong [OF e, of "\<lambda>s. dirtyConstantBuffers (impl s)"] by simp
qed

lemma PrepareDraw_build_cache:
  assumes "PrepareDraw_build v p s = Inr (e, s')"
  shows "builds s s'" and "PrepareDraw_count s' = PrepareDraw_count s + 1"
    and "pipelineStates (impl s') = (pipelineStates (impl s))(pipelineKey s \<mapsto> e)"
    and "currentPipelineState (impl s') = currentPipelineState (impl s)"
    and "pipelineState e \<noteq> None"
proof -
  from assms obtain pso s1 s2 s3 where
    1: "PrepareDraw_createPipeline v p s = Inr (pso, s1)" and
    2: "bindConstantBuffers pso v p s1 = Inr s2" and
    3: "PrepareDraw_createBinding pso v p s2 = Inr (e, s3)" and
    4: "s' = s3\<lparr>impl := (impl s3)\<lparr>pipelineStates :=
                   (pipelineStates (impl s3))(pipelineKey s \<mapsto> e)\<rparr>\<rparr>"
    by (auto simp: PrepareDraw_build_def split: sum.splits)
  note a = builds_createPipeline [OF 1]
  note b = devices_binds [OF 2]
  note c = devices_createBinding [OF 3]
  have d: "devices s1 s3"
    using b c by (blast intro: devices_trans)
  note f = devices_cache [OF d]
  have "builds s s3"
    using a d by (blast intro: builds_trans devices_builds)
  then show "builds s s'"
    unfolding 4 by (rule builds_trans) simp
  show "PrepareDraw_count s' = PrepareDraw_count s + 1"
    using a by (simp add: 4 f)
  show "pipelineStates (impl s') = (pipelineStates (impl s))(pipelineKey s \<mapsto> e)"
    using a by (simp add: 4 f)
  show "currentPipelineState (impl s') = currentPipelineState (impl s)"
    using a by (simp add: 4 f)
  show "pipelineState e \<noteq> None"
    using c by simp
qed

lemma builds_adopt [simp]: "builds s (snd (PrepareDraw_adopt e s))"
  by (simp add: PrepareDraw_adopt_def builds_def)

lemma PrepareDraw_adopt_cache [simp]:
  "currentPipelineState (impl (snd (PrepareDraw_adopt e s))) = pipelineState e"
  "pipelineStates (impl (snd (PrepareDraw_adopt e s))) = pipelineStates (impl s)"
  "PrepareDraw_count (snd (PrepareDraw_adopt e s)) = PrepareDraw_count s"
  by (simp_all add: PrepareDraw_adopt_def)

lemma PrepareDraw_pipeline_cache:
  assumes "PrepareDraw_pipeline s = Inr (c, s')"
  shows "builds s s'"
    and "\<exists>e. pipelineStates (impl s') (pipelineKey s) = Some e
           \<and> currentPipelineState (impl s') = pipelineState e
           \<and> (case pipelineStates (impl s) (pipelineKey s) of
                Some e0 \<Rightarrow> pipelineStates (impl s') = pipelineStates (impl s)
                          \<and> PrepareDraw_count s' = PrepareDraw_count s
              | None \<Rightarrow> pipelineStates (impl s') = (pipelineStates (impl s))(pipelineKey s \<mapsto> e)
                        \<and> PrepareDraw_count s' = PrepareDraw_count s + 1)"
proof -
  show "builds s s'"
    using assms
    by (auto simp: PrepareDraw_pipeline_def split: option.splits sum.splits prod.splits
        dest!: PrepareDraw_build_cache(1))
      (metis builds_adopt builds_trans snd_conv)+
  show "\<exists>e. pipelineStates (impl s') (pipelineKey s) = Some e
           \<and> currentPipelineState (impl s') = pipelineState e
           \<and> (case pipelineStates (impl s) (pipelineKey s) of
                Some e0 \<Rightarrow> pipelineStates (impl s') = pipelineStates (impl s)
                          \<and> PrepareDraw_count s' = PrepareDraw_count s
              | None \<Rightarrow> pipelineStates (impl s') = (pipelineStates (impl s))(pipelineKey s \<mapsto> e)
                        \<and> PrepareDraw_count s' = PrepareDraw_count s + 1)"
  proof (cases "pipelineStates (impl s) (pipelineKey s)")
    case (Some e0)
    with assms have "s' = snd (PrepareDraw_adopt e0 s)"
      by (auto simp: PrepareDraw_pipeline_def)
    with Some show ?thesis by simp
  next
    case None
    with assms obtain v p e s1 where
      b: "PrepareDraw_build v p s = Inr (e, s1)" and s': "s' = snd (PrepareDraw_adopt e s1)"
      by (auto simp: PrepareDraw_pipeline_def split: option.splits sum.splits prod.splits)
    from PrepareDraw_build_cache [OF b] None show ?thesis
      by (simp add: s')
  qed
qed

lemma pipelineView_commitTexture [simp]: "pipelineView (commitTexture c e s) = pipelineView s"
  by (cases e) (auto simp: commitTexture_def split: option.splits)

lemma pipelineView_textures [simp]: "pipelineView (PrepareDraw_textures c s) = pipelineView s"
  by (auto simp: PrepareDraw_textures_def Let_def fold_keeps cacheView_def split: option.splits)

lemma pipelineView_scissor [simp]: "pipelineView (PrepareDraw_scissor s) = pipelineView s"
  by (simp add: PrepareDraw_scissor_def Let_def cacheView_def)

lemma pipelineView_Apply [simp]: "pipelineView (Apply b s) = pipelineView s"
  by (auto simp: Apply_def Let_def cacheView_def split: option.splits)

lemma pipelineView_constantBuffers [simp]:
  "pipelineView (PrepareDraw_constantBuffers s) = pipelineView s"
  by (simp add: PrepareDraw_constantBuffers_def Let_def fold_keeps cacheView_def)

lemma pipelineView_commit:
  "PrepareDraw_commit c s = Inr s' \<Longrightarrow> pipelineView s' = pipelineView s"
  by (auto simp: PrepareDraw_commit_def Let_def split: option.splits)

lemma pipelineView_cache:
  assumes "pipelineView s' = pipelineView s"
  shows "pipelineKey s' = pipelineKey s" and "settled s' = settled s"
    and "resolved s' = resolved s"
    and "pipelineStates (impl s') = pipelineStates (impl s)"
    and "currentPipelineState (impl s') = currentPipelineState (impl s)"
    and "PrepareDraw_count s' = PrepareDraw_count s"
    and "vertexShader s' = vertexShader s" and "pixelShader s' = pixelShader s"
    and "shaderProgram (impl s') = shaderProgram (impl s)"
    and "rasterizerStateHash (impl s') = rasterizerStateHash (impl s)"
  using assms
  by (auto simp add: pipelineView_def cacheView_def pipelineKey_def settled_def resolved_def
      split: option.splits)

lemma built_refl: "built s s"
  by (simp add: built_def)

lemma PrepareDraw_resolve_cache:
  assumes r: "PrepareDraw_resolve s = Inr (c, s')"
    and j: "settled s \<Longrightarrow> resolved s"
  shows "settled s'" and "resolved s'" and "built s s'"
    and "vertexShader s' = vertexShader s" and "pixelShader s' = pixelShader s"
    and "shaderProgram (impl s') = shaderProgram (impl s)"
    and "rasterizerStateHash (impl s')
           = (if rasterizerStateDirty (impl s) then newRasterizerStateHash s
              else rasterizerStateHash (impl s))"
proof -
  let ?p = "PrepareDraw_state s"
  consider (clean) "\<not> PrepareDraw_anyDirty s" "s' = s"
    | (same) "PrepareDraw_anyDirty s" "\<not> snd ?p" "s' = fst ?p"
    | (look) "PrepareDraw_anyDirty s" "snd ?p" "PrepareDraw_pipeline (fst ?p) = Inr (c, s')"
    using r by (auto simp: PrepareDraw_resolve_def split: if_splits)
  then have "settled s' \<and> resolved s' \<and> built s s'
      \<and> vertexShader s' = vertexShader s \<and> pixelShader s' = pixelShader s
      \<and> shaderProgram (impl s') = shaderProgram (impl s)
      \<and> rasterizerStateHash (impl s')
           = (if rasterizerStateDirty (impl s) then newRasterizerStateHash s
              else rasterizerStateHash (impl s))"
  proof cases
    case clean
    then have "settled s" "\<not> rasterizerStateDirty (impl s)"
      by (simp_all add: PrepareDraw_anyDirty_def settled_def)
    with j clean show ?thesis by (simp add: built_refl)
  next
    case same
    from same(2) have k: "pipelineKey (fst ?p) = pipelineKey s" and t: "settled s"
      and h: "rasterizerStateDirty (impl s)
               \<longrightarrow> newRasterizerStateHash s = rasterizerStateHash (impl s)"
      by (auto simp add: PrepareDraw_state_snd pipelineKey_def PrepareDraw_state_fst
          PrepareDraw_state_vertexDeclarationHash settled_def)
    have "settled (fst ?p)"
      by (simp add: settled_def PrepareDraw_state_fst)
    moreover have "resolved (fst ?p)"
      using j [OF t] by (simp add: resolved_def k PrepareDraw_state_fst split: option.splits)
    moreover have "built s (fst ?p)"
      using j [OF t] by (simp add: built_def k PrepareDraw_state_fst resolved_def domIff
          split: option.splits)
    ultimately show ?thesis
      using h by (simp add: same(3) PrepareDraw_state_fst)
  next
    case look
    note b = builds_frame [OF PrepareDraw_pipeline_cache(1) [OF look(3)]]
    from PrepareDraw_pipeline_cache(2) [OF look(3)] obtain e where
      e: "pipelineStates (impl s') (pipelineKey (fst ?p)) = Some e"
        "currentPipelineState (impl s') = pipelineState e"
        "case pipelineStates (impl (fst ?p)) (pipelineKey (fst ?p)) of
           Some e0 \<Rightarrow> pipelineStates (impl s') = pipelineStates (impl (fst ?p))
                     \<and> PrepareDraw_count s' = PrepareDraw_count (fst ?p)
         | None \<Rightarrow> pipelineStates (impl s')
                     = (pipelineStates (impl (fst ?p)))(pipelineKey (fst ?p) \<mapsto> e)
                   \<and> PrepareDraw_count s' = PrepareDraw_count (fst ?p) + 1"
      by blast
    have "settled s'"
      by (simp add: settled_def b PrepareDraw_state_fst)
    moreover have "resolved s'"
      using e by (simp add: resolved_def b(1) split: option.splits)
    moreover have "built s s'"
      using e(3) by (auto simp add: built_def b(1) PrepareDraw_state_fst domIff map_le_def
          split: option.splits)
    moreover have "rasterizerStateHash (impl s') = rasterizerStateHash (impl (fst ?p))"
      using b(1) by (simp add: pipelineKey_def)
    ultimately show ?thesis
      by (simp add: b PrepareDraw_state_fst)
  qed
  then show "settled s'" and "resolved s'" and "built s s'"
    and "vertexShader s' = vertexShader s" and "pixelShader s' = pixelShader s"
    and "shaderProgram (impl s') = shaderProgram (impl s)"
    and "rasterizerStateHash (impl s')
           = (if rasterizerStateDirty (impl s) then newRasterizerStateHash s
              else rasterizerStateHash (impl s))"
    by blast+
qed

lemma cacheInvariant_constructed: "constructed s \<Longrightarrow> cacheInvariant s"
  by (simp add: constructed_def cacheInvariant_def)

lemma cacheInvariant_cong:
  assumes "pipelineView s' = pipelineView s"
  shows "cacheInvariant s' = cacheInvariant s"
  by (simp add: cacheInvariant_def pipelineView_cache [OF assms])

lemma built_cong:
  assumes "pipelineView a' = pipelineView a" and "pipelineView b' = pipelineView b"
  shows "built a' b' = built a b"
  by (simp add: built_def pipelineView_cache [OF assms(1)] pipelineView_cache [OF assms(2)])

lemma built_grows: "built s s' \<Longrightarrow> pipelineStates (impl s) \<subseteq>\<^sub>m pipelineStates (impl s')"
  by (auto simp add: built_def)

lemma PrepareDraw_unbound:
  assumes "PrepareDraw s = Inr s'" and "vertexShader s = None \<or> pixelShader s = None"
  shows "pipelineView s' = pipelineView s"
proof -
  note r = retargets_renderTargets [of s]
  from assms(2) have "vertexShader (PrepareDraw_renderTargets s) = None
      \<or> pixelShader (PrepareDraw_renderTargets s) = None"
    by (simp add: retargets_depth [OF r])
  with assms(1) have "s' = PrepareDraw_renderTargets s"
    by (auto simp add: PrepareDraw_def Let_def)
  then show ?thesis
    by (simp add: retargets_pipelineView [OF r])
qed

lemma PrepareDraw_bound:
  assumes p: "PrepareDraw s = Inr s'"
    and v: "vertexShader s \<noteq> None" "pixelShader s \<noteq> None"
    and j: "settled s \<Longrightarrow> resolved s"
  shows "settled s'" and "resolved s'" and "built s s'"
    and "vertexShader s' = vertexShader s" and "pixelShader s' = pixelShader s"
    and "shaderProgram (impl s') = shaderProgram (impl s)"
    and "currentPipelineState (impl s') \<noteq> None"
    and "rasterizerStateHash (impl s')
           = (if rasterizerStateDirty (impl (PrepareDraw_renderTargets s))
              then newRasterizerStateHash (PrepareDraw_renderTargets s)
              else rasterizerStateHash (impl s))"
proof -
  let ?t = "PrepareDraw_renderTargets s"
  note r = retargets_renderTargets [of s]
  note w = retargets_pipelineView [OF r]
  from v have "vertexShader ?t \<noteq> None" "pixelShader ?t \<noteq> None"
    by (simp_all add: retargets_depth [OF r])
  with p obtain c s1 where
    1: "PrepareDraw_resolve ?t = Inr (c, s1)" and 2: "PrepareDraw_commit c s1 = Inr s'"
    by (auto simp add: PrepareDraw_def Let_def split: sum.splits)
  have "settled ?t \<Longrightarrow> resolved ?t"
    using j by (simp add: pipelineView_cache [OF w])
  note a = PrepareDraw_resolve_cache [OF 1 this]
  note q = pipelineView_commit [OF 2]
  show "settled s'" "resolved s'"
    using a(1,2) by (simp_all add: pipelineView_cache [OF q])
  show "built s s'"
    using a(3) by (simp add: built_cong [OF w [symmetric] q])
  show "vertexShader s' = vertexShader s" "pixelShader s' = pixelShader s"
    "shaderProgram (impl s') = shaderProgram (impl s)"
    using a(4,5,6) by (simp_all add: pipelineView_cache [OF q] pipelineView_cache [OF w])
  from 2 have "currentPipelineState (impl s1) \<noteq> None"
    by (auto simp add: PrepareDraw_commit_def split: option.splits)
  then show "currentPipelineState (impl s') \<noteq> None"
    by (simp add: pipelineView_cache [OF q])
  show "rasterizerStateHash (impl s')
           = (if rasterizerStateDirty (impl ?t) then newRasterizerStateHash ?t
              else rasterizerStateHash (impl s))"
    using a(7) by (simp add: pipelineView_cache [OF q] pipelineView_cache [OF w])
qed

lemma built_card:
  assumes "built s s'" and "finite (dom (pipelineStates (impl s)))"
    and "int (card (dom (pipelineStates (impl s)))) = PrepareDraw_count s"
  shows "finite (dom (pipelineStates (impl s')))"
    and "int (card (dom (pipelineStates (impl s')))) = PrepareDraw_count s'"
proof -
  from assms(1) consider
    (same) "pipelineStates (impl s') = pipelineStates (impl s)"
      "PrepareDraw_count s' = PrepareDraw_count s"
    | (more) "pipelineKey s' \<notin> dom (pipelineStates (impl s))"
      "dom (pipelineStates (impl s')) = insert (pipelineKey s') (dom (pipelineStates (impl s)))"
      "PrepareDraw_count s' = PrepareDraw_count s + 1"
    by (auto simp add: built_def)
  then have "finite (dom (pipelineStates (impl s')))
      \<and> int (card (dom (pipelineStates (impl s')))) = PrepareDraw_count s'"
  proof cases
    case same
    with assms(2,3) show ?thesis by simp
  next
    case more
    from more(1) assms(2) have
      "card (insert (pipelineKey s') (dom (pipelineStates (impl s))))
         = Suc (card (dom (pipelineStates (impl s))))"
      by (rule_tac card_insert_disjoint)
    with more assms(2,3) show ?thesis by simp
  qed
  then show "finite (dom (pipelineStates (impl s')))"
    and "int (card (dom (pipelineStates (impl s')))) = PrepareDraw_count s'"
    by simp_all
qed

lemma cacheInvariant_PrepareDraw:
  assumes "PrepareDraw s = Inr s'" and "cacheInvariant s"
  shows "cacheInvariant s'" and "pipelineStates (impl s) \<subseteq>\<^sub>m pipelineStates (impl s')"
proof -
  have "cacheInvariant s' \<and> pipelineStates (impl s) \<subseteq>\<^sub>m pipelineStates (impl s')"
  proof (cases "vertexShader s = None \<or> pixelShader s = None")
    case True
    note w = PrepareDraw_unbound [OF assms(1) True]
    show ?thesis
      using assms(2) by (simp add: cacheInvariant_cong [OF w] pipelineView_cache [OF w])
  next
    case False
    then have v: "vertexShader s \<noteq> None" "pixelShader s \<noteq> None" by simp_all
    have j: "settled s \<Longrightarrow> resolved s"
      using assms(2) v by (simp add: cacheInvariant_def)
    note a = PrepareDraw_bound [OF assms(1) v j]
    have "finite (dom (pipelineStates (impl s)))"
      "int (card (dom (pipelineStates (impl s)))) = PrepareDraw_count s"
      using assms(2) by (simp_all add: cacheInvariant_def)
    note k = built_card [OF a(3) this]
    show ?thesis
      using a k v by (simp add: cacheInvariant_def built_grows)
  qed
  then show "cacheInvariant s'" and "pipelineStates (impl s) \<subseteq>\<^sub>m pipelineStates (impl s')"
    by simp_all
qed

lemma cacheCore_sources [simp]: "cacheCore (SetShaders_sources prog i s) = cacheCore s"
  by (simp add: SetShaders_sources_def Let_def cacheCore_def)

lemma cacheCore_program [simp]: "cacheCore (SetShaders_program s) = cacheCore s"
  by (auto simp: SetShaders_program_def fold_keeps split: option.splits prod.splits)
     (simp_all add: cacheCore_def)

lemma cacheCore_SetShaderParameter [simp]:
  "cacheCore (SetShaderParameter p bytes s) = cacheCore s"
  by (simp add: SetShaderParameter_def SetParameter_def Let_def cacheCore_def split: option.splits)

lemma cacheCore_precache [simp]: "cacheCore (SetShaders_precache s) = cacheCore s"
  by (simp add: SetShaders_precache_def cacheCore_def)

lemma cacheCore_clipPlane [simp]: "cacheCore (SetShaders_clipPlane s) = cacheCore s"
  by (simp add: SetShaders_clipPlane_def)

lemma cacheCore_vs [simp]: "cacheCore (SetShaders_vs v s) = cacheCore s"
  by (auto simp add: SetShaders_vs_def Let_def URHO3D_LOGERROR_def Create_def cacheCore_def
      split: option.splits)

lemma cacheCore_ps [simp]: "cacheCore (SetShaders_ps p s) = cacheCore s"
  by (auto simp add: SetShaders_ps_def Let_def URHO3D_LOGERROR_def Create_def cacheCore_def
      split: option.splits)

lemma cacheCore_SetShaders [simp]: "cacheCore (SetShaders v p s) = cacheCore s"
  by (simp add: SetShaders_def)

lemma shaderProgram_sources [simp]:
  "shaderProgram (impl (SetShaders_sources prog i s)) = shaderProgram (impl s)"
  by (simp add: SetShaders_sources_def Let_def)

lemma shaderProgram_SetShaderParameter [simp]:
  "shaderProgram (impl (SetShaderParameter p bytes s)) = shaderProgram (impl s)"
  by (simp add: SetShaderParameter_def SetParameter_def Let_def split: option.splits)

lemma shaderProgram_precache [simp]:
  "shaderProgram (impl (SetShaders_precache s)) = shaderProgram (impl s)"
  by (simp add: SetShaders_precache_def)

lemma shaderProgram_clipPlane [simp]:
  "shaderProgram (impl (SetShaders_clipPlane s)) = shaderProgram (impl s)"
  by (simp add: SetShaders_clipPlane_def)

lemma shaderProgram_fold_sources [simp]:
  "shaderProgram (impl (fold (SetShaders_sources prog) xs s)) = shaderProgram (impl s)"
  by (rule fold_keeps [where g = "\<lambda>s. shaderProgram (impl s)"]) simp

lemma shaderProgram_program:
  "shaderProgram (impl (SetShaders_program s)) \<noteq> None
     \<longleftrightarrow> vertexShader s \<noteq> None \<and> pixelShader s \<noteq> None"
  by (auto simp: SetShaders_program_def split: option.splits prod.splits)

lemma SetShaders_bound:
  "shaderProgram (impl (SetShaders v p s)) \<noteq> None
     \<longleftrightarrow> vertexShader (SetShaders v p s) \<noteq> None \<and> pixelShader (SetShaders v p s) \<noteq> None"
proof -
  let ?s2 = "SetShaders_ps (SetShaders_variation s p) (SetShaders_vs (SetShaders_variation s v) s)"
  have "shaderFlags (SetShaders v p s) = shaderFlags ?s2"
    by (rule SetShaders_flags)
  then have "vertexShader (SetShaders v p s) = vertexShader ?s2"
    "pixelShader (SetShaders v p s) = pixelShader ?s2"
    by (simp_all add: shaderFlags_def)
  moreover have "shaderProgram (impl (SetShaders v p s)) = shaderProgram (impl (SetShaders_program ?s2))"
    by (simp add: SetShaders_def)
  ultimately show ?thesis
    using shaderProgram_program [of ?s2] by simp
qed

lemma SetShaders_settled:
  assumes "settled (SetShaders v p s)"
  shows "vertexShader (SetShaders v p s) = vertexShader s"
    and "pixelShader (SetShaders v p s) = pixelShader s"
    and "settled s"
proof -
  from assms have n: "\<not> vertexShaderDirty (impl (SetShaders v p s))"
    "\<not> pixelShaderDirty (impl (SetShaders v p s))"
    "\<not> primitiveTypeDirty (impl (SetShaders v p s))"
    by (simp_all add: settled_def)
  from n(1) have a: "SetShaders_variation s v = vertexShader s"
    using SetShaders_raises(1) [of s v p] by blast
  from n(2) have b: "SetShaders_variation s p = pixelShader s"
    using SetShaders_raises(2) [of s p v] by blast
  note f = SetShaders_same [OF a b, unfolded shaderFlags_def, simplified]
  note c = cacheCore_SetShaders [of v p s, unfolded cacheCore_def, simplified]
  show "vertexShader (SetShaders v p s) = vertexShader s"
    and "pixelShader (SetShaders v p s) = pixelShader s"
    using f by simp_all
  show "settled s"
    using n f c by (simp add: settled_def)
qed

lemma cacheInvariant_SetShaders:
  assumes "cacheInvariant s"
  shows "cacheInvariant (SetShaders v p s)"
    and "pipelineStates (impl (SetShaders v p s)) = pipelineStates (impl s)"
proof -
  note c = cacheCore_SetShaders [of v p s, unfolded cacheCore_def, simplified]
  show "pipelineStates (impl (SetShaders v p s)) = pipelineStates (impl s)"
    using c by simp
  have "resolved (SetShaders v p s)"
    if "vertexShader (SetShaders v p s) \<noteq> None" "pixelShader (SetShaders v p s) \<noteq> None"
      "settled (SetShaders v p s)"
  proof -
    note t = SetShaders_settled [OF that(3)]
    from that(1,2) t assms have "resolved s"
      by (simp add: cacheInvariant_def)
    then show ?thesis
      using c t(1,2) by (simp add: resolved_def pipelineKey_def split: option.splits)
  qed
  then show "cacheInvariant (SetShaders v p s)"
    using assms c SetShaders_bound [of v p s] by (simp add: cacheInvariant_def)
qed

lemma cacheInvariant_SetPrimitiveType:
  assumes "cacheInvariant s"
  shows "cacheInvariant (SetPrimitiveType t s)"
    and "pipelineStates (impl (SetPrimitiveType t s)) = pipelineStates (impl s)"
    and "shaderProgram (impl (SetPrimitiveType t s)) = shaderProgram (impl s)"
  using assms
  by (simp_all add: SetPrimitiveType_def cacheInvariant_def settled_def)

lemma Draw_prepares:
  assumes "Draw t vs n s = Inr s'" and "\<not> (n = 0 \<or> shaderProgram (impl s) = None)"
  shows "\<exists>ty s1. PrepareDraw (SetPrimitiveType ty s) = Inr s1 \<and> pipelineView s' = pipelineView s1"
  using assms
  by (auto simp: Draw_def Let_def split: sum.splits) blast

lemma drawIndexed_prepares:
  assumes "drawIndexed t is ic bv n s = Inr s'"
  shows "\<exists>ty s1. PrepareDraw (SetPrimitiveType ty s) = Inr s1 \<and> pipelineView s' = pipelineView s1"
  using assms
  by (auto simp: drawIndexed_def Let_def split: sum.splits option.splits) blast

lemma exec_prepares:
  assumes "exec c s = Inr s'" and "issued c s"
  shows "\<exists>ty s1. PrepareDraw (SetPrimitiveType ty s) = Inr s1 \<and> pipelineView s' = pipelineView s1"
  using assms
  by (cases c)
    (auto simp: Draw_indexed_def Draw_indexed_base_def DrawInstanced_def DrawInstanced_base_def
      dest: Draw_prepares drawIndexed_prepares)

lemma exec_refused:
  assumes "exec c s = Inr s'" and "isDraw c" and "\<not> issued c s"
  shows "s' = s"
  using assms
  by (cases c)
    (auto simp: Draw_def Draw_indexed_def Draw_indexed_base_def DrawInstanced_def
      DrawInstanced_base_def)

lemma exec_setter:
  assumes "exec c s = Inr s'" and "\<not> isDraw c"
  shows "(\<exists>v p. s' = SetShaders v p s) \<or> pipelineView s' = pipelineView s"
  using assms by (cases c) auto

lemma exec_invariant:
  assumes "exec c s = Inr s'" and "cacheInvariant s"
  shows "cacheInvariant s'" and "pipelineStates (impl s) \<subseteq>\<^sub>m pipelineStates (impl s')"
proof -
  have "cacheInvariant s' \<and> pipelineStates (impl s) \<subseteq>\<^sub>m pipelineStates (impl s')"
  proof (cases "isDraw c")
    case False
    from exec_setter [OF assms(1) False] show ?thesis
    proof
      assume "\<exists>v p. s' = SetShaders v p s"
      then obtain v p where "s' = SetShaders v p s" by blast
      with cacheInvariant_SetShaders [OF assms(2), of v p] show ?thesis by simp
    next
      assume w: "pipelineView s' = pipelineView s"
      with assms(2) show ?thesis
        by (simp add: cacheInvariant_cong [OF w] pipelineView_cache [OF w])
    qed
  next
    case True
    show ?thesis
    proof (cases "issued c s")
      case False
      from exec_refused [OF assms(1) True False] assms(2) show ?thesis by simp
    next
      case True
      from exec_prepares [OF assms(1) True] obtain ty s1 where
        p: "PrepareDraw (SetPrimitiveType ty s) = Inr s1" and w: "pipelineView s' = pipelineView s1"
        by blast
      note a = cacheInvariant_SetPrimitiveType [OF assms(2), of ty]
      note b = cacheInvariant_PrepareDraw [OF p a(1)]
      from b show ?thesis
        by (simp add: cacheInvariant_cong [OF w] pipelineView_cache [OF w] a(2))
    qed
  qed
  then show "cacheInvariant s'" and "pipelineStates (impl s) \<subseteq>\<^sub>m pipelineStates (impl s')"
    by simp_all
qed

lemma run_invariant:
  assumes "run cs s = Inr s'" and "cacheInvariant s"
  shows "cacheInvariant s' \<and> pipelineStates (impl s) \<subseteq>\<^sub>m pipelineStates (impl s')"
  using assms
proof (induction cs arbitrary: s)
  case Nil
  then show ?case by simp
next
  case (Cons c cs)
  from Cons.prems(1) obtain s1 where
    1: "exec c s = Inr s1" and 2: "run cs s1 = Inr s'"
    by (auto split: sum.splits)
  note a = exec_invariant [OF 1 Cons.prems(2)]
  from Cons.IH [OF 2 a(1)] a(2) show ?case
    by (auto intro: map_le_trans)
qed

lemma exec_issued:
  assumes "exec c s = Inr s'" and "issued c s" and "cacheInvariant s"
  shows "settled s'" and "resolved s'" and "built s s'"
    and "currentPipelineState (impl s') \<noteq> None"
proof -
  from exec_prepares [OF assms(1,2)] obtain ty s1 where
    p: "PrepareDraw (SetPrimitiveType ty s) = Inr s1" and w: "pipelineView s' = pipelineView s1"
    by blast
  let ?s0 = "SetPrimitiveType ty s"
  note a = cacheInvariant_SetPrimitiveType [OF assms(3), of ty]
  from assms(2) have "shaderProgram (impl s) \<noteq> None"
    by (cases c) auto
  with a(1,3) have v: "vertexShader ?s0 \<noteq> None" "pixelShader ?s0 \<noteq> None"
    by (simp_all add: cacheInvariant_def)
  have j: "settled ?s0 \<Longrightarrow> resolved ?s0"
    using a(1) v by (simp add: cacheInvariant_def)
  note b = PrepareDraw_bound [OF p v j]
  show "settled s'" "resolved s'"
    using b(1,2) by (simp_all add: pipelineView_cache [OF w])
  have "built s s1"
    using b(3) by (simp add: built_def SetPrimitiveType_def split: if_splits)
  then show "built s s'"
    by (simp add: built_def pipelineView_cache [OF w])
  show "currentPipelineState (impl s') \<noteq> None"
    using b(7) by (simp add: pipelineView_cache [OF w])
qed

lemma projr_Inr: "\<not> isl r \<Longrightarrow> r = Inr (projr r)"
  by (cases r) simp_all

lemma retargets_rasterizer:
  assumes "retargets s s'"
  shows "cullMode s' = cullMode s"
    and "rasterizerStateDirty (impl s) \<Longrightarrow> rasterizerStateDirty (impl s')"
proof -
  from assms have e: "s' = s\<lparr>viewport := viewport s', scissorTest := scissorTest s',
            impl := (impl s)\<lparr>device := device (impl s'),
                             depthStencilView := depthStencilView (impl s'),
                             renderTargetViews := renderTargetViews (impl s'),
                             renderTargetsDirty := renderTargetsDirty (impl s'),
                             rasterizerStateDirty := rasterizerStateDirty (impl s')\<rparr>\<rparr>"
    by (simp add: retargets_def)
  show "cullMode s' = cullMode s"
    using arg_cong [OF e, of cullMode] by simp
  show "rasterizerStateDirty (impl s')" if "rasterizerStateDirty (impl s)"
    using assms that by (simp add: retargets_def)
qed

lemma exec_issued_rasterizer:
  assumes "exec c s = Inr s'" and "issued c s" and "cacheInvariant s"
    and "rasterizerStateDirty (impl s)"
  shows "\<exists>u. rasterizerStateHash (impl s') = newRasterizerStateHash u \<and> cullMode u = cullMode s"
proof -
  from exec_prepares [OF assms(1,2)] obtain ty s1 where
    p: "PrepareDraw (SetPrimitiveType ty s) = Inr s1" and w: "pipelineView s' = pipelineView s1"
    by blast
  let ?s0 = "SetPrimitiveType ty s"
  let ?t = "PrepareDraw_renderTargets ?s0"
  note a = cacheInvariant_SetPrimitiveType [OF assms(3), of ty]
  from assms(2) have "shaderProgram (impl s) \<noteq> None"
    by (cases c) auto
  with a(1,3) have v: "vertexShader ?s0 \<noteq> None" "pixelShader ?s0 \<noteq> None"
    by (simp_all add: cacheInvariant_def)
  have j: "settled ?s0 \<Longrightarrow> resolved ?s0"
    using a(1) v by (simp add: cacheInvariant_def)
  note b = PrepareDraw_bound [OF p v j]
  note r = retargets_rasterizer [OF retargets_renderTargets [of ?s0]]
  have d: "rasterizerStateDirty (impl ?s0)" and c: "cullMode ?s0 = cullMode s"
    using assms(4) by (simp_all add: SetPrimitiveType_def)
  have "rasterizerStateHash (impl s') = newRasterizerStateHash ?t"
    using b(8) r(2) [OF d] by (simp add: pipelineView_cache [OF w])
  moreover have "cullMode ?t = cullMode s"
    using r(1) c by simp
  ultimately show ?thesis by blast
qed


section \<open>Primitive counting\<close>



section \<open>Draw refusal\<close>

text \<open>
  C7. The three \<^verbatim>\<open>Draw\<close> overloads return at once, leaving the whole state as it was (no
  device call, no preparation, no counter), when the vertex count is zero or no shader
  program is bound. The two \<^verbatim>\<open>DrawInstanced\<close> overloads do so when the index count or the
  instance count is zero or no shader program is bound; they do not look at the vertex count.
\<close>

theorem draw_refusal:
  "(vertexCount = 0 \<or> shaderProgram (impl s) = None \<longrightarrow>
      Draw t vertexStart vertexCount s = Inr s
      \<and> Draw_indexed t indexStart indexCount minVertex vertexCount s = Inr s
      \<and> Draw_indexed_base t indexStart indexCount baseVertexIndex minVertex vertexCount s = Inr s)
   \<and> (indexCount = 0 \<or> instanceCount = 0 \<or> shaderProgram (impl s) = None \<longrightarrow>
      DrawInstanced t indexStart indexCount minVertex vertexCount instanceCount s = Inr s
      \<and> DrawInstanced_base t indexStart indexCount baseVertexIndex minVertex vertexCount
            instanceCount s = Inr s)"
  by (simp add: Draw_def Draw_indexed_def Draw_indexed_base_def DrawInstanced_def
      DrawInstanced_base_def)

theorem draw_refusal_witness:
  "Draw TRIANGLE_LIST 0 0 scene_bound = Inr scene_bound
   \<and> Draw_indexed TRIANGLE_LIST 0 3 0 0 scene_bound = Inr scene_bound
   \<and> Draw_indexed_base TRIANGLE_LIST 0 3 0 0 0 scene_bound = Inr scene_bound
   \<and> DrawInstanced TRIANGLE_LIST 0 3 0 3 0 scene_bound = Inr scene_bound
   \<and> DrawInstanced_base TRIANGLE_LIST 0 3 0 0 3 0 scene_bound = Inr scene_bound"
  using draw_refusal [of 0 scene_bound TRIANGLE_LIST 0 0 3 0 0 0]
    draw_refusal [of 3 scene_bound TRIANGLE_LIST 0 0 3 0 0 0]
  by simp

text \<open>
  With a vertex count of zero, three indices and one instance, \<^verbatim>\<open>DrawInstanced\<close> on the
  bound scene prepares, draws and counts a batch.
\<close>

theorem drawInstanced_zero_vertexCount_counterexample:
  "shaderProgram (impl scene_bound) \<noteq> None
   \<and> \<not> isl (DrawInstanced TRIANGLE_LIST 0 3 0 0 1 scene_bound)
   \<and> numBatches (projr (DrawInstanced TRIANGLE_LIST 0 3 0 0 1 scene_bound))
       = numBatches scene_bound + 1
   \<and> last (calls (device (impl (projr (DrawInstanced TRIANGLE_LIST 0 3 0 0 1 scene_bound)))))
       = DevDrawIndexed VT_UINT16 0 3 0 1"
  by code_simp

section \<open>Out-of-range setter inputs\<close>

text \<open>
  C9. \<^verbatim>\<open>SetVertexBuffers\<close> with more buffers than \<^verbatim>\<open>MAX_VERTEX_STREAMS\<close> logs an error and
  returns false; nothing of the state but the log changes. \<^verbatim>\<open>SetTexture\<close> with a unit at or
  beyond \<^verbatim>\<open>MAX_TEXTURE_UNITS\<close> and \<^verbatim>\<open>SetRenderTarget\<close> with an index at or beyond
  \<^verbatim>\<open>MAX_RENDERTARGETS\<close> change nothing at all.
\<close>

theorem out_of_range_setters:
  "(length buffers > unat MAX_VERTEX_STREAMS \<longrightarrow>
      SetVertexBuffers buffers instanceOffset s
        = (False, s\<lparr>errorLog := errorLog s @ [''Too many vertex buffers'']\<rparr>))
   \<and> (index \<ge> MAX_TEXTURE_UNITS \<longrightarrow> SetTexture index texture s = s)
   \<and> (rtIndex \<ge> MAX_RENDERTARGETS \<longrightarrow>
        SetRenderTarget rtIndex renderTarget s = s
        \<and> SetRenderTarget_Texture2D rtIndex texture2D s = s)"
  by (simp add: SetVertexBuffers_def URHO3D_LOGERROR_def SetTexture_def SetRenderTarget_def
      SetRenderTarget_Texture2D_def)

theorem out_of_range_setters_witness:
  "SetVertexBuffers [Some 1, Some 2, Some 3, Some 4, Some 5] 0 scene_bound
     = (False, scene_bound\<lparr>errorLog := errorLog scene_bound @ [''Too many vertex buffers'']\<rparr>)
   \<and> SetTexture 16 (Some 1) scene_bound = scene_bound
   \<and> SetRenderTarget 4 (Some 1) scene_bound = scene_bound
   \<and> SetRenderTarget_Texture2D 4 (Some 2) scene_bound = scene_bound"
  using out_of_range_setters [of "[Some 1, Some 2, Some 3, Some 4, Some 5]" 0 scene_bound
      16 "Some 1" 4 "Some 1" "Some 2"]
  by (simp add: MAX_VERTEX_STREAMS_def MAX_TEXTURE_UNITS_def MAX_RENDERTARGETS_def)

section \<open>SetViewport\<close>





section \<open>Texture redirection\<close>




subsection \<open>C3: setting a state to its recorded value\<close>




subsection \<open>C4: the stencil reference and the depth-state hash\<close>

lemma SetStencilTest_ref:
  assumes "stencilTest s" "r \<noteq> stencilRef s"
  shows "SetStencilTest True (stencilTestMode s) (stencilPass s) (stencilFail s) (stencilZFail s)
           r (stencilCompareMask s) (stencilWriteMask s) s
         = s\<lparr>stencilRef := r,
              impl := (impl s)\<lparr>stencilRefDirty := True, depthStateDirty := True\<rparr>\<rparr>"
  using assms
  by (simp add: SetStencilTest_def stencil_enable_def stencil_mode_def stencil_pass_def
      stencil_fail_def stencil_zFail_def stencil_compareMask_def stencil_writeMask_def
      stencil_ref_def)

text \<open>
  Claim C4. Let the stencil test be enabled and both shaders bound, and let \<^verbatim>\<open>SetStencilTest\<close>
  be called with the recorded mode, operations and masks and another reference value. The
  reference is recorded and the packed depth-state hash of the settings is what it was, as is
  the stored hash. In the next \<^verbatim>\<open>PrepareDraw\<close> the local \<^verbatim>\<open>pipelineStateDirty\<close> is set
  all the same, so the cache is looked up (and a pipeline built on a miss) before the
  resources are committed. The packed hash is the same for any two states that agree on depth
  write, stencil enable, depth compare mode, both masks, stencil compare mode and the three
  stencil operations; and the stored hash after the update step is the stored hash before, or
  the packed hash of the settings when the depth state was dirty.
\<close>

theorem stencil_ref_forces_lookup:
  assumes "stencilTest s" and "r \<noteq> stencilRef s"
    and "vertexShader s \<noteq> None" and "pixelShader s \<noteq> None"
  defines "s1 \<equiv> SetStencilTest True (stencilTestMode s) (stencilPass s) (stencilFail s)
                   (stencilZFail s) r (stencilCompareMask s) (stencilWriteMask s) s"
  shows "stencilRef s1 = r \<and> newDepthStateHash s1 = newDepthStateHash s
     \<and> depthStateHash (impl s1) = depthStateHash (impl s)
     \<and> snd (PrepareDraw_state (PrepareDraw_renderTargets s1))
     \<and> PrepareDraw_resolve (PrepareDraw_renderTargets s1)
         = PrepareDraw_pipeline (fst (PrepareDraw_state (PrepareDraw_renderTargets s1)))
     \<and> PrepareDraw s1
         = (case PrepareDraw_pipeline (fst (PrepareDraw_state (PrepareDraw_renderTargets s1))) of
              Inl e \<Rightarrow> Inl e
            | Inr (pipelineStateChanged, s2) \<Rightarrow> PrepareDraw_commit pipelineStateChanged s2)
     \<and> (depthWrite a = depthWrite b \<and> stencilTest a = stencilTest b
          \<and> depthTestMode a = depthTestMode b
          \<and> stencilCompareMask a = stencilCompareMask b
          \<and> stencilWriteMask a = stencilWriteMask b
          \<and> stencilTestMode a = stencilTestMode b
          \<and> stencilFail a = stencilFail b \<and> stencilZFail a = stencilZFail b
          \<and> stencilPass a = stencilPass b
        \<longrightarrow> newDepthStateHash a = newDepthStateHash b)
     \<and> depthStateHash (impl (fst (PrepareDraw_state t)))
         = (if depthStateDirty (impl t) then newDepthStateHash t else depthStateHash (impl t))"
proof -
  have e: "s1 = s\<lparr>stencilRef := r,
              impl := (impl s)\<lparr>stencilRefDirty := True, depthStateDirty := True\<rparr>\<rparr>"
    unfolding s1_def using assms(1,2) by (rule SetStencilTest_ref)
  have r: "retargets s1 (PrepareDraw_renderTargets s1)"
    by (rule retargets_renderTargets)
  have d: "depthStateDirty (impl (PrepareDraw_renderTargets s1))"
    "stencilRefDirty (impl (PrepareDraw_renderTargets s1))"
    "vertexShader (PrepareDraw_renderTargets s1) \<noteq> None"
    "pixelShader (PrepareDraw_renderTargets s1) \<noteq> None"
    using assms(3,4) by (simp_all only: retargets_depth [OF r], simp_all add: e)
  have n: "snd (PrepareDraw_state (PrepareDraw_renderTargets s1))"
    by (simp add: PrepareDraw_state_snd d)
  have v: "PrepareDraw_resolve (PrepareDraw_renderTargets s1)
         = PrepareDraw_pipeline (fst (PrepareDraw_state (PrepareDraw_renderTargets s1)))"
    by (simp add: PrepareDraw_resolve_def PrepareDraw_anyDirty_def d n)
  have p: "PrepareDraw s1
         = (case PrepareDraw_pipeline (fst (PrepareDraw_state (PrepareDraw_renderTargets s1))) of
              Inl e \<Rightarrow> Inl e
            | Inr (pipelineStateChanged, s2) \<Rightarrow> PrepareDraw_commit pipelineStateChanged s2)"
    by (simp add: PrepareDraw_def Let_def d v)
  show ?thesis
    using n v p by (simp add: e newDepthStateHash_def PrepareDraw_state_fst)
qed

theorem stencil_ref_forces_lookup_witness:
  "stencilTest scene_stencil \<and> stencilRef scene_stencil \<noteq> 2
   \<and> vertexShader scene_stencil \<noteq> None \<and> pixelShader scene_stencil \<noteq> None
   \<and> stencilRef (SetStencilTest True CMP_ALWAYS OP_REF OP_KEEP OP_KEEP 2 255 255 scene_stencil) = 2
   \<and> newDepthStateHash
         (SetStencilTest True CMP_ALWAYS OP_REF OP_KEEP OP_KEEP 2 255 255 scene_stencil)
       = newDepthStateHash scene_stencil
   \<and> snd (PrepareDraw_state (PrepareDraw_renderTargets
         (SetStencilTest True CMP_ALWAYS OP_REF OP_KEEP OP_KEEP 2 255 255 scene_stencil)))"
proof -
  have h: "let s = scene_stencil in
      stencilTest s \<and> stencilRef s \<noteq> 2 \<and> vertexShader s \<noteq> None \<and> pixelShader s \<noteq> None
      \<and> stencilTestMode s = CMP_ALWAYS \<and> stencilPass s = OP_REF \<and> stencilFail s = OP_KEEP
      \<and> stencilZFail s = OP_KEEP \<and> stencilCompareMask s = 255 \<and> stencilWriteMask s = 255"
    by code_simp
  have "2 \<noteq> stencilRef scene_stencil"
    using h by (auto simp add: Let_def)
  with h show ?thesis
    using stencil_ref_forces_lookup [of scene_stencil 2] by (simp add: Let_def)
qed

section \<open>What the state hashes determine\<close>

lemma bit_upper:
  fixes x :: "32 word"
  assumes "unat x < 2 ^ k" and "bit x n"
  shows "n < k"
proof (rule ccontr)
  assume "\<not> n < k"
  then have "(2 :: nat) ^ k \<le> 2 ^ n"
    by (simp add: power_increasing)
  with assms(1) have "unat x < 2 ^ n"
    by (rule less_le_trans)
  then have "\<not> bit (unat x) n"
    by (simp add: bit_iff_odd)
  with assms(2) show False
    by (simp add: bit_unsigned_iff)
qed

lemma mask_8191: "(8191 :: 32 word) = mask 13" "(255 :: 32 word) = mask 8"
  by (simp_all add: mask_eq_exp_minus_1)

lemma BlendMode_int_less: "unat (BlendMode_int m) < 2 ^ 4"
  by (cases m) simp_all

lemma CompareMode_int_less: "unat (CompareMode_int m) < 2 ^ 3"
  by (cases m) simp_all

lemma CullMode_int_less: "unat (CullMode_int m) < 2 ^ 2"
  by (cases m) simp_all

lemma FillMode_int_less: "unat (FillMode_int m) < 2 ^ 2"
  by (cases m) simp_all

lemma BlendMode_int_inj: "BlendMode_int a = BlendMode_int b \<Longrightarrow> a = b"
  by (cases a; cases b) simp_all

lemma CompareMode_int_inj: "CompareMode_int a = CompareMode_int b \<Longrightarrow> a = b"
  by (cases a; cases b) simp_all

lemma CullMode_int_inj: "CullMode_int a = CullMode_int b \<Longrightarrow> a = b"
  by (cases a; cases b) simp_all

lemma FillMode_int_inj: "FillMode_int a = FillMode_int b \<Longrightarrow> a = b"
  by (cases a; cases b) simp_all

lemma StencilOp_int_inj: "StencilOp_int a = StencilOp_int b \<Longrightarrow> a = b"
  by (cases a; cases b) simp_all

lemma StencilOp_unat_less: "unat (StencilOp_int m) < 5"
  by (cases m) simp_all

lemma stencilOps_unat:
  "unat (stencilOps s) = unat (StencilOp_int (stencilFail s))
       + unat (StencilOp_int (stencilZFail s)) * 5 + unat (StencilOp_int (stencilPass s)) * 25"
  unfolding stencilOps_def
  by (cases "stencilFail s"; cases "stencilZFail s"; cases "stencilPass s") simp_all

lemma stencilOps_less: "unat (stencilOps s) < 2 ^ 7"
  using StencilOp_unat_less [of "stencilFail s"] StencilOp_unat_less [of "stencilZFail s"]
    StencilOp_unat_less [of "stencilPass s"]
  by (simp add: stencilOps_unat)

lemma digit:
  fixes x w :: nat
  assumes "x < 5"
  shows "(x + 5 * w) mod 5 = x" and "(x + 5 * w) div 5 = w"
  using assms by simp_all

lemma base5:
  fixes x y z :: nat
  assumes "x < 5" "y < 5"
  shows "(x + y * 5 + z * 25) mod 5 = x" and "(x + y * 5 + z * 25) div 5 mod 5 = y"
    and "(x + y * 5 + z * 25) div 25 = z"
proof -
  have e: "x + y * 5 + z * 25 = x + 5 * (y + 5 * z)" by simp
  have f: "(x + y * 5 + z * 25) div 25 = (x + y * 5 + z * 25) div 5 div 5"
    by (simp add: div_mult2_eq)
  show "(x + y * 5 + z * 25) mod 5 = x"
    by (simp only: e digit [OF assms(1)])
  show "(x + y * 5 + z * 25) div 5 mod 5 = y"
    by (simp only: e digit [OF assms(1)] digit [OF assms(2)])
  show "(x + y * 5 + z * 25) div 25 = z"
    by (simp only: f) (simp only: e digit [OF assms(1)] digit [OF assms(2)])
qed

lemma stencilOps_parts:
  "unat (StencilOp_int (stencilFail s)) = unat (stencilOps s) mod 5"
  "unat (StencilOp_int (stencilZFail s)) = unat (stencilOps s) div 5 mod 5"
  "unat (StencilOp_int (stencilPass s)) = unat (stencilOps s) div 25"
  unfolding stencilOps_unat
  by (simp_all only: base5 [OF StencilOp_unat_less StencilOp_unat_less])

lemma stencilOps_inj:
  assumes "stencilOps a = stencilOps b"
  shows "stencilFail a = stencilFail b \<and> stencilZFail a = stencilZFail b
         \<and> stencilPass a = stencilPass b"
proof -
  have "StencilOp_int (stencilFail a) = StencilOp_int (stencilFail b)"
    "StencilOp_int (stencilZFail a) = StencilOp_int (stencilZFail b)"
    "StencilOp_int (stencilPass a) = StencilOp_int (stencilPass b)"
    by (simp_all only: word_unat_eq_iff stencilOps_parts assms)
  then show ?thesis
    by (blast dest: StencilOp_int_inj)
qed

lemmas enum_bits =
  bit_upper [OF BlendMode_int_less] bit_upper [OF CompareMode_int_less]
  bit_upper [OF CullMode_int_less] bit_upper [OF FillMode_int_less]
  bit_upper [OF stencilOps_less]

lemma field_range:
  fixes n :: nat
  shows "(5 \<le> n \<and> n < 32 \<and> n - 5 < 8) = (5 \<le> n \<and> n < 13)"
    and "(13 \<le> n \<and> n < 32 \<and> n - 13 < 8) = (13 \<le> n \<and> n < 21)"
    and "(6 \<le> n \<and> n < 32 \<and> n - 6 < 13) = (6 \<le> n \<and> n < 19)"
    and "(19 \<le> n \<and> n < 32 \<and> n - 19 < 13) = (19 \<le> n \<and> n < 32)"
  by arith+

lemma newBlendStateHash_bits:
  "bit (newBlendStateHash s) n \<longleftrightarrow>
     (n = 0 \<and> colorWrite s) \<or> (n = 1 \<and> alphaToCoverage s)
     \<or> (2 \<le> n \<and> n < 32 \<and> bit (BlendMode_int (blendMode s)) (n - 2))"
  by (simp add: newBlendStateHash_def bit_simps cong: rev_conj_cong)

lemma newDepthStateHash_bits:
  "bit (newDepthStateHash s) n \<longleftrightarrow>
     (n = 0 \<and> depthWrite s) \<or> (n = 1 \<and> stencilTest s)
     \<or> (2 \<le> n \<and> n < 32 \<and> bit (CompareMode_int (depthTestMode s)) (n - 2))
     \<or> (bit (stencilCompareMask s) (n - 5) \<and> 5 \<le> n \<and> n < 13)
     \<or> (bit (stencilWriteMask s) (n - 13) \<and> 13 \<le> n \<and> n < 21)
     \<or> (21 \<le> n \<and> n < 32 \<and> bit (CompareMode_int (stencilTestMode s)) (n - 21))
     \<or> (24 \<le> n \<and> n < 32 \<and> bit (stencilOps s) (n - 24))"
  by (simp add: newDepthStateHash_def stencilOps_def [symmetric] mask_8191 bit_simps field_range
      cong: rev_conj_cong)

lemma newRasterizerStateHash_bits:
  "bit (newRasterizerStateHash s) n \<longleftrightarrow>
     (n = 0 \<and> scissorTest s) \<or> (n = 1 \<and> lineAntiAlias s)
     \<or> (2 \<le> n \<and> n < 32 \<and> bit (FillMode_int (fillMode s)) (n - 2))
     \<or> (4 \<le> n \<and> n < 32 \<and> bit (CullMode_int (cullMode s)) (n - 4))
     \<or> (bit (word_of_int (scaledDepthBias s) :: 32 word) (n - 6) \<and> 6 \<le> n \<and> n < 19)
     \<or> (bit (word_of_int (float_to_int (slopeScaledDepthBias s * 100)) :: 32 word) (n - 19)
         \<and> 19 \<le> n \<and> n < 32)"
  by (simp add: newRasterizerStateHash_def mask_8191 bit_simps field_range cong: rev_conj_cong)

lemma blend_fields:
  "colorWrite s = bit (newBlendStateHash s) 0"
  "alphaToCoverage s = bit (newBlendStateHash s) 1"
  "BlendMode_int (blendMode s) = take_bit 4 (drop_bit 2 (newBlendStateHash s))"
proof -
  show "colorWrite s = bit (newBlendStateHash s) 0"
    by (simp add: newBlendStateHash_bits)
  show "alphaToCoverage s = bit (newBlendStateHash s) 1"
    by (simp add: newBlendStateHash_bits)
  show "BlendMode_int (blendMode s) = take_bit 4 (drop_bit 2 (newBlendStateHash s))"
    by (rule bit_word_eqI)
      (auto simp add: bit_take_bit_iff bit_drop_bit_eq newBlendStateHash_bits dest: enum_bits)
qed

lemma depth_fields:
  "depthWrite s = bit (newDepthStateHash s) 0"
  "stencilTest s = bit (newDepthStateHash s) 1"
  "CompareMode_int (depthTestMode s) = take_bit 3 (drop_bit 2 (newDepthStateHash s))"
  "take_bit 8 (stencilCompareMask s) = take_bit 8 (drop_bit 5 (newDepthStateHash s))"
  "take_bit 8 (stencilWriteMask s) = take_bit 8 (drop_bit 13 (newDepthStateHash s))"
  "CompareMode_int (stencilTestMode s) = take_bit 3 (drop_bit 21 (newDepthStateHash s))"
  "stencilOps s = drop_bit 24 (newDepthStateHash s)"
proof -
  show "depthWrite s = bit (newDepthStateHash s) 0"
    by (simp add: newDepthStateHash_bits)
  show "stencilTest s = bit (newDepthStateHash s) 1"
    by (simp add: newDepthStateHash_bits)
  show "CompareMode_int (depthTestMode s) = take_bit 3 (drop_bit 2 (newDepthStateHash s))"
    by (rule bit_word_eqI)
      (auto simp add: bit_take_bit_iff bit_drop_bit_eq newDepthStateHash_bits dest: enum_bits)
  show "take_bit 8 (stencilCompareMask s) = take_bit 8 (drop_bit 5 (newDepthStateHash s))"
    by (rule bit_word_eqI)
      (auto simp add: bit_take_bit_iff bit_drop_bit_eq newDepthStateHash_bits dest: enum_bits)
  show "take_bit 8 (stencilWriteMask s) = take_bit 8 (drop_bit 13 (newDepthStateHash s))"
    by (rule bit_word_eqI)
      (auto simp add: bit_take_bit_iff bit_drop_bit_eq newDepthStateHash_bits dest: enum_bits)
  show "CompareMode_int (stencilTestMode s) = take_bit 3 (drop_bit 21 (newDepthStateHash s))"
    by (rule bit_word_eqI)
      (auto simp add: bit_take_bit_iff bit_drop_bit_eq newDepthStateHash_bits dest: enum_bits)
  show "stencilOps s = drop_bit 24 (newDepthStateHash s)"
    by (rule bit_word_eqI)
      (auto simp add: bit_take_bit_iff bit_drop_bit_eq newDepthStateHash_bits dest: enum_bits)
qed

lemma rasterizer_fields:
  "scissorTest s = bit (newRasterizerStateHash s) 0"
  "lineAntiAlias s = bit (newRasterizerStateHash s) 1"
  "FillMode_int (fillMode s) = take_bit 2 (drop_bit 2 (newRasterizerStateHash s))"
  "CullMode_int (cullMode s) = take_bit 2 (drop_bit 4 (newRasterizerStateHash s))"
  "take_bit 13 (word_of_int (scaledDepthBias s))
     = take_bit 13 (drop_bit 6 (newRasterizerStateHash s))"
  "take_bit 13 (word_of_int (float_to_int (slopeScaledDepthBias s * 100)))
     = drop_bit 19 (newRasterizerStateHash s)"
proof -
  show "scissorTest s = bit (newRasterizerStateHash s) 0"
    by (simp add: newRasterizerStateHash_bits)
  show "lineAntiAlias s = bit (newRasterizerStateHash s) 1"
    by (simp add: newRasterizerStateHash_bits)
  show "FillMode_int (fillMode s) = take_bit 2 (drop_bit 2 (newRasterizerStateHash s))"
    by (rule bit_word_eqI)
      (auto simp add: bit_take_bit_iff bit_drop_bit_eq newRasterizerStateHash_bits
        dest: enum_bits)
  show "CullMode_int (cullMode s) = take_bit 2 (drop_bit 4 (newRasterizerStateHash s))"
    by (rule bit_word_eqI)
      (auto simp add: bit_take_bit_iff bit_drop_bit_eq newRasterizerStateHash_bits
        dest: enum_bits)
  show "take_bit 13 (word_of_int (scaledDepthBias s))
     = take_bit 13 (drop_bit 6 (newRasterizerStateHash s))"
    by (rule bit_word_eqI)
      (auto simp add: bit_take_bit_iff bit_drop_bit_eq newRasterizerStateHash_bits
        dest: enum_bits)
  show "take_bit 13 (word_of_int (float_to_int (slopeScaledDepthBias s * 100)))
     = drop_bit 19 (newRasterizerStateHash s)"
    by (rule bit_word_eqI)
      (auto simp add: bit_take_bit_iff bit_drop_bit_eq newRasterizerStateHash_bits
        dest: enum_bits)
qed

lemma newBlendStateHash_iff:
  "newBlendStateHash a = newBlendStateHash b \<longleftrightarrow>
     colorWrite a = colorWrite b \<and> alphaToCoverage a = alphaToCoverage b
     \<and> blendMode a = blendMode b"
proof
  assume h: "newBlendStateHash a = newBlendStateHash b"
  have "colorWrite a = colorWrite b" "alphaToCoverage a = alphaToCoverage b"
    "BlendMode_int (blendMode a) = BlendMode_int (blendMode b)"
    by (simp_all only: blend_fields h)
  then show "colorWrite a = colorWrite b \<and> alphaToCoverage a = alphaToCoverage b
     \<and> blendMode a = blendMode b"
    by (blast dest: BlendMode_int_inj)
next
  assume "colorWrite a = colorWrite b \<and> alphaToCoverage a = alphaToCoverage b
     \<and> blendMode a = blendMode b"
  then show "newBlendStateHash a = newBlendStateHash b"
    by (simp add: newBlendStateHash_def)
qed

lemma newDepthStateHash_iff:
  "newDepthStateHash a = newDepthStateHash b \<longleftrightarrow>
     depthWrite a = depthWrite b \<and> stencilTest a = stencilTest b
     \<and> depthTestMode a = depthTestMode b
     \<and> stencilCompareMask a AND 0xff = stencilCompareMask b AND 0xff
     \<and> stencilWriteMask a AND 0xff = stencilWriteMask b AND 0xff
     \<and> stencilTestMode a = stencilTestMode b
     \<and> stencilFail a = stencilFail b \<and> stencilZFail a = stencilZFail b
     \<and> stencilPass a = stencilPass b"
proof
  assume h: "newDepthStateHash a = newDepthStateHash b"
  have "depthWrite a = depthWrite b" "stencilTest a = stencilTest b"
    "CompareMode_int (depthTestMode a) = CompareMode_int (depthTestMode b)"
    "take_bit 8 (stencilCompareMask a) = take_bit 8 (stencilCompareMask b)"
    "take_bit 8 (stencilWriteMask a) = take_bit 8 (stencilWriteMask b)"
    "CompareMode_int (stencilTestMode a) = CompareMode_int (stencilTestMode b)"
    "stencilOps a = stencilOps b"
    by (simp_all only: depth_fields h)
  then show "depthWrite a = depthWrite b \<and> stencilTest a = stencilTest b
     \<and> depthTestMode a = depthTestMode b
     \<and> stencilCompareMask a AND 0xff = stencilCompareMask b AND 0xff
     \<and> stencilWriteMask a AND 0xff = stencilWriteMask b AND 0xff
     \<and> stencilTestMode a = stencilTestMode b
     \<and> stencilFail a = stencilFail b \<and> stencilZFail a = stencilZFail b
     \<and> stencilPass a = stencilPass b"
    by (auto dest: CompareMode_int_inj stencilOps_inj simp add: mask_8191 take_bit_eq_mask)
next
  assume "depthWrite a = depthWrite b \<and> stencilTest a = stencilTest b
     \<and> depthTestMode a = depthTestMode b
     \<and> stencilCompareMask a AND 0xff = stencilCompareMask b AND 0xff
     \<and> stencilWriteMask a AND 0xff = stencilWriteMask b AND 0xff
     \<and> stencilTestMode a = stencilTestMode b
     \<and> stencilFail a = stencilFail b \<and> stencilZFail a = stencilZFail b
     \<and> stencilPass a = stencilPass b"
  then show "newDepthStateHash a = newDepthStateHash b"
    by (simp add: newDepthStateHash_def)
qed

lemma newRasterizerStateHash_iff:
  "newRasterizerStateHash a = newRasterizerStateHash b \<longleftrightarrow>
     scissorTest a = scissorTest b \<and> lineAntiAlias a = lineAntiAlias b
     \<and> fillMode a = fillMode b \<and> cullMode a = cullMode b
     \<and> (word_of_int (scaledDepthBias a) :: 32 word) AND 0x1fff
         = word_of_int (scaledDepthBias b) AND 0x1fff
     \<and> (word_of_int (float_to_int (slopeScaledDepthBias a * 100)) :: 32 word) AND 0x1fff
         = word_of_int (float_to_int (slopeScaledDepthBias b * 100)) AND 0x1fff"
proof
  assume h: "newRasterizerStateHash a = newRasterizerStateHash b"
  have "scissorTest a = scissorTest b" "lineAntiAlias a = lineAntiAlias b"
    "FillMode_int (fillMode a) = FillMode_int (fillMode b)"
    "CullMode_int (cullMode a) = CullMode_int (cullMode b)"
    "(take_bit 13 (word_of_int (scaledDepthBias a)) :: 32 word)
       = take_bit 13 (word_of_int (scaledDepthBias b))"
    "(take_bit 13 (word_of_int (float_to_int (slopeScaledDepthBias a * 100))) :: 32 word)
       = take_bit 13 (word_of_int (float_to_int (slopeScaledDepthBias b * 100)))"
    by (simp_all only: rasterizer_fields h)
  then show "scissorTest a = scissorTest b \<and> lineAntiAlias a = lineAntiAlias b
     \<and> fillMode a = fillMode b \<and> cullMode a = cullMode b
     \<and> (word_of_int (scaledDepthBias a) :: 32 word) AND 0x1fff
         = word_of_int (scaledDepthBias b) AND 0x1fff
     \<and> (word_of_int (float_to_int (slopeScaledDepthBias a * 100)) :: 32 word) AND 0x1fff
         = word_of_int (float_to_int (slopeScaledDepthBias b * 100)) AND 0x1fff"
    by (auto dest: FillMode_int_inj CullMode_int_inj simp add: mask_8191 take_bit_eq_mask)
next
  assume "scissorTest a = scissorTest b \<and> lineAntiAlias a = lineAntiAlias b
     \<and> fillMode a = fillMode b \<and> cullMode a = cullMode b
     \<and> (word_of_int (scaledDepthBias a) :: 32 word) AND 0x1fff
         = word_of_int (scaledDepthBias b) AND 0x1fff
     \<and> (word_of_int (float_to_int (slopeScaledDepthBias a * 100)) :: 32 word) AND 0x1fff
         = word_of_int (float_to_int (slopeScaledDepthBias b * 100)) AND 0x1fff"
  then show "newRasterizerStateHash a = newRasterizerStateHash b"
    by (simp add: newRasterizerStateHash_def)
qed

section \<open>Cache key determinism\<close>

text \<open>
  Claim C1. Take any state reached from the constructed one by calls of the setters and the
  draw functions, and a draw call that gets past its guard and returns; then any further
  calls, and a second such draw. If the composite key (vertex shader, pixel shader, blend,
  depth and rasterizer hash, vertex-declaration hash, primitive type) after the second draw
  is the key after the first, then the current pipeline after the second draw is the
  pipeline of the first, it is the one the cache holds under the key, and the second draw
  built nothing: the cache and the counter of pipelines built are as before it. At every
  such state the cache has exactly as many keys as pipelines were built, so none was built
  twice for a key.
\<close>

theorem cache_key_determinism:
  assumes "constructed s0" and "run cs0 s0 = Inr a"
    and "issued d1 a" and "exec d1 a = Inr a'"
    and "run cs a' = Inr b"
    and "issued d2 b" and "exec d2 b = Inr b'"
    and "pipelineKey b' = pipelineKey a'"
  shows "currentPipelineState (impl b') = currentPipelineState (impl a')
     \<and> currentPipelineState (impl b') \<noteq> None
     \<and> pipelineStates (impl b') (pipelineKey b') = pipelineStates (impl a') (pipelineKey a')
     \<and> pipelineStates (impl b') = pipelineStates (impl b)
     \<and> PrepareDraw_count b' = PrepareDraw_count b
     \<and> finite (dom (pipelineStates (impl b')))
     \<and> int (card (dom (pipelineStates (impl b')))) = PrepareDraw_count b'"
proof -
  note i0 = cacheInvariant_constructed [OF assms(1)]
  from run_invariant [OF assms(2) i0] have ia: "cacheInvariant a" by simp
  note da = exec_issued [OF assms(4,3) ia]
  note ea = exec_invariant [OF assms(4) ia]
  from run_invariant [OF assms(5) ea(1)] have ib: "cacheInvariant b"
    and mb: "pipelineStates (impl a') \<subseteq>\<^sub>m pipelineStates (impl b)" by simp_all
  note db = exec_issued [OF assms(7,6) ib]
  note eb = exec_invariant [OF assms(7) ib]
  from da(2) obtain e where
    e: "pipelineStates (impl a') (pipelineKey a') = Some e"
      "currentPipelineState (impl a') = pipelineState e"
    by (auto simp add: resolved_def split: option.splits)
  from e(1) mb have kb: "pipelineStates (impl b) (pipelineKey a') = Some e"
    by (auto simp add: map_le_def domIff dest!: bspec [where x = "pipelineKey a'"])
  with eb(2) have kb': "pipelineStates (impl b') (pipelineKey b') = Some e"
    by (auto simp add: map_le_def domIff assms(8) dest!: bspec [where x = "pipelineKey a'"])
  with db(2) have c: "currentPipelineState (impl b') = pipelineState e"
    by (simp add: resolved_def)
  from kb db(3) have same: "pipelineStates (impl b') = pipelineStates (impl b)"
    "PrepareDraw_count b' = PrepareDraw_count b"
    by (auto simp add: built_def assms(8) domIff)
  from eb(1) have "finite (dom (pipelineStates (impl b')))"
    "int (card (dom (pipelineStates (impl b')))) = PrepareDraw_count b'"
    by (simp_all add: cacheInvariant_def)
  with c e kb' same db(4) show ?thesis
    by simp
qed

theorem cache_key_determinism_witness:
  "constructed scene
   \<and> run [CallSetShaders (Some 1) (Some 2), CallSetVertexBuffer (Some 1),
           CallSetIndexBuffer (Some 1)] scene = Inr scene_bound
   \<and> issued (CallDraw TRIANGLE_LIST 0 3) scene_bound
   \<and> exec (CallDraw TRIANGLE_LIST 0 3) scene_bound = Inr scene_drawn
   \<and> run [CallSetCullMode CULL_NONE, CallSetCullMode CULL_CCW] scene_drawn = Inr scene_recull
   \<and> issued (CallDraw TRIANGLE_LIST 0 3) scene_recull
   \<and> exec (CallDraw TRIANGLE_LIST 0 3) scene_recull = Inr scene_redrawn
   \<and> pipelineKey scene_redrawn = pipelineKey scene_drawn
   \<and> currentPipelineState (impl scene_redrawn) = currentPipelineState (impl scene_drawn)
   \<and> currentPipelineState (impl scene_redrawn) \<noteq> None
   \<and> PrepareDraw_count scene_redrawn = PrepareDraw_count scene_recull
   \<and> PrepareDraw_count scene_redrawn = 1
   \<and> int (card (dom (pipelineStates (impl scene_redrawn)))) = 1"
proof -
  have c0: "constructed scene"
    by (simp add: constructed_def scene_def ResetCachedState_def scene_fields_def scene_impl_def)
  have r0: "run [CallSetShaders (Some 1) (Some 2), CallSetVertexBuffer (Some 1),
                 CallSetIndexBuffer (Some 1)] scene = Inr scene_bound"
    by (simp add: scene_bound_def)
  have ev: "shaderProgram (impl scene_bound) \<noteq> None
      \<and> \<not> isl (Draw TRIANGLE_LIST 0 3 scene_bound)
      \<and> shaderProgram (impl scene_recull) \<noteq> None
      \<and> \<not> isl (Draw TRIANGLE_LIST 0 3 scene_recull)
      \<and> pipelineKey scene_redrawn = pipelineKey scene_drawn
      \<and> PrepareDraw_count scene_redrawn = 1"
    by code_simp
  have i1: "issued (CallDraw TRIANGLE_LIST 0 3) scene_bound"
    and i2: "issued (CallDraw TRIANGLE_LIST 0 3) scene_recull"
    using ev by simp_all
  have e1: "exec (CallDraw TRIANGLE_LIST 0 3) scene_bound = Inr scene_drawn"
    using ev projr_Inr [of "Draw TRIANGLE_LIST 0 3 scene_bound"] by (simp add: scene_drawn_def)
  have e2: "exec (CallDraw TRIANGLE_LIST 0 3) scene_recull = Inr scene_redrawn"
    using ev projr_Inr [of "Draw TRIANGLE_LIST 0 3 scene_recull"] by (simp add: scene_redrawn_def)
  have r1: "run [CallSetCullMode CULL_NONE, CallSetCullMode CULL_CCW] scene_drawn
              = Inr scene_recull"
    by (simp add: scene_recull_def)
  have k: "pipelineKey scene_redrawn = pipelineKey scene_drawn"
    using ev by simp
  note T = cache_key_determinism [OF c0 r0 i1 e1 r1 i2 e2 k]
  have n: "PrepareDraw_count scene_redrawn = 1"
    using ev by simp
  from T have t1: "currentPipelineState (impl scene_redrawn)
                     = currentPipelineState (impl scene_drawn)"
    by (rule conjunct1)
  from T have t2: "currentPipelineState (impl scene_redrawn) \<noteq> None"
    by blast
  from T have t5: "PrepareDraw_count scene_redrawn = PrepareDraw_count scene_recull"
    by blast
  from T have "int (card (dom (pipelineStates (impl scene_redrawn))))
                 = PrepareDraw_count scene_redrawn"
    by blast
  then have t7: "int (card (dom (pipelineStates (impl scene_redrawn)))) = 1"
    by (simp only: n)
  show ?thesis
    by (intro conjI c0 r0 i1 e1 r1 i2 e2 k t1 t2 t5 n t7)
qed

section \<open>Cache key sensitivity\<close>

text \<open>
  Claim C2, as the code has it. The blend hash is the same for two states exactly when they
  agree on colour write, alpha-to-coverage and blend mode; the depth hash exactly when they
  agree on depth write, stencil enable, both compare modes, the three stencil operations and
  the low 8 bits of each stencil mask; the rasterizer hash exactly when they agree on
  scissor enable, line anti-aliasing, fill mode, cull mode and the low 13 bits of the
  scaled constant depth bias and of the slope-scaled bias times 100.

  Let a state be reached from the constructed one whose stored rasterizer hash is the hash
  of its settings, let the cull mode be set to another value and a draw call get past its
  guard and return. Then the stored rasterizer hash and with it the composite key differ
  from what they were; the cache holds the new key; if it held it before, nothing was built
  and the cache is unchanged; if not, exactly one pipeline was built and the new key is the
  one key the cache has gained.
\<close>

theorem cache_key_sensitivity:
  assumes "constructed s0" and "run cs s0 = Inr s"
    and "rasterizerStateHash (impl s) = newRasterizerStateHash s"
    and "mode \<noteq> cullMode s"
    and "issued d (SetCullMode mode s)" and "exec d (SetCullMode mode s) = Inr s'"
  shows "(newBlendStateHash a = newBlendStateHash b \<longleftrightarrow>
            colorWrite a = colorWrite b \<and> alphaToCoverage a = alphaToCoverage b
            \<and> blendMode a = blendMode b)
     \<and> (newDepthStateHash a = newDepthStateHash b \<longleftrightarrow>
            depthWrite a = depthWrite b \<and> stencilTest a = stencilTest b
            \<and> depthTestMode a = depthTestMode b
            \<and> stencilCompareMask a AND 0xff = stencilCompareMask b AND 0xff
            \<and> stencilWriteMask a AND 0xff = stencilWriteMask b AND 0xff
            \<and> stencilTestMode a = stencilTestMode b
            \<and> stencilFail a = stencilFail b \<and> stencilZFail a = stencilZFail b
            \<and> stencilPass a = stencilPass b)
     \<and> (newRasterizerStateHash a = newRasterizerStateHash b \<longleftrightarrow>
            scissorTest a = scissorTest b \<and> lineAntiAlias a = lineAntiAlias b
            \<and> fillMode a = fillMode b \<and> cullMode a = cullMode b
            \<and> (word_of_int (scaledDepthBias a) :: 32 word) AND 0x1fff
                = word_of_int (scaledDepthBias b) AND 0x1fff
            \<and> (word_of_int (float_to_int (slopeScaledDepthBias a * 100)) :: 32 word) AND 0x1fff
                = word_of_int (float_to_int (slopeScaledDepthBias b * 100)) AND 0x1fff)
     \<and> rasterizerStateHash (impl s') \<noteq> rasterizerStateHash (impl s)
     \<and> pipelineKey s' \<noteq> pipelineKey s
     \<and> pipelineStates (impl s') (pipelineKey s') \<noteq> None
     \<and> (pipelineKey s' \<in> dom (pipelineStates (impl s)) \<longrightarrow>
            PrepareDraw_count s' = PrepareDraw_count s
            \<and> pipelineStates (impl s') = pipelineStates (impl s))
     \<and> (pipelineKey s' \<notin> dom (pipelineStates (impl s)) \<longrightarrow>
            PrepareDraw_count s' = PrepareDraw_count s + 1
            \<and> dom (pipelineStates (impl s'))
                = insert (pipelineKey s') (dom (pipelineStates (impl s))))"
proof -
  let ?t = "SetCullMode mode s"
  have t: "?t = s\<lparr>cullMode := mode, impl := (impl s)\<lparr>rasterizerStateDirty := True\<rparr>\<rparr>"
    using assms(4) by (simp add: SetCullMode_def)
  note i0 = cacheInvariant_constructed [OF assms(1)]
  from run_invariant [OF assms(2) i0] have i: "cacheInvariant s" by simp
  have w: "pipelineView ?t = pipelineView s" by simp
  have it: "cacheInvariant ?t"
    using i by (simp add: cacheInvariant_cong [OF w])
  note x = exec_issued [OF assms(6,5) it]
  have "rasterizerStateDirty (impl ?t)" "cullMode ?t = mode"
    by (simp_all add: t)
  with exec_issued_rasterizer [OF assms(6,5) it] obtain u where
    u: "rasterizerStateHash (impl s') = newRasterizerStateHash u" "cullMode u = mode"
    by auto
  have h: "rasterizerStateHash (impl s') \<noteq> rasterizerStateHash (impl s)"
    using assms(3,4) u by (simp add: newRasterizerStateHash_iff)
  then have k: "pipelineKey s' \<noteq> pipelineKey s"
    by (auto simp add: pipelineKey_def)
  from x(2) have r: "pipelineStates (impl s') (pipelineKey s') \<noteq> None"
    by (simp add: resolved_def split: option.splits)
  have c: "pipelineStates (impl ?t) = pipelineStates (impl s)"
    "PrepareDraw_count ?t = PrepareDraw_count s"
    by (simp_all add: pipelineView_cache [OF w])
  have hit: "PrepareDraw_count s' = PrepareDraw_count s
      \<and> pipelineStates (impl s') = pipelineStates (impl s)"
    if "pipelineKey s' \<in> dom (pipelineStates (impl s))"
    using x(3) that unfolding built_def c by auto
  have miss: "PrepareDraw_count s' = PrepareDraw_count s + 1
      \<and> dom (pipelineStates (impl s')) = insert (pipelineKey s') (dom (pipelineStates (impl s)))"
    if "pipelineKey s' \<notin> dom (pipelineStates (impl s))"
    using x(3) that r unfolding built_def c by (auto simp add: domIff)
  from h k r hit miss show ?thesis
    by (simp only: newBlendStateHash_iff newDepthStateHash_iff newRasterizerStateHash_iff)
      blast
qed

theorem cache_key_sensitivity_witness:
  "constructed scene
   \<and> run [CallSetShaders (Some 1) (Some 2), CallSetVertexBuffer (Some 1),
           CallSetIndexBuffer (Some 1), CallDraw TRIANGLE_LIST 0 3] scene = Inr scene_drawn
   \<and> rasterizerStateHash (impl scene_drawn) = newRasterizerStateHash scene_drawn
   \<and> CULL_NONE \<noteq> cullMode scene_drawn
   \<and> issued (CallDraw TRIANGLE_LIST 0 3) (SetCullMode CULL_NONE scene_drawn)
   \<and> exec (CallDraw TRIANGLE_LIST 0 3) (SetCullMode CULL_NONE scene_drawn) = Inr scene_culled
   \<and> pipelineKey scene_culled \<notin> dom (pipelineStates (impl scene_drawn))
   \<and> pipelineKey scene_culled \<noteq> pipelineKey scene_drawn
   \<and> PrepareDraw_count scene_drawn = 1
   \<and> PrepareDraw_count scene_culled = 2"
proof -
  have c0: "constructed scene"
    by (simp add: constructed_def scene_def ResetCachedState_def scene_fields_def scene_impl_def)
  have ev: "\<not> isl (Draw TRIANGLE_LIST 0 3 scene_bound)
      \<and> rasterizerStateHash (impl scene_drawn) = newRasterizerStateHash scene_drawn
      \<and> cullMode scene_drawn = CULL_CCW
      \<and> shaderProgram (impl (SetCullMode CULL_NONE scene_drawn)) \<noteq> None
      \<and> \<not> isl (Draw TRIANGLE_LIST 0 3 (SetCullMode CULL_NONE scene_drawn))
      \<and> pipelineStates (impl scene_drawn) (pipelineKey scene_culled) = None
      \<and> PrepareDraw_count scene_drawn = 1"
    by code_simp
  have e1: "Draw TRIANGLE_LIST 0 3 scene_bound = Inr scene_drawn"
    using ev projr_Inr [of "Draw TRIANGLE_LIST 0 3 scene_bound"] by (simp add: scene_drawn_def)
  have r0: "run [CallSetShaders (Some 1) (Some 2), CallSetVertexBuffer (Some 1),
                 CallSetIndexBuffer (Some 1), CallDraw TRIANGLE_LIST 0 3] scene
              = Inr scene_drawn"
    using e1 by (simp add: scene_bound_def)
  have h: "rasterizerStateHash (impl scene_drawn) = newRasterizerStateHash scene_drawn"
    using ev by simp
  have m: "CULL_NONE \<noteq> cullMode scene_drawn"
    using ev by simp
  have i: "issued (CallDraw TRIANGLE_LIST 0 3) (SetCullMode CULL_NONE scene_drawn)"
    using ev by simp
  have e2: "exec (CallDraw TRIANGLE_LIST 0 3) (SetCullMode CULL_NONE scene_drawn)
              = Inr scene_culled"
    using ev projr_Inr [of "Draw TRIANGLE_LIST 0 3 (SetCullMode CULL_NONE scene_drawn)"]
    by (simp add: scene_culled_def)
  have n: "pipelineKey scene_culled \<notin> dom (pipelineStates (impl scene_drawn))"
    using ev by (simp add: domIff)
  have c1: "PrepareDraw_count scene_drawn = 1"
    using ev by simp
  note T = cache_key_sensitivity [OF c0 r0 h m i e2]
  from T have k: "pipelineKey scene_culled \<noteq> pipelineKey scene_drawn"
    by blast
  from T n have "PrepareDraw_count scene_culled = PrepareDraw_count scene_drawn + 1"
    by blast
  then have c2: "PrepareDraw_count scene_culled = 2"
    by (simp add: c1)
  show ?thesis
    by (intro conjI c0 r0 h m i e2 n k c1 c2)
qed

text \<open>
  A stencil mask that changes above its low 8 bits leaves the key as it was: after a draw
  with the compare mask 255 the mask is set to 511; the depth state is dirty, the next draw
  goes through with the same key and builds no pipeline.
\<close>

theorem stencil_mask_counterexample:
  "stencilCompareMask scene_stencil = 255 \<and> stencilCompareMask scene_stencil_masked = 511
   \<and> depthStateDirty (impl scene_stencil_masked)
   \<and> \<not> isl (Draw TRIANGLE_LIST 0 3 scene_stencil_masked)
   \<and> pipelineKey (projr (Draw TRIANGLE_LIST 0 3 scene_stencil_masked))
       = pipelineKey scene_stencil
   \<and> PrepareDraw_count (projr (Draw TRIANGLE_LIST 0 3 scene_stencil_masked))
       = PrepareDraw_count scene_stencil
   \<and> last (calls (device (impl (projr (Draw TRIANGLE_LIST 0 3 scene_stencil_masked)))))
       = DevDraw 3 0"
proof -
  have "let s = scene_stencil; t = scene_stencil_masked; r = Draw TRIANGLE_LIST 0 3 t
        in stencilCompareMask s = 255 \<and> stencilCompareMask t = 511
           \<and> depthStateDirty (impl t) \<and> \<not> isl r
           \<and> pipelineKey (projr r) = pipelineKey s
           \<and> PrepareDraw_count (projr r) = PrepareDraw_count s
           \<and> last (calls (device (impl (projr r)))) = DevDraw 3 0"
    by code_simp
  then show ?thesis by (simp add: Let_def)
qed

end
